theory Spec2Isabelle
  imports Main "HOL-Library.Word" "HOL-Library.Sublist"
begin

section \<open>Strings and the Go standard library\<close>

text \<open>
  Go strings are byte sequences, modelled as \<open>string\<close>. \<open>strings.Contains\<close> is
  byte-wise and is defined here. The other library functions the code calls
  (\<open>strings.ToLower\<close>, \<open>strings.TrimSpace\<close>, \<open>json.Valid\<close>, \<open>path.Join\<close>, the
  tool-spec parser and the CFF parser) are not part of the repository: they are
  collected in the record \<open>stdlib\<close> and every theorem holds for any choice of them.
\<close>

fun Contains :: "string \<Rightarrow> string \<Rightarrow> bool" where
  "Contains [] substr = (substr = [])"
| "Contains (c # s) substr = (prefix substr (c # s) \<or> Contains s substr)"

function digits :: "nat \<Rightarrow> string" where
  "digits n = (if n < 10 then [char_of (48 + n)] else digits (n div 10) @ [char_of (48 + n mod 10)])"
  by pat_completeness auto
termination
  by (relation "measure (\<lambda>n. n)") auto

definition show_int :: "int \<Rightarrow> string" where
  \<comment> \<open>the verb \<open>%d\<close> of \<open>fmt\<close> on a signed integer\<close>
  "show_int i = (if i < 0 then CHR ''-'' # digits (nat (- i)) else digits (nat i))"

definition show_error :: "string option \<Rightarrow> string" where
  \<comment> \<open>the verb \<open>%v\<close> of \<open>fmt\<close> on a value of type \<open>error\<close>\<close>
  "show_error e = (case e of None \<Rightarrow> ''<nil>'' | Some m \<Rightarrow> m)"

record ToolSpec =
  ts_ID :: string
  ts_Name :: string
  ts_Title :: string
  ts_Description :: string
  ts_Citation :: "string option"

record SpecFile =
  Tools :: "(string \<times> ToolSpec) list"

record stdlib =
  ToLower :: "string \<Rightarrow> string"
  TrimSpace :: "string \<Rightarrow> string"
  json_Valid :: "string \<Rightarrow> bool"
  path_Join :: "string \<Rightarrow> string \<Rightarrow> string"
  LoadToolSpec :: "string \<Rightarrow> string + SpecFile"
  cff_Parse :: "string \<Rightarrow> string + string"

text \<open>An ASCII instance of the library, used to run the model on concrete inputs.\<close>

definition ascii_lower :: "char \<Rightarrow> char" where
  "ascii_lower c = (let n = (of_char c :: nat) in if 65 \<le> n \<and> n \<le> 90 then char_of (n + 32) else c)"

definition is_space :: "char \<Rightarrow> bool" where
  "is_space c = ((of_char c :: nat) \<in> {9, 10, 11, 12, 13, 32})"

definition ascii_trim :: "string \<Rightarrow> string" where
  "ascii_trim s = rev (dropWhile is_space (rev (dropWhile is_space s)))"

definition ascii_lib :: stdlib where
  "ascii_lib = \<lparr> ToLower = map ascii_lower, TrimSpace = ascii_trim,
       json_Valid = (\<lambda>s. s \<noteq> []), path_Join = (\<lambda>d f. d @ ''/'' @ f),
       LoadToolSpec = (\<lambda>s. if s = ''tools'' then Inr \<lparr> Tools = [] \<rparr> else Inl ''invalid yaml''),
       cff_Parse = (\<lambda>s. Inr s) \<rparr>"

section \<open>Persistence: the queries of \<open>sql/queries/runs.sql\<close>\<close>

text \<open>
  The tables hold the columns the queries read or write. A nullable column is an
  \<open>option\<close>. \<open>datetime('now')\<close> reads the field \<open>clock\<close>. A \<open>:one\<close> query returns
  its first row, or \<open>ErrNoRows\<close> when there is none.
\<close>

record user_row =
  u_id :: string
  is_admin :: "bool option"

record run_row =
  r_id :: int
  user_id :: string
  status :: string
  started_at :: "nat option"
  finished_at :: "nat option"
  has_errored :: bool
  error_message :: "string option"
  gotap_metadata :: "string option"

record database =
  users :: "user_row list"
  runs :: "run_row list"
  clock :: nat

datatype db_error = ErrNoRows | DriverError string

definition admin_subquery :: "database \<Rightarrow> string \<Rightarrow> bool option" where
  \<comment> \<open>\<open>(SELECT u.is_admin FROM users u WHERE u.id = ?)\<close>: the first row, or NULL\<close>
  "admin_subquery d uid =
     (case filter (\<lambda>u. u_id u = uid) (users d) of [] \<Rightarrow> None | u # _ \<Rightarrow> is_admin u)"

definition may_access :: "database \<Rightarrow> string \<Rightarrow> string \<Rightarrow> run_row \<Rightarrow> bool" where
  \<comment> \<open>\<open>(SELECT ...) = TRUE OR r.user_id = ?\<close>; a NULL disjunct does not select the row\<close>
  "may_access d admin_arg owner_arg r =
     (admin_subquery d admin_arg = Some True \<or> user_id r = owner_arg)"

definition one :: "run_row list \<Rightarrow> db_error + run_row" where
  "one rows = (case rows of [] \<Rightarrow> Inl ErrNoRows | r # _ \<Rightarrow> Inr r)"

text \<open>
  A query takes the values of its placeholders in the order in which they occur in
  its text. The placeholder inside the admin subquery (\<open>u.id = ?\<close>) and the one
  compared with the owner (\<open>user_id = ?\<close>) are two placeholders: \<open>admin_arg\<close> and
  \<open>owner_arg\<close>.
\<close>

definition GetRun :: "database \<Rightarrow> int \<Rightarrow> string \<Rightarrow> string \<Rightarrow> db_error + run_row" where
  "GetRun d i admin_arg owner_arg =
     one (filter (\<lambda>r. r_id r = i \<and> may_access d admin_arg owner_arg r) (runs d))"

definition DeleteRun :: "database \<Rightarrow> int \<Rightarrow> string \<Rightarrow> string \<Rightarrow> database" where
  "DeleteRun d i admin_arg owner_arg =
     d\<lparr>runs := filter (\<lambda>r. \<not> (r_id r = i \<and> may_access d admin_arg owner_arg r)) (runs d)\<rparr>"

definition GetAllRuns :: "database \<Rightarrow> string \<Rightarrow> string \<Rightarrow> run_row list" where
  "GetAllRuns d admin_arg owner_arg = filter (\<lambda>r. may_access d admin_arg owner_arg r) (runs d)"

definition GetIdleRuns :: "database \<Rightarrow> string \<Rightarrow> string \<Rightarrow> run_row list" where
  "GetIdleRuns d admin_arg owner_arg =
     filter (\<lambda>r. status r = ''pending'' \<and> may_access d admin_arg owner_arg r) (runs d)"

definition GetRunning :: "database \<Rightarrow> string \<Rightarrow> string \<Rightarrow> run_row list" where
  "GetRunning d admin_arg owner_arg =
     filter (\<lambda>r. status r = ''running'' \<and> may_access d admin_arg owner_arg r) (runs d)"

definition GetFinishedRuns :: "database \<Rightarrow> string \<Rightarrow> string \<Rightarrow> run_row list" where
  "GetFinishedRuns d admin_arg owner_arg =
     filter (\<lambda>r. status r = ''finished'' \<and> may_access d admin_arg owner_arg r) (runs d)"

definition GetErroredRuns :: "database \<Rightarrow> string \<Rightarrow> string \<Rightarrow> run_row list" where
  "GetErroredRuns d admin_arg owner_arg =
     filter (\<lambda>r. status r = ''errored'' \<and> may_access d admin_arg owner_arg r) (runs d)"

definition update_where :: "(run_row \<Rightarrow> bool) \<Rightarrow> (run_row \<Rightarrow> run_row) \<Rightarrow> database \<Rightarrow> db_error + database \<times> run_row" where
  \<comment> \<open>\<open>UPDATE runs SET ... WHERE ... RETURNING *\<close> as a \<open>:one\<close> query\<close>
  "update_where P f d =
     (case one (map f (filter P (runs d))) of
        Inl e \<Rightarrow> Inl e
      | Inr r \<Rightarrow> Inr (d\<lparr>runs := map (\<lambda>r. if P r then f r else r) (runs d)\<rparr>, r))"

definition StartRun :: "database \<Rightarrow> int \<Rightarrow> string \<Rightarrow> string \<Rightarrow> db_error + database \<times> run_row" where
  "StartRun d i admin_arg owner_arg =
     update_where (\<lambda>r. r_id r = i \<and> may_access d admin_arg owner_arg r)
       (\<lambda>r. r\<lparr>status := ''running'', started_at := Some (clock d)\<rparr>) d"

definition FinishRun :: "database \<Rightarrow> int \<Rightarrow> db_error + database \<times> run_row" where
  "FinishRun d i =
     update_where (\<lambda>r. r_id r = i)
       (\<lambda>r. r\<lparr>status := ''finished'', finished_at := Some (clock d)\<rparr>) d"

definition RunErrored :: "database \<Rightarrow> int \<Rightarrow> string option \<Rightarrow> db_error + database \<times> run_row" where
  "RunErrored d i msg =
     update_where (\<lambda>r. r_id r = i)
       (\<lambda>r. r\<lparr>status := ''errored'', error_message := msg, finished_at := Some (clock d),
              has_errored := True\<rparr>) d"

definition SetRunGotapMetadata :: "database \<Rightarrow> int \<Rightarrow> string option \<Rightarrow> db_error + database \<times> run_row" where
  "SetRunGotapMetadata d i md =
     update_where (\<lambda>r. r_id r = i) (\<lambda>r. r\<lparr>gotap_metadata := md\<rparr>) d"

subsection \<open>The calls as the sources make them\<close>

text \<open>
  The package \<open>db\<close> that is generated from the queries is not among the sources; its
  callers are. A query with several placeholders takes a parameter struct with one
  field for each, and every caller sets the fields \<open>ID\<close> and \<open>UserID\<close> and no other:
  \<open>db.GetRunParams{ID: id, UserID: userID}\<close>, \<open>db.DeleteRunParams{ID: tool.ID, UserID: user_id}\<close>,
  \<open>db.StartRunParams{ID: opt.Tool.ID, UserID: opt.UserId}\<close>, \<open>db.GetAllRunsParams{UserID: user_id}\<close>.
  \<open>UserID\<close> is the field of the placeholder compared with \<open>user_id\<close>. The field of the
  placeholder in the admin subquery is never set and keeps its zero value, the empty
  string: the admin subquery is evaluated for the user id \<open>''\<close>, not for the caller.
\<close>

definition unset_field :: string where
  "unset_field = ''''"

definition GetRun_call :: "database \<Rightarrow> int \<Rightarrow> string \<Rightarrow> db_error + run_row" where
  "GetRun_call d i uid = GetRun d i unset_field uid"

definition DeleteRun_call :: "database \<Rightarrow> int \<Rightarrow> string \<Rightarrow> database" where
  "DeleteRun_call d i uid = DeleteRun d i unset_field uid"

definition GetAllRuns_call :: "database \<Rightarrow> string \<Rightarrow> run_row list" where
  "GetAllRuns_call d uid = GetAllRuns d unset_field uid"

definition GetIdleRuns_call :: "database \<Rightarrow> string \<Rightarrow> run_row list" where
  "GetIdleRuns_call d uid = GetIdleRuns d unset_field uid"

definition GetRunning_call :: "database \<Rightarrow> string \<Rightarrow> run_row list" where
  "GetRunning_call d uid = GetRunning d unset_field uid"

definition GetFinishedRuns_call :: "database \<Rightarrow> string \<Rightarrow> run_row list" where
  "GetFinishedRuns_call d uid = GetFinishedRuns d unset_field uid"

definition GetErroredRuns_call :: "database \<Rightarrow> string \<Rightarrow> run_row list" where
  "GetErroredRuns_call d uid = GetErroredRuns d unset_field uid"

definition StartRun_call :: "database \<Rightarrow> int \<Rightarrow> string \<Rightarrow> db_error + database \<times> run_row" where
  "StartRun_call d i uid = StartRun d i unset_field uid"

section \<open>Container runtime\<close>

text \<open>
  The Docker daemon is outside the program. Its answers during the life of one
  container are a \<open>container_script\<close>: the result of create (an error or the
  container id), of start, of wait (what arrives on the error channel or on the status
  channel), of opening the log stream, and of \<open>stdcopy.StdCopy\<close> (the two buffers as
  far as they were filled, and its error). A \<open>daemon\<close> gives the script of the
  container created from an image, an entrypoint and a command.

  The calls made are recorded as a trace of events. A deferred call is recorded
  when the function that deferred it returns. The event of a database call carries
  the error the call returned. Output to standard output is not recorded.
\<close>

datatype wait_result = WaitErr "string option" | WaitStatus "string option" "64 word"

record container_script =
  create_res :: "string + string"
  start_res :: "string option"
  wait_res :: wait_result
  logs_res :: "string option"
  stdcopy_res :: "string \<times> string \<times> string option"

type_synonym daemon = "string \<Rightarrow> string list \<Rightarrow> string list \<Rightarrow> container_script"

record Mount =
  Source :: string
  Target :: string

datatype event =
    ContainerCreate string "string list" "string list" "Mount list"
  | ContainerStart string
  | ContainerWait string
  | ContainerLogs string
  | StdCopy string
  | LogsClose string
  | ContainerRemove string
  | ClientClose
  | DBStartRun int string "string option"
  | DBFinishRun int "string option"
  | DBRunErrored int string "string option"
  | DBSetRunGotapMetadata int string "string option"
  | WriteFile string string
  | ReadFile string
  | LogPrintf string

type_synonym command_result = "string \<times> string \<times> 64 word \<times> string option"

definition collect_logs :: "container_script \<Rightarrow> string \<Rightarrow> 64 word \<Rightarrow> event list \<times> command_result" where
  \<comment> \<open>\<open>runContainerCommand\<close> from \<open>ContainerLogs\<close> on; \<open>logReader.Close\<close> is deferred\<close>
  "collect_logs k cid exitCode =
     (case logs_res k of
        Some err \<Rightarrow> ([ContainerLogs cid], ('''', '''', exitCode, Some err))
      | None \<Rightarrow>
          (case stdcopy_res k of (out, serr, cerr) \<Rightarrow>
             ([ContainerLogs cid, StdCopy cid, LogsClose cid],
              (case cerr of
                 Some err \<Rightarrow> ('''', '''', exitCode, Some err)
               | None \<Rightarrow> (out, serr, exitCode, None)))))"

definition start_and_wait :: "container_script \<Rightarrow> string \<Rightarrow> event list \<times> command_result" where
  \<comment> \<open>\<open>runContainerCommand\<close> after a successful create, without the deferred remove\<close>
  "start_and_wait k cid =
     (case start_res k of
        Some err \<Rightarrow> ([ContainerStart cid], ('''', '''', 0, Some err))
      | None \<Rightarrow>
          (case wait_res k of
             WaitErr (Some err) \<Rightarrow> ([ContainerStart cid, ContainerWait cid], ('''', '''', 0, Some err))
           | WaitErr None \<Rightarrow>
               (case collect_logs k cid 0 of (evs, r) \<Rightarrow> ([ContainerStart cid, ContainerWait cid] @ evs, r))
           | WaitStatus (Some msg) code \<Rightarrow>
               ([ContainerStart cid, ContainerWait cid],
                ('''', '''', code, Some (''container wait error: '' @ msg)))
           | WaitStatus None code \<Rightarrow>
               (case collect_logs k cid code of (evs, r) \<Rightarrow> ([ContainerStart cid, ContainerWait cid] @ evs, r))))"

definition runContainerCommand :: "daemon \<Rightarrow> string \<Rightarrow> string list \<Rightarrow> string list \<Rightarrow> event list \<times> command_result" where
  "runContainerCommand dk imageName entrypoint cmd =
     (case create_res (dk imageName entrypoint cmd) of
        Inl err \<Rightarrow> ([ContainerCreate imageName entrypoint cmd []], ('''', '''', 0, Some err))
      | Inr cid \<Rightarrow>
          (case start_and_wait (dk imageName entrypoint cmd) cid of
             (evs, r) \<Rightarrow> ([ContainerCreate imageName entrypoint cmd []] @ evs @ [ContainerRemove cid], r)))"

definition detect_cmd :: string where
  "detect_cmd = ''command -v gotap || which gotap''"

definition ProbeGotap :: "stdlib \<Rightarrow> daemon \<Rightarrow> string \<Rightarrow> event list \<times> (string \<times> bool \<times> string option)" where
  "ProbeGotap lib dk imageName =
     (case runContainerCommand dk imageName [''sh'', ''-lc''] [detect_cmd] of
        (evs, (stdout, serr, exitCode, err)) \<Rightarrow>
          if err \<noteq> None then (evs, ('''', False, err))
          else if exitCode \<noteq> 0 then (evs, ('''', False, None))
          else (let gotapPath = TrimSpace lib stdout in
                if gotapPath = '''' then (evs, ('''', False, None))
                else (evs, (gotapPath, True, None))))"

section \<open>Specification probe: \<open>readToolSpec\<close>\<close>

text \<open>
  A command of the table is kept as the pair of \<open>cmd[0]\<close> and \<open>cmd[1:]\<close>, the way
  the loop passes it to \<open>runContainerCommand\<close>.
\<close>

fun try_commands :: "stdlib \<Rightarrow> daemon \<Rightarrow> string \<Rightarrow> (string \<times> string list) list \<Rightarrow> event list \<times> SpecFile option" where
  "try_commands lib dk imageName [] = ([], None)"
| "try_commands lib dk imageName ((c0, args) # cmds) =
     (case runContainerCommand dk imageName [c0] args of
        (evs, (stdout, serr, exitCode, cmdErr)) \<Rightarrow>
          if cmdErr \<noteq> None \<or> exitCode \<noteq> 0 \<or> TrimSpace lib stdout = ''''
          then (case try_commands lib dk imageName cmds of (evs', r) \<Rightarrow> (evs @ evs', r))
          else (case LoadToolSpec lib stdout of
                  Inr spec \<Rightarrow> (evs, Some spec)
                | Inl parseErr \<Rightarrow>
                    (case try_commands lib dk imageName cmds of (evs', r) \<Rightarrow> (evs @ evs', r))))"

definition shim_commands :: "string \<Rightarrow> (string \<times> string list) list" where
  "shim_commands gotapPath =
     [(gotapPath, [''metadata'', ''--spec-file'', ''/src/tool.yml'']),
      (gotapPath, [''parse'', ''--spec-file'', ''/src/tool.yml'']),
      (gotapPath, [''parse'', ''/src/tool.yml''])]"

definition cat_spec :: "stdlib \<Rightarrow> daemon \<Rightarrow> string \<Rightarrow> event list \<times> (string + SpecFile)" where
  \<comment> \<open>the fallback of \<open>readToolSpec\<close>: \<open>cat /src/tool.yml\<close>\<close>
  "cat_spec lib dk imageName =
     (case runContainerCommand dk imageName [''cat''] [''/src/tool.yml''] of
        (evs, (stdout, serr, exitCode, err)) \<Rightarrow>
          (evs,
           (case err of
              Some e \<Rightarrow> Inl e
            | None \<Rightarrow>
                if exitCode \<noteq> 0
                then Inl (''the container errored while identifying the tool spec: '' @ TrimSpace lib serr)
                else if TrimSpace lib stdout = '''' then Inl ''the container did not respond''
                else (case LoadToolSpec lib stdout of
                        Inl perr \<Rightarrow>
                          Inl (''the container '' @ imageName
                                 @ '' did not contain a valid tool-spec at /src/tool.yml: '' @ perr)
                      | Inr spec \<Rightarrow> Inr spec))))"

definition readToolSpec :: "stdlib \<Rightarrow> daemon \<Rightarrow> string \<Rightarrow> event list \<times> (string + SpecFile)" where
  "readToolSpec lib dk imageName =
     (case ProbeGotap lib dk imageName of
        (evs0, (gotapPath, gotapFound, err)) \<Rightarrow>
          (case err of
             Some e \<Rightarrow> (evs0, Inl e)
           | None \<Rightarrow>
               (case (if gotapFound then try_commands lib dk imageName (shim_commands gotapPath)
                      else ([], None)) of
                  (evs1, Some spec) \<Rightarrow> (evs0 @ evs1, Inr spec)
                | (evs1, None) \<Rightarrow>
                    (case cat_spec lib dk imageName of (evs2, r) \<Rightarrow> (evs0 @ evs1 @ evs2, r)))))"

definition accepted :: "stdlib \<Rightarrow> command_result \<Rightarrow> SpecFile option" where
  \<comment> \<open>in the words of the specification: the invocation exits zero and yields non-empty, parseable output\<close>
  "accepted lib r =
     (case r of (stdout, serr, exitCode, err) \<Rightarrow>
        if err = None \<and> exitCode = 0 \<and> TrimSpace lib stdout \<noteq> ''''
        then (case LoadToolSpec lib stdout of Inr spec \<Rightarrow> Some spec | Inl perr \<Rightarrow> None)
        else None)"

section \<open>Run execution engine: \<open>RunTool\<close>\<close>

text \<open>
  \<open>RunTool\<close> takes the database and returns its outcome, the database afterwards
  and the events in the order they happened. Besides the daemon its environment
  holds the result of opening the client, the script of the run's own container, the
  file system as \<open>os.ReadFile\<close> sees it, and the failures of the database driver:
  \<open>db_fault\<close> names the operations that fail before reaching the tables. An
  operation can also fail by its query, with \<open>ErrNoRows\<close>.

  \<open>log.Fatal\<close> ends the process with \<open>os.Exit(1)\<close>: nothing runs after it, and
  deferred calls do not run. The outcome \<open>Fatal\<close> carries its message; \<open>Returned\<close>
  carries the error \<open>RunTool\<close> returns (\<open>None\<close> is \<open>nil\<close>).
\<close>

record Tool =
  ID :: int
  Name :: string
  Image :: string
  Mounts :: "(string \<times> string) list"

record RunToolOptions =
  opt_Tool :: Tool
  Env :: "string list"
  Cmd :: "string list"
  UserId :: string

datatype file_read = NotExist | ReadError string | FileContent string

datatype db_op = OpStartRun | OpFinishRun | OpRunErrored | OpSetRunGotapMetadata

record run_env =
  new_client :: "string option"
  docker :: daemon
  run_container :: container_script
  read_file :: "string \<Rightarrow> file_read"
  db_fault :: "db_op \<Rightarrow> string option"

datatype outcome = Returned "string option" | Fatal string

type_synonym run_result = "outcome \<times> database \<times> event list"

definition outcome_of :: "run_result \<Rightarrow> outcome" where
  "outcome_of r = fst r"

definition db_of :: "run_result \<Rightarrow> database" where
  "db_of r = fst (snd r)"

definition events_of :: "run_result \<Rightarrow> event list" where
  "events_of r = snd (snd r)"

definition prepend :: "event list \<Rightarrow> run_result \<Rightarrow> run_result" where
  \<comment> \<open>the events that happened before the rest of the function ran\<close>
  "prepend evs r = (case r of (out, d, evs') \<Rightarrow> (out, d, evs @ evs'))"

definition deferred :: "event \<Rightarrow> run_result \<Rightarrow> run_result" where
  \<comment> \<open>a deferred call runs when the function returns, not when the process exits\<close>
  "deferred ev r =
     (case r of
        (Returned x, d, evs) \<Rightarrow> (Returned x, d, evs @ [ev])
      | (Fatal m, d, evs) \<Rightarrow> (Fatal m, d, evs))"

definition error_text :: "db_error \<Rightarrow> string" where
  "error_text e = (case e of ErrNoRows \<Rightarrow> ''sql: no rows in result set'' | DriverError m \<Rightarrow> m)"

definition db_exec :: "run_env \<Rightarrow> db_op \<Rightarrow> (database \<Rightarrow> db_error + database \<times> run_row) \<Rightarrow> database \<Rightarrow> string option \<times> database" where
  \<comment> \<open>one call of a query method: the error it returns, and the database afterwards\<close>
  "db_exec env op q d =
     (case db_fault env op of
        Some m \<Rightarrow> (Some m, d)
      | None \<Rightarrow> (case q d of Inl e \<Rightarrow> (Some (error_text e), d) | Inr (d', row) \<Rightarrow> (None, d')))"

definition errored_message :: "Tool \<Rightarrow> string option \<Rightarrow> string" where
  "errored_message t origError =
     ''the execution of the tool ('' @ Name t @ '') container ('' @ Image t
       @ '') errored unexpectedly: '' @ show_error origError"

definition updateDB :: "run_env \<Rightarrow> RunToolOptions \<Rightarrow> string \<Rightarrow> string option \<Rightarrow> database \<Rightarrow> string option \<times> database \<times> event list" where
  \<comment> \<open>the closure \<open>updateDB\<close>; the first component is the message of \<open>log.Fatal\<close>, if it was called\<close>
  "updateDB env opt st origError d =
     (if st = ''started'' then
        (case db_exec env OpStartRun (\<lambda>d. StartRun_call d (ID (opt_Tool opt)) (UserId opt)) d of
           (err, d') \<Rightarrow> (err, d', [DBStartRun (ID (opt_Tool opt)) (UserId opt) err]))
      else if st = ''finished'' then
        (case db_exec env OpFinishRun (\<lambda>d. FinishRun d (ID (opt_Tool opt))) d of
           (err, d') \<Rightarrow> (err, d', [DBFinishRun (ID (opt_Tool opt)) err]))
      else if st = ''errored'' then
        (case db_exec env OpRunErrored
                (\<lambda>d. RunErrored d (ID (opt_Tool opt)) (Some (errored_message (opt_Tool opt) origError))) d of
           (err, d') \<Rightarrow>
             (err, d', [DBRunErrored (ID (opt_Tool opt)) (errored_message (opt_Tool opt) origError) err]))
      else (None, d, []))"

definition errored_return :: "run_env \<Rightarrow> RunToolOptions \<Rightarrow> string \<Rightarrow> database \<Rightarrow> run_result" where
  \<comment> \<open>the two statements \<open>updateDB("errored", err); return err\<close>\<close>
  "errored_return env opt err d =
     (case updateDB env opt ''errored'' (Some err) d of
        (Some m, d', evs) \<Rightarrow> (Fatal m, d', evs)
      | (None, d', evs) \<Rightarrow> (Returned (Some err), d', evs))"

definition write_logs :: "stdlib \<Rightarrow> Mount list \<Rightarrow> string \<Rightarrow> string \<Rightarrow> string \<times> event list" where
  \<comment> \<open>the loop over \<open>mounts\<close> that stops at the first target \<open>/out\<close>; returns \<open>outDir\<close>\<close>
  "write_logs lib mounts out serr =
     (case find (\<lambda>m. Target m = ''/out'') mounts of
        None \<Rightarrow> ('''', [])
      | Some m \<Rightarrow>
          (Source m,
           [WriteFile (path_Join lib (Source m) ''STDOUT.log'') out,
            WriteFile (path_Join lib (Source m) ''STDERR.log'') serr]))"

definition read_metadata :: "stdlib \<Rightarrow> run_env \<Rightarrow> RunToolOptions \<Rightarrow> string \<Rightarrow> database \<Rightarrow> database \<times> event list" where
  \<comment> \<open>the block \<open>if outDir != ""\<close>\<close>
  "read_metadata lib env opt outDir d =
     (if outDir \<noteq> '''' then
        (let metadataPath = path_Join lib outDir ''_metadata.json'' in
         case read_file env metadataPath of
           FileContent metadataBytes \<Rightarrow>
             if json_Valid lib metadataBytes then
               (case db_exec env OpSetRunGotapMetadata
                       (\<lambda>d. SetRunGotapMetadata d (ID (opt_Tool opt)) (Some (TrimSpace lib metadataBytes))) d of
                  (dbErr, d') \<Rightarrow>
                    (d',
                     [ReadFile metadataPath,
                      DBSetRunGotapMetadata (ID (opt_Tool opt)) (TrimSpace lib metadataBytes) dbErr]
                       @ (case dbErr of
                            None \<Rightarrow> []
                          | Some m \<Rightarrow>
                              [LogPrintf (''failed to persist gotap metadata for run ''
                                 @ show_int (ID (opt_Tool opt)) @ '': '' @ m)])))
             else (d, [ReadFile metadataPath, LogPrintf (''invalid gotap metadata JSON at '' @ metadataPath)])
         | NotExist \<Rightarrow> (d, [ReadFile metadataPath])
         | ReadError m \<Rightarrow>
             (d, [ReadFile metadataPath,
                  LogPrintf (''failed reading gotap metadata at '' @ metadataPath @ '': '' @ m)]))
      else (d, []))"

definition exit_message :: "string \<Rightarrow> 64 word \<Rightarrow> string" where
  "exit_message runMode exitCode = runMode @ '' execution exited with status '' @ show_int (sint exitCode)"

definition final_transition :: "run_env \<Rightarrow> RunToolOptions \<Rightarrow> string \<Rightarrow> 64 word \<Rightarrow> database \<Rightarrow> run_result" where
  \<comment> \<open>the last statements of \<open>RunTool\<close>, from \<open>if exitCode != 0\<close>\<close>
  "final_transition env opt runMode exitCode d =
     (if exitCode \<noteq> 0 then errored_return env opt (exit_message runMode exitCode) d
      else (case updateDB env opt ''finished'' None d of
              (Some m, d', evs) \<Rightarrow> (Fatal m, d', evs)
            | (None, d', evs) \<Rightarrow> (Returned None, d', evs)))"

definition after_logs :: "stdlib \<Rightarrow> run_env \<Rightarrow> RunToolOptions \<Rightarrow> Mount list \<Rightarrow> string \<Rightarrow> 64 word \<Rightarrow> string \<Rightarrow> string \<Rightarrow> database \<Rightarrow> run_result" where
  \<comment> \<open>\<open>RunTool\<close> after a successful \<open>StdCopy\<close>: log files, metadata, final transition\<close>
  "after_logs lib env opt mounts runMode exitCode out serr d =
     (case write_logs lib mounts out serr of
        (outDir, evs) \<Rightarrow>
          (case read_metadata lib env opt outDir d of
             (d1, evs1) \<Rightarrow> prepend (evs @ evs1) (final_transition env opt runMode exitCode d1)))"

definition after_wait :: "stdlib \<Rightarrow> run_env \<Rightarrow> RunToolOptions \<Rightarrow> Mount list \<Rightarrow> string \<Rightarrow> string \<Rightarrow> 64 word \<Rightarrow> database \<Rightarrow> run_result" where
  \<comment> \<open>\<open>RunTool\<close> from \<open>ContainerLogs\<close> to the end; \<open>logReader.Close\<close> is deferred\<close>
  "after_wait lib env opt mounts runMode cid exitCode d =
     (case logs_res (run_container env) of
        Some err \<Rightarrow> (Returned (Some err), d, [ContainerLogs cid])
      | None \<Rightarrow>
          deferred (LogsClose cid)
            (prepend [ContainerLogs cid, StdCopy cid]
               (case stdcopy_res (run_container env) of
                  (out, serr, cerr) \<Rightarrow>
                    (case cerr of
                       Some err \<Rightarrow> errored_return env opt err d
                     | None \<Rightarrow> after_logs lib env opt mounts runMode exitCode out serr d))))"

definition after_start :: "stdlib \<Rightarrow> run_env \<Rightarrow> RunToolOptions \<Rightarrow> Mount list \<Rightarrow> string \<Rightarrow> string \<Rightarrow> database \<Rightarrow> run_result" where
  \<comment> \<open>\<open>RunTool\<close> from \<open>ContainerWait\<close> on: the \<open>select\<close> over the two channels\<close>
  "after_start lib env opt mounts runMode cid d =
     prepend [ContainerWait cid]
       (case wait_res (run_container env) of
          WaitErr (Some err) \<Rightarrow> errored_return env opt err d
        | WaitErr None \<Rightarrow> after_wait lib env opt mounts runMode cid 0 d
        | WaitStatus (Some msg) code \<Rightarrow> errored_return env opt msg d
        | WaitStatus None code \<Rightarrow> after_wait lib env opt mounts runMode cid code d)"

definition after_create :: "stdlib \<Rightarrow> run_env \<Rightarrow> RunToolOptions \<Rightarrow> Mount list \<Rightarrow> string \<Rightarrow> string \<Rightarrow> database \<Rightarrow> run_result" where
  \<comment> \<open>\<open>RunTool\<close> from \<open>ContainerStart\<close> on\<close>
  "after_create lib env opt mounts runMode cid d =
     prepend [ContainerStart cid]
       (case start_res (run_container env) of
          Some err \<Rightarrow> errored_return env opt err d
        | None \<Rightarrow>
            (case updateDB env opt ''started'' None d of
               (Some m, d', evs) \<Rightarrow> (Fatal m, d', evs)
             | (None, d', evs) \<Rightarrow> prepend evs (after_start lib env opt mounts runMode cid d')))"

definition create_container :: "stdlib \<Rightarrow> run_env \<Rightarrow> RunToolOptions \<Rightarrow> Mount list \<Rightarrow> string \<Rightarrow> string list \<Rightarrow> string list \<Rightarrow> database \<Rightarrow> run_result" where
  \<comment> \<open>\<open>RunTool\<close> from \<open>ContainerCreate\<close> on, with the resolved run mode, entrypoint and command;
      \<open>ContainerRemove\<close> is deferred\<close>
  "create_container lib env opt mounts runMode entrypoint cmd d =
     prepend [ContainerCreate (Image (opt_Tool opt)) entrypoint cmd mounts]
       (case create_res (run_container env) of
          Inl err \<Rightarrow> errored_return env opt err d
        | Inr cid \<Rightarrow> deferred (ContainerRemove cid) (after_create lib env opt mounts runMode cid d))"

definition build_mounts :: "(string \<times> string) list \<Rightarrow> Mount list" where
  "build_mounts ms = map (\<lambda>(containerPath, hostPath). \<lparr>Source = hostPath, Target = containerPath\<rparr>) ms"

definition gotap_cmd :: "Tool \<Rightarrow> string list" where
  "gotap_cmd t = [''run'', Name t, ''--input-file'', ''/in/inputs.json'',
                  ''--spec-file'', ''/src/tool.yml'', ''--output-folder'', ''/out'']"

definition RunTool :: "stdlib \<Rightarrow> run_env \<Rightarrow> RunToolOptions \<Rightarrow> database \<Rightarrow> run_result" where
  "RunTool lib env opt d =
     (case new_client env of
        Some err \<Rightarrow> (Returned (Some err), d, [])
      | None \<Rightarrow>
          deferred ClientClose
            (let tool = opt_Tool opt;
                 mounts = build_mounts (Mounts tool)
             in if Cmd opt \<noteq> [] then create_container lib env opt mounts ''default'' [] (Cmd opt) d
                else (case ProbeGotap lib (docker env) (Image tool) of
                        (evs, (gotapPath, gotapFound, probeErr)) \<Rightarrow>
                          prepend evs
                            (case probeErr of
                               Some err \<Rightarrow> errored_return env opt err d
                             | None \<Rightarrow>
                                 if gotapFound
                                 then create_container lib env opt mounts ''gotap'' [gotapPath] (gotap_cmd tool) d
                                 else create_container lib env opt mounts ''default'' [] [] d))))"

text \<open>What \<open>RunTool\<close> resolves before it creates the container, for stating its properties.\<close>

definition probe_error :: "stdlib \<Rightarrow> run_env \<Rightarrow> RunToolOptions \<Rightarrow> string option" where
  "probe_error lib env opt = snd (snd (snd (ProbeGotap lib (docker env) (Image (opt_Tool opt)))))"

definition probe_found :: "stdlib \<Rightarrow> run_env \<Rightarrow> RunToolOptions \<Rightarrow> bool" where
  "probe_found lib env opt = fst (snd (snd (ProbeGotap lib (docker env) (Image (opt_Tool opt)))))"

definition probe_path :: "stdlib \<Rightarrow> run_env \<Rightarrow> RunToolOptions \<Rightarrow> string" where
  "probe_path lib env opt = fst (snd (ProbeGotap lib (docker env) (Image (opt_Tool opt))))"

definition probe_events :: "stdlib \<Rightarrow> run_env \<Rightarrow> RunToolOptions \<Rightarrow> event list" where
  "probe_events lib env opt =
     (if Cmd opt \<noteq> [] then [] else fst (ProbeGotap lib (docker env) (Image (opt_Tool opt))))"

definition run_mode :: "stdlib \<Rightarrow> run_env \<Rightarrow> RunToolOptions \<Rightarrow> string" where
  "run_mode lib env opt =
     (if Cmd opt \<noteq> [] then ''default'' else if probe_found lib env opt then ''gotap'' else ''default'')"

definition run_entrypoint :: "stdlib \<Rightarrow> run_env \<Rightarrow> RunToolOptions \<Rightarrow> string list" where
  "run_entrypoint lib env opt =
     (if Cmd opt \<noteq> [] then [] else if probe_found lib env opt then [probe_path lib env opt] else [])"

definition run_cmd :: "stdlib \<Rightarrow> run_env \<Rightarrow> RunToolOptions \<Rightarrow> string list" where
  "run_cmd lib env opt =
     (if Cmd opt \<noteq> [] then Cmd opt else if probe_found lib env opt then gotap_cmd (opt_Tool opt) else [])"

definition reaches_create :: "stdlib \<Rightarrow> run_env \<Rightarrow> RunToolOptions \<Rightarrow> bool" where
  \<comment> \<open>the client opens and, when the shim is probed, the probe returns no error\<close>
  "reaches_create lib env opt =
     (new_client env = None \<and> (Cmd opt = [] \<longrightarrow> probe_error lib env opt = None))"

definition started :: "stdlib \<Rightarrow> run_env \<Rightarrow> RunToolOptions \<Rightarrow> string \<Rightarrow> bool" where
  \<comment> \<open>the container is created with id \<open>cid\<close> and starts\<close>
  "started lib env opt cid =
     (reaches_create lib env opt \<and> create_res (run_container env) = Inr cid
      \<and> start_res (run_container env) = None)"

section \<open>Discovery: \<open>ReadAllTools\<close>\<close>

text \<open>
  Modelled from the spec: the package \<open>cache\<close> is not among the sources. Its
  contract (section 4.1) is a store from image reference to image spec and from tool
  slug to tool spec, with a flag \<open>Initialised\<close>; a set overwrites.
\<close>

record Cache =
  image_specs :: "string \<rightharpoonup> SpecFile"
  tool_specs :: "string \<rightharpoonup> ToolSpec"
  Initialised :: bool

definition GetImageSpec :: "Cache \<Rightarrow> string \<Rightarrow> SpecFile option" where
  "GetImageSpec c tag = image_specs c tag"

definition SetImageSpec :: "Cache \<Rightarrow> string \<Rightarrow> SpecFile \<Rightarrow> Cache" where
  "SetImageSpec c tag spec = c\<lparr>image_specs := (image_specs c)(tag \<mapsto> spec)\<rparr>"

definition SetToolSpec :: "Cache \<Rightarrow> string \<Rightarrow> ToolSpec \<Rightarrow> Cache" where
  "SetToolSpec c sl spec = c\<lparr>tool_specs := (tool_specs c)(sl \<mapsto> spec)\<rparr>"

definition citation_body :: "stdlib \<Rightarrow> container_script \<Rightarrow> string \<Rightarrow> string \<Rightarrow> event list \<times> (string \<times> string option)" where
  \<comment> \<open>\<open>readToolCitation\<close> after a successful create, without the deferred remove\<close>
  "citation_body lib k imageName cid =
     (case start_res k of
        Some err \<Rightarrow> ([ContainerStart cid], ('''', Some err))
      | None \<Rightarrow>
          (case wait_res k of
             WaitErr err \<Rightarrow> ([ContainerStart cid, ContainerWait cid], ('''', err))
           | WaitStatus msg code \<Rightarrow>
               (case logs_res k of
                  Some err \<Rightarrow> ([ContainerStart cid, ContainerWait cid, ContainerLogs cid], ('''', Some err))
                | None \<Rightarrow>
                    (case stdcopy_res k of (out, serr, cerr) \<Rightarrow>
                       ([ContainerStart cid, ContainerWait cid, ContainerLogs cid, StdCopy cid, LogsClose cid],
                        if serr \<noteq> '''' then ('''', Some (''Error while reading CITATION.cff: '' @ serr))
                        else if out = ''''
                        then ('''', Some (''No CITATION.cff found in the container '' @ imageName))
                        else (case cff_Parse lib out of
                                Inl e \<Rightarrow> ('''', Some (''Error while parsing CITATION.cff: '' @ e))
                              | Inr citation \<Rightarrow> (citation, None)))))))"

definition readToolCitation :: "stdlib \<Rightarrow> daemon \<Rightarrow> string \<Rightarrow> event list \<times> (string \<times> string option)" where
  "readToolCitation lib dk imageName =
     (case create_res (dk imageName [''cat''] [''/src/CITATION.cff'']) of
        Inl err \<Rightarrow> ([ContainerCreate imageName [''cat''] [''/src/CITATION.cff''] []], ('''', Some err))
      | Inr cid \<Rightarrow>
          (case citation_body lib (dk imageName [''cat''] [''/src/CITATION.cff'']) imageName cid of
             (evs, r) \<Rightarrow>
               ([ContainerCreate imageName [''cat''] [''/src/CITATION.cff''] []] @ evs @ [ContainerRemove cid], r)))"

record result =
  res_tools :: "string list"
  res_err :: "string option"

definition slug :: "string \<Rightarrow> string \<Rightarrow> string" where
  "slug tag name = tag @ ''::'' @ name"

fun insert_tools :: "string \<Rightarrow> string option \<Rightarrow> (string \<times> ToolSpec) list \<Rightarrow> Cache \<Rightarrow> string list \<Rightarrow> Cache \<times> string list" where
  \<comment> \<open>the loops over \<open>spec.Tools\<close>; the citation is attached when there is one\<close>
  "insert_tools tag cit [] c tools = (c, tools)"
| "insert_tools tag cit ((name, tool) # rest) c tools =
     (let tool1 = tool\<lparr>ts_ID := slug tag name\<rparr>;
          tool2 = (case cit of None \<Rightarrow> tool1 | Some citation \<Rightarrow> tool1\<lparr>ts_Citation := Some citation\<rparr>)
      in insert_tools tag cit rest (SetToolSpec c (slug tag name) tool2) (tools @ [slug tag name]))"

text \<open>
  The environment of a discovery pass: the result of opening the client and of
  \<open>ImageList\<close> (the \<open>RepoTags\<close> of each image), the result of opening the client
  inside the goroutine of a tag, the daemon, the order in which the goroutines
  complete, the iterations at which the \<open>select\<close> takes \<open>ctx.Done()\<close>, and the text of
  \<open>ctx.Err()\<close>. Each goroutine runs as one step in the order of completion; the cache
  returned is the one after all of them.
\<close>

record disc_env =
  list_client :: "string option"
  image_list :: "string + string list list"
  worker_client :: "string \<Rightarrow> string option"
  disc_docker :: daemon
  completion :: "string list \<Rightarrow> string list"
  ctx_done :: "nat \<Rightarrow> bool"
  ctx_err :: string

definition probe_image :: "stdlib \<Rightarrow> disc_env \<Rightarrow> bool \<Rightarrow> string \<Rightarrow> Cache \<Rightarrow> Cache \<times> event list \<times> result" where
  \<comment> \<open>the goroutine of one tag, and the result it sends\<close>
  "probe_image lib env verbose tag c =
     (case GetImageSpec c tag of
        Some cached \<Rightarrow>
          (case insert_tools tag None (Tools cached) c [] of
             (c', tools) \<Rightarrow> (c', [], \<lparr>res_tools = tools, res_err = None\<rparr>))
      | None \<Rightarrow>
          (case worker_client env tag of
             Some err \<Rightarrow> (c, [], \<lparr>res_tools = [], res_err = Some err\<rparr>)
           | None \<Rightarrow>
               (case readToolSpec lib (disc_docker env) tag of
                  (evs, Inl err) \<Rightarrow>
                    (c,
                     evs @ (if verbose then [LogPrintf (''image '' @ tag @ '' does not contain a tool-spec'')] else [])
                       @ [ClientClose],
                     \<lparr>res_tools = [], res_err = None\<rparr>)
                | (evs, Inr spec) \<Rightarrow>
                    (case readToolCitation lib (disc_docker env) tag of
                       (evs2, (citation, citationErr)) \<Rightarrow>
                         (case insert_tools tag (if citationErr = None then Some citation else None)
                                 (Tools spec) (SetImageSpec c tag spec) [] of
                            (c', tools) \<Rightarrow>
                              (c',
                               evs @ evs2
                                 @ (if citationErr \<noteq> None \<and> verbose
                                    then [LogPrintf (''image '' @ tag @ '' does not contain a CITATION.cff'')]
                                    else [])
                                 @ [ClientClose],
                               \<lparr>res_tools = tools, res_err = None\<rparr>))))))"

fun run_workers :: "stdlib \<Rightarrow> disc_env \<Rightarrow> bool \<Rightarrow> string list \<Rightarrow> Cache \<Rightarrow> Cache \<times> event list \<times> result list" where
  "run_workers lib env verbose [] c = (c, [], [])"
| "run_workers lib env verbose (tag # tags) c =
     (case probe_image lib env verbose tag c of
        (c1, evs1, r) \<Rightarrow>
          (case run_workers lib env verbose tags c1 of
             (c2, evs2, rs) \<Rightarrow> (c2, evs1 @ evs2, r # rs)))"

fun collect :: "disc_env \<Rightarrow> nat \<Rightarrow> result list \<Rightarrow> string list \<Rightarrow> string + string list" where
  \<comment> \<open>the loop that receives one result per image\<close>
  "collect env i [] allTools = Inr allTools"
| "collect env i (res # rest) allTools =
     (if ctx_done env i then Inl (ctx_err env)
      else (case res_err res of
              Some e \<Rightarrow> Inl e
            | None \<Rightarrow> collect env (Suc i) rest (allTools @ res_tools res)))"

definition imagesWithTags :: "string list list \<Rightarrow> string list" where
  "imagesWithTags summary = map hd (filter (\<lambda>repoTags. length repoTags > 0) summary)"

definition ReadAllTools :: "stdlib \<Rightarrow> disc_env \<Rightarrow> Cache \<Rightarrow> bool \<Rightarrow> Cache \<times> event list \<times> (string + string list)" where
  "ReadAllTools lib env c verbose =
     (case list_client env of
        Some err \<Rightarrow> (c, [], Inl err)
      | None \<Rightarrow>
          (case image_list env of
             Inl err \<Rightarrow> (c, [ClientClose], Inl err)
           | Inr summary \<Rightarrow>
               (case run_workers lib env verbose (completion env (imagesWithTags summary)) c of
                  (c', evs, results) \<Rightarrow>
                    (case collect env 0 results [] of
                       Inl err \<Rightarrow> (c', evs @ [ClientClose], Inl err)
                     | Inr allTools \<Rightarrow> (c'\<lparr>Initialised := True\<rparr>, evs @ [ClientClose], Inr allTools)))))"

section \<open>Service layer: \<open>Service.ListToolSpecs\<close>\<close>

text \<open>
  \<open>specs\<close> is what \<open>Cache.ListToolSpecs()\<close> returned. The loop appends the matching
  specs in order.
\<close>

fun ListToolSpecs_loop :: "stdlib \<Rightarrow> string \<Rightarrow> ToolSpec list \<Rightarrow> ToolSpec list \<Rightarrow> ToolSpec list" where
  "ListToolSpecs_loop lib needle [] out = out"
| "ListToolSpecs_loop lib needle (spec # specs) out =
     (if Contains (ToLower lib (ts_Name spec)) needle \<or> Contains (ToLower lib (ts_Title spec)) needle
      then ListToolSpecs_loop lib needle specs (out @ [spec])
      else ListToolSpecs_loop lib needle specs out)"

definition ListToolSpecs :: "stdlib \<Rightarrow> ToolSpec list \<Rightarrow> string \<Rightarrow> ToolSpec list" where
  "ListToolSpecs lib specs filter_arg =
     (if filter_arg = '''' then specs
      else ListToolSpecs_loop lib (ToLower lib filter_arg) specs [])"

definition ci_substring :: "stdlib \<Rightarrow> string \<Rightarrow> string \<Rightarrow> bool" where
  \<comment> \<open>the spec's words: after case folding, the filter occurs in the text as a contiguous substring\<close>
  "ci_substring lib text_arg flt = (\<exists>before after. ToLower lib text_arg = before @ ToLower lib flt @ after)"

section \<open>Kinds of events\<close>

definition failed_transition :: "event \<Rightarrow> string \<Rightarrow> bool" where
  \<comment> \<open>a call of StartRun, FinishRun or RunErrored that returned the error \<open>m\<close>\<close>
  "failed_transition e m =
     (case e of
        DBStartRun i u r \<Rightarrow> r = Some m
      | DBFinishRun i r \<Rightarrow> r = Some m
      | DBRunErrored i msg r \<Rightarrow> r = Some m
      | _ \<Rightarrow> False)"

definition is_start_run :: "event \<Rightarrow> bool" where
  "is_start_run e = (case e of DBStartRun i u r \<Rightarrow> True | _ \<Rightarrow> False)"

definition docker_event :: "event \<Rightarrow> bool" where
  "docker_event e =
     (case e of
        ContainerCreate i ep c ms \<Rightarrow> True
      | ContainerStart c \<Rightarrow> True
      | ContainerWait c \<Rightarrow> True
      | ContainerLogs c \<Rightarrow> True
      | StdCopy c \<Rightarrow> True
      | LogsClose c \<Rightarrow> True
      | ContainerRemove c \<Rightarrow> True
      | _ \<Rightarrow> False)"

definition late_event :: "event \<Rightarrow> bool" where
  \<comment> \<open>the events \<open>RunTool\<close> can produce once the container has started\<close>
  "late_event e =
     (case e of
        ContainerWait c \<Rightarrow> True
      | ContainerLogs c \<Rightarrow> True
      | StdCopy c \<Rightarrow> True
      | LogsClose c \<Rightarrow> True
      | DBFinishRun i r \<Rightarrow> True
      | DBRunErrored i msg r \<Rightarrow> True
      | DBSetRunGotapMetadata i md r \<Rightarrow> True
      | WriteFile p c \<Rightarrow> True
      | ReadFile p \<Rightarrow> True
      | LogPrintf msg \<Rightarrow> True
      | _ \<Rightarrow> False)"

definition fatal_on_failure :: "run_result \<Rightarrow> bool" where
  "fatal_on_failure r =
     (\<forall>e\<in>set (events_of r). \<forall>m. failed_transition e m \<longrightarrow> outcome_of r = Fatal m)"

section \<open>Paths of \<open>RunTool\<close>\<close>

definition finished_with :: "run_env \<Rightarrow> 64 word \<Rightarrow> bool" where
  \<comment> \<open>the \<open>select\<close> leaves \<open>exitCode\<close> at \<open>code\<close> and \<open>RunTool\<close> goes on to the logs\<close>
  "finished_with env code =
     (wait_res (run_container env) = WaitStatus None code
      \<or> wait_res (run_container env) = WaitErr None \<and> code = 0)"

definition logs_collected :: "stdlib \<Rightarrow> run_env \<Rightarrow> RunToolOptions \<Rightarrow> string \<Rightarrow> 64 word \<Rightarrow> string \<Rightarrow> string \<Rightarrow> bool" where
  \<comment> \<open>the container started and finished, its log stream was opened and demultiplexed\<close>
  "logs_collected lib env opt cid code out serr =
     (started lib env opt cid \<and> finished_with env code \<and> logs_res (run_container env) = None
      \<and> stdcopy_res (run_container env) = (out, serr, None))"

definition forget_metadata :: "database \<Rightarrow> database" where
  \<comment> \<open>the database without the column \<open>gotap_metadata\<close>\<close>
  "forget_metadata d = d\<lparr>runs := map (\<lambda>r. r\<lparr>gotap_metadata := None\<rparr>) (runs d)\<rparr>"

definition is_set_metadata :: "event \<Rightarrow> bool" where
  "is_set_metadata e = (case e of DBSetRunGotapMetadata i md r \<Rightarrow> True | _ \<Rightarrow> False)"

definition is_log :: "event \<Rightarrow> bool" where
  "is_log e = (case e of LogPrintf msg \<Rightarrow> True | _ \<Rightarrow> False)"

section \<open>Properties of the database during a run\<close>

definition kept :: "run_env \<Rightarrow> RunToolOptions \<Rightarrow> (database \<Rightarrow> bool) \<Rightarrow> bool" where
  \<comment> \<open>a property of the database that the writes after the start preserve\<close>
  "kept env opt Q =
     ((\<forall>e d. Q d \<longrightarrow> Q (fst (snd (updateDB env opt ''finished'' e d))))
      \<and> (\<forall>e d. Q d \<longrightarrow> Q (fst (snd (updateDB env opt ''errored'' e d))))
      \<and> (\<forall>md d. Q d \<longrightarrow>
            Q (snd (db_exec env OpSetRunGotapMetadata
                      (\<lambda>d. SetRunGotapMetadata d (ID (opt_Tool opt)) md) d))))"

definition started_rows :: "int \<Rightarrow> bool \<Rightarrow> string \<Rightarrow> nat \<Rightarrow> database \<Rightarrow> bool" where
  \<comment> \<open>the rows that StartRun selects exist and carry the start stamp \<open>t\<close>\<close>
  "started_rows i adm u t d =
     ((\<exists>x\<in>set (runs d). r_id x = i \<and> (adm \<or> user_id x = u))
      \<and> (\<forall>x\<in>set (runs d). r_id x = i \<and> (adm \<or> user_id x = u) \<longrightarrow>
            started_at x = Some t
            \<and> (status x = ''running'' \<or> status x = ''finished'' \<or> status x = ''errored'')))"

definition start_result :: "run_env \<Rightarrow> RunToolOptions \<Rightarrow> database \<Rightarrow> string option" where
  \<comment> \<open>the error that the call of StartRun in \<open>updateDB("started", nil)\<close> returns on the database \<open>d\<close>\<close>
  "start_result env opt d =
     fst (db_exec env OpStartRun (\<lambda>d. StartRun_call d (ID (opt_Tool opt)) (UserId opt)) d)"

definition error_unset :: "int \<Rightarrow> database \<Rightarrow> bool" where
  "error_unset i d = (\<forall>r\<in>set (runs d). r_id r = i \<longrightarrow> error_message r = None)"

definition metadata_is :: "int \<Rightarrow> string option \<Rightarrow> database \<Rightarrow> bool" where
  "metadata_is i v d = (\<forall>x\<in>set (runs d). r_id x = i \<longrightarrow> gotap_metadata x = v)"

section \<open>Concrete data for running the model\<close>

definition spec_a :: ToolSpec where
  "spec_a = \<lparr> ts_ID = ''img::a'', ts_Name = ''Alpha'', ts_Title = ''First tool'',
       ts_Description = '''', ts_Citation = None \<rparr>"

definition spec_b :: ToolSpec where
  "spec_b = \<lparr> ts_ID = ''img::b'', ts_Name = ''beta'', ts_Title = ''The XYZ tool'',
       ts_Description = '''', ts_Citation = None \<rparr>"

definition run1 :: run_row where
  \<comment> \<open>a pending run of user alice\<close>
  "run1 = \<lparr> r_id = 1, user_id = ''alice'', status = ''pending'', started_at = None,
       finished_at = None, has_errored = False, error_message = None, gotap_metadata = None \<rparr>"

definition db1 :: database where
  "db1 = \<lparr> users = [\<lparr>u_id = ''alice'', is_admin = Some False\<rparr>,
                    \<lparr>u_id = ''bob'', is_admin = Some False\<rparr>,
                    \<lparr>u_id = ''root'', is_admin = Some True\<rparr>],
          runs = [run1], clock = 7 \<rparr>"


definition tool1 :: Tool where
  "tool1 = \<lparr> ID = 1, Name = ''echo-tool'', Image = ''ubuntu'',
       Mounts = [(''/in'', ''/data/1/in''), (''/out'', ''/data/1/out'')] \<rparr>"

definition opt1 :: RunToolOptions where
  \<comment> \<open>user alice starts her run 1 with an explicit command\<close>
  "opt1 = \<lparr> opt_Tool = tool1, Env = [], Cmd = [''echo'', ''Hello''], UserId = ''alice'' \<rparr>"

definition script_ok :: container_script where
  \<comment> \<open>a container that is created as c1, starts, exits with code 0 and prints Hello\<close>
  "script_ok = \<lparr> create_res = Inr ''c1'', start_res = None, wait_res = WaitStatus None 0,
       logs_res = None, stdcopy_res = (''Hello'', '''', None) \<rparr>"

definition script_probe :: container_script where
  \<comment> \<open>a probe container p1 whose command prints nothing and exits with code 1\<close>
  "script_probe = \<lparr> create_res = Inr ''p1'', start_res = None, wait_res = WaitStatus None 1,
       logs_res = None, stdcopy_res = ('''', '''', None) \<rparr>"

definition env_ok :: run_env where
  "env_ok = \<lparr> new_client = None, docker = (\<lambda>i e c. script_probe), run_container = script_ok,
       read_file = (\<lambda>p. NotExist), db_fault = (\<lambda>op. None) \<rparr>"

definition env_logs_fail :: run_env where
  \<comment> \<open>as \<open>env_ok\<close>, but the log stream of the finished container cannot be opened\<close>
  "env_logs_fail = env_ok\<lparr>run_container := script_ok\<lparr>logs_res := Some ''stream error''\<rparr>\<rparr>"

definition env_demux_fail :: run_env where
  \<comment> \<open>as \<open>env_ok\<close>, but \<open>StdCopy\<close> fails on the log stream\<close>
  "env_demux_fail =
     env_ok\<lparr>run_container := script_ok\<lparr>stdcopy_res := (''He'', '''', Some ''unexpected EOF'')\<rparr>\<rparr>"

definition env_start_fault :: run_env where
  \<comment> \<open>as \<open>env_ok\<close>, but the database driver fails on StartRun\<close>
  "env_start_fault =
     env_ok\<lparr>db_fault := (\<lambda>op. if op = OpStartRun then Some ''database is locked'' else None)\<rparr>"

definition env_exit2 :: run_env where
  \<comment> \<open>as \<open>env_ok\<close>, but the container exits with code 2\<close>
  "env_exit2 = env_ok\<lparr>run_container := script_ok\<lparr>wait_res := WaitStatus None 2\<rparr>\<rparr>"

definition env_meta :: run_env where
  \<comment> \<open>as \<open>env_ok\<close>, but the tool has written the metadata file \<open>{}\<close> into the output directory\<close>
  "env_meta = env_ok\<lparr>read_file :=
     (\<lambda>p. if p = ''/data/1/out/_metadata.json'' then FileContent ('' {}'' @ [CHR 0x0A]) else NotExist)\<rparr>"

definition env_meta_demux :: run_env where
  \<comment> \<open>as \<open>env_meta\<close>, but \<open>StdCopy\<close> fails on the log stream\<close>
  "env_meta_demux =
     env_meta\<lparr>run_container := script_ok\<lparr>stdcopy_res := (''He'', '''', Some ''unexpected EOF'')\<rparr>\<rparr>"

definition img_shim :: daemon where
  \<comment> \<open>an image with the shim at \<open>/usr/bin/gotap\<close>: \<open>metadata\<close> is unknown to it, \<open>parse --spec-file\<close> prints the spec\<close>
  "img_shim imageName entrypoint cmd =
     (if entrypoint = [''sh'', ''-lc'']
      then \<lparr> create_res = Inr ''p0'', start_res = None, wait_res = WaitStatus None 0,
             logs_res = None, stdcopy_res = (''/usr/bin/gotap'' @ [CHR 0x0A], '''', None) \<rparr>
      else if entrypoint = [''/usr/bin/gotap''] \<and> cmd = [''metadata'', ''--spec-file'', ''/src/tool.yml'']
      then \<lparr> create_res = Inr ''p1'', start_res = None, wait_res = WaitStatus None 2,
             logs_res = None, stdcopy_res = ('''', ''unknown command'', None) \<rparr>
      else \<lparr> create_res = Inr ''p2'', start_res = None, wait_res = WaitStatus None 0,
             logs_res = None, stdcopy_res = (''tools'', '''', None) \<rparr>)"

definition img_no_shell :: daemon where
  \<comment> \<open>an image without a shell that holds a spec at \<open>/src/tool.yml\<close>: \<open>sh\<close> cannot be started, \<open>cat\<close> prints the spec\<close>
  "img_no_shell imageName entrypoint cmd =
     (if entrypoint = [''sh'', ''-lc'']
      then \<lparr> create_res = Inr ''p0'', start_res = Some ''exec: sh: executable file not found'',
             wait_res = WaitStatus None 0, logs_res = None, stdcopy_res = ('''', '''', None) \<rparr>
      else \<lparr> create_res = Inr ''p4'', start_res = None, wait_res = WaitStatus None 0,
             logs_res = None, stdcopy_res = (''tools'', '''', None) \<rparr>)"

definition cache0 :: Cache where
  "cache0 = \<lparr> image_specs = (\<lambda>tag. None), tool_specs = (\<lambda>sl. None), Initialised = False \<rparr>"

definition denv_ghost :: disc_env where
  \<comment> \<open>the daemon lists one tagged image and one without tags; no container can be created from the image\<close>
  "denv_ghost = \<lparr> list_client = None, image_list = Inr [[''ghost:latest''], []],
       worker_client = (\<lambda>tag. None),
       disc_docker = (\<lambda>i e c. \<lparr> create_res = Inl ''No such image: ghost:latest'', start_res = None,
                                 wait_res = WaitStatus None 0, logs_res = None, stdcopy_res = ('''', '''', None) \<rparr>),
       completion = (\<lambda>tags. tags), ctx_done = (\<lambda>i. False), ctx_err = ''context canceled'' \<rparr>"

definition denv_no_client :: disc_env where
  \<comment> \<open>as \<open>denv_ghost\<close>, but the goroutine of the image cannot open its client\<close>
  "denv_no_client = denv_ghost\<lparr>worker_client := (\<lambda>tag. Some ''unable to parse docker host'')\<rparr>"

section \<open>Substring search\<close>

lemma Contains_iff: "Contains s sub \<longleftrightarrow> (\<exists>p q. s = p @ sub @ q)"
proof (induction s)
  case Nil
  then show ?case by auto
next
  case (Cons c s)
  show ?case
  proof
    assume "Contains (c # s) sub"
    then consider "prefix sub (c # s)" | "Contains s sub" by auto
    then show "\<exists>p q. c # s = p @ sub @ q"
    proof cases
      case 1
      then obtain q where "c # s = sub @ q" by (auto simp: prefix_def)
      then have "c # s = [] @ sub @ q" by simp
      then show ?thesis by blast
    next
      case 2
      with Cons.IH obtain p q where "s = p @ sub @ q" by blast
      then have "c # s = (c # p) @ sub @ q" by simp
      then show ?thesis by blast
    qed
  next
    assume "\<exists>p q. c # s = p @ sub @ q"
    then obtain p q where pq: "c # s = p @ sub @ q" by blast
    show "Contains (c # s) sub"
    proof (cases p)
      case Nil
      with pq have "prefix sub (c # s)" by (simp add: prefix_def)
      then show ?thesis by simp
    next
      case (Cons a p')
      with pq have "s = p' @ sub @ q" by simp
      with Cons.IH have "Contains s sub" by blast
      then show ?thesis by simp
    qed
  qed
qed

section \<open>Ownership of runs in the queries\<close>

text \<open>
  What the queries themselves guarantee, whatever is bound to the placeholder of the
  admin subquery: when the admin subquery is not TRUE for that value and the owner
  placeholder is B, no run of another user A is returned or deleted.
\<close>

lemma query_isolation:
  assumes "A \<noteq> B" and "admin_subquery d a \<noteq> Some True" and "user_id r = A"
  shows "GetRun d i a B \<noteq> Inr r \<and>
         r \<notin> set (GetAllRuns d a B) \<and> r \<notin> set (GetIdleRuns d a B) \<and> r \<notin> set (GetRunning d a B) \<and>
         r \<notin> set (GetFinishedRuns d a B) \<and> r \<notin> set (GetErroredRuns d a B) \<and>
         filter (\<lambda>x. user_id x = A) (runs (DeleteRun d i a B)) = filter (\<lambda>x. user_id x = A) (runs d)"
proof -
  have no: "\<And>x. user_id x = A \<Longrightarrow> \<not> may_access d a B x"
    using assms by (simp add: may_access_def)
  have get: "GetRun d i a B \<noteq> Inr r"
  proof
    assume "GetRun d i a B = Inr r"
    then obtain rest where "filter (\<lambda>r. r_id r = i \<and> may_access d a B r) (runs d) = r # rest"
      by (auto simp: GetRun_def one_def split: list.splits)
    then have "r \<in> set (filter (\<lambda>r. r_id r = i \<and> may_access d a B r) (runs d))"
      by (metis list.set_intros(1))
    with no assms(3) show False by simp
  qed
  have del: "filter (\<lambda>x. user_id x = A) (runs (DeleteRun d i a B)) = filter (\<lambda>x. user_id x = A) (runs d)"
    using no by (auto simp: DeleteRun_def intro: filter_cong)
  from get del no assms(3) show ?thesis
    by (simp add: GetAllRuns_def GetIdleRuns_def GetRunning_def GetFinishedRuns_def GetErroredRuns_def)
qed

text \<open>
  In the calls the admin subquery is evaluated for the empty user id. So the calls
  keep the runs of A from B as long as the user \<open>''\<close> is not an administrator, and
  whether B is an administrator plays no part.
\<close>

lemma call_isolation:
  assumes "A \<noteq> B" and "admin_subquery d '''' \<noteq> Some True" and "user_id r = A"
  shows "GetRun_call d i B \<noteq> Inr r \<and> r \<notin> set (GetAllRuns_call d B) \<and>
         filter (\<lambda>x. user_id x = A) (runs (DeleteRun_call d i B)) = filter (\<lambda>x. user_id x = A) (runs d)"
  using query_isolation [OF assms, of i]
  by (simp add: GetRun_call_def GetAllRuns_call_def DeleteRun_call_def unset_field_def)


section \<open>Filtering the cached tool specs\<close>

lemma ListToolSpecs_loop_filter:
  "ListToolSpecs_loop lib needle specs out =
     out @ filter (\<lambda>spec. Contains (ToLower lib (ts_Name spec)) needle
                        \<or> Contains (ToLower lib (ts_Title spec)) needle) specs"
  by (induction specs arbitrary: out) simp_all

text \<open>
  C8. With the empty filter ListToolSpecs returns every cached spec. With a
  non-empty filter it returns exactly the cached specs, in their order, whose name or
  title contains the filter as a case-insensitive substring.
\<close>

theorem ListToolSpecs_filter:
  "ListToolSpecs lib specs '''' = specs \<and>
   (flt \<noteq> '''' \<longrightarrow>
      ListToolSpecs lib specs flt =
        filter (\<lambda>spec. ci_substring lib (ts_Name spec) flt \<or> ci_substring lib (ts_Title spec) flt) specs)"
  by (simp add: ListToolSpecs_def ListToolSpecs_loop_filter Contains_iff ci_substring_def)

theorem ListToolSpecs_filter_witness:
  "''xYz'' \<noteq> '''' \<and> ListToolSpecs ascii_lib [spec_a, spec_b] ''xYz'' = [spec_b] \<and>
   filter (\<lambda>spec. ci_substring ascii_lib (ts_Name spec) ''xYz''
                  \<or> ci_substring ascii_lib (ts_Title spec) ''xYz'') [spec_a, spec_b] = [spec_b]"
proof -
  have e: "ListToolSpecs ascii_lib [spec_a, spec_b] ''xYz'' = [spec_b]"
    by code_simp
  from ListToolSpecs_filter [of ascii_lib "[spec_a, spec_b]" "''xYz''"] e show ?thesis
    by simp
qed

section \<open>Events and outcomes of the engine\<close>

lemma prepend_simps [simp]:
  "outcome_of (prepend evs r) = outcome_of r"
  "db_of (prepend evs r) = db_of r"
  "events_of (prepend evs r) = evs @ events_of r"
  by (simp_all add: prepend_def outcome_of_def db_of_def events_of_def split: prod.splits)

lemma triple_simps [simp]:
  "outcome_of (out, d, evs) = out" "db_of (out, d, evs) = d" "events_of (out, d, evs) = evs"
  by (simp_all add: outcome_of_def db_of_def events_of_def)

lemma prepend_Nil [simp]: "prepend [] r = r"
  by (simp add: prepend_def split: prod.splits)

lemma deferred_simps [simp]:
  "outcome_of (deferred ev r) = outcome_of r"
  "db_of (deferred ev r) = db_of r"
  "events_of (deferred ev r) = (case outcome_of r of Returned x \<Rightarrow> events_of r @ [ev] | Fatal m \<Rightarrow> events_of r)"
  by (simp_all add: deferred_def outcome_of_def db_of_def events_of_def split: prod.splits outcome.splits)

lemma docker_event_simps [simp]:
  "docker_event (ContainerCreate i ep c ms)" "docker_event (ContainerStart cid)"
  "docker_event (ContainerWait cid)" "docker_event (ContainerLogs cid)" "docker_event (StdCopy cid)"
  "docker_event (LogsClose cid)" "docker_event (ContainerRemove cid)"
  by (simp_all add: docker_event_def)

lemma collect_logs_docker: "e \<in> set (fst (collect_logs k cid code)) \<Longrightarrow> docker_event e"
  by (auto simp: collect_logs_def case_prod_beta split: option.splits)

lemma start_and_wait_docker: "e \<in> set (fst (start_and_wait k cid)) \<Longrightarrow> docker_event e"
  by (auto simp: start_and_wait_def case_prod_beta split: option.splits wait_result.splits
           dest: collect_logs_docker)

lemma runContainerCommand_docker: "e \<in> set (fst (runContainerCommand dk i ep c)) \<Longrightarrow> docker_event e"
  by (auto simp: runContainerCommand_def case_prod_beta split: sum.splits
           dest: start_and_wait_docker)

lemma ProbeGotap_docker: "e \<in> set (fst (ProbeGotap lib dk i)) \<Longrightarrow> docker_event e"
  by (auto simp: ProbeGotap_def Let_def case_prod_beta split: if_splits dest: runContainerCommand_docker)

lemma RunTool_reaches_create:
  assumes "reaches_create lib env opt"
  shows "RunTool lib env opt d =
           deferred ClientClose
             (prepend (probe_events lib env opt)
                (create_container lib env opt (build_mounts (Mounts (opt_Tool opt)))
                   (run_mode lib env opt) (run_entrypoint lib env opt) (run_cmd lib env opt) d))"
  using assms
  by (auto simp: reaches_create_def RunTool_def Let_def probe_events_def run_mode_def run_entrypoint_def
        run_cmd_def probe_error_def probe_found_def probe_path_def split: prod.splits option.splits)


lemma docker_not_failed: "docker_event e \<Longrightarrow> \<not> failed_transition e m"
  by (cases e) (simp_all add: docker_event_def failed_transition_def)

lemma fof_prepend:
  "\<forall>e\<in>set evs. \<forall>m. \<not> failed_transition e m \<Longrightarrow> fatal_on_failure r \<Longrightarrow> fatal_on_failure (prepend evs r)"
  by (auto simp: fatal_on_failure_def)

lemma fof_deferred:
  "\<forall>m. \<not> failed_transition ev m \<Longrightarrow> fatal_on_failure r \<Longrightarrow> fatal_on_failure (deferred ev r)"
  by (auto simp: fatal_on_failure_def split: outcome.splits)

lemma fof_errored_return: "fatal_on_failure (errored_return env opt err d)"
  by (auto simp: fatal_on_failure_def errored_return_def updateDB_def events_of_def outcome_of_def
        failed_transition_def case_prod_beta split: option.splits)

lemma fof_final_transition: "fatal_on_failure (final_transition env opt mode code d)"
proof (cases "code = 0")
  case True
  then show ?thesis
    by (auto simp: fatal_on_failure_def final_transition_def updateDB_def events_of_def outcome_of_def
          failed_transition_def case_prod_beta split: option.splits)
next
  case False
  then show ?thesis by (simp add: final_transition_def fof_errored_return)
qed

lemma read_metadata_not_failed:
  "e \<in> set (snd (read_metadata lib env opt outDir d)) \<Longrightarrow> \<not> failed_transition e m"
  by (auto simp: read_metadata_def Let_def failed_transition_def case_prod_beta
           split: if_splits file_read.splits option.splits)

lemma write_logs_not_failed:
  "e \<in> set (snd (write_logs lib mounts out serr)) \<Longrightarrow> \<not> failed_transition e m"
  by (auto simp: write_logs_def failed_transition_def split: option.splits)

lemma fof_after_logs: "fatal_on_failure (after_logs lib env opt mounts mode code out serr d)"
  unfolding after_logs_def case_prod_beta
  by (rule fof_prepend) (auto dest: read_metadata_not_failed write_logs_not_failed intro: fof_final_transition)

lemma fof_after_wait: "fatal_on_failure (after_wait lib env opt mounts mode cid code d)"
proof (cases "logs_res (run_container env)")
  case (Some err)
  then show ?thesis
    by (simp add: after_wait_def fatal_on_failure_def events_of_def failed_transition_def)
next
  case None
  have "fatal_on_failure
          (case stdcopy_res (run_container env) of
             (out, serr, cerr) \<Rightarrow>
               (case cerr of
                  Some err \<Rightarrow> errored_return env opt err d
                | None \<Rightarrow> after_logs lib env opt mounts mode code out serr d))"
    by (simp add: case_prod_beta fof_errored_return fof_after_logs split: option.splits)
  with None show ?thesis
    unfolding after_wait_def
    by (auto intro!: fof_deferred fof_prepend simp: failed_transition_def)
qed

lemma fof_after_start: "fatal_on_failure (after_start lib env opt mounts mode cid d)"
  unfolding after_start_def
  by (rule fof_prepend)
     (auto simp: failed_transition_def fof_errored_return fof_after_wait split: wait_result.splits option.splits)

lemma fof_after_create: "fatal_on_failure (after_create lib env opt mounts mode cid d)"
proof -
  have "fatal_on_failure
          (case updateDB env opt ''started'' None d of
             (Some m, d', evs) \<Rightarrow> (Fatal m, d', evs)
           | (None, d', evs) \<Rightarrow> prepend evs (after_start lib env opt mounts mode cid d'))"
  proof (cases "fst (updateDB env opt ''started'' None d)")
    case None
    then have "\<forall>e\<in>set (snd (snd (updateDB env opt ''started'' None d))). \<forall>m. \<not> failed_transition e m"
      by (auto simp: updateDB_def failed_transition_def case_prod_beta)
    with None show ?thesis
      by (auto simp: case_prod_beta intro: fof_prepend fof_after_start)
  next
    case (Some m)
    then show ?thesis
      by (auto simp: case_prod_beta fatal_on_failure_def events_of_def outcome_of_def updateDB_def
            failed_transition_def)
  qed
  then show ?thesis
    unfolding after_create_def
    by (auto intro!: fof_prepend simp: failed_transition_def fof_errored_return split: option.splits)
qed

lemma fof_create_container: "fatal_on_failure (create_container lib env opt mounts mode ep cmd d)"
  unfolding create_container_def
  by (auto intro!: fof_prepend fof_deferred simp: failed_transition_def fof_errored_return fof_after_create
        split: sum.splits)

lemma fof_RunTool: "fatal_on_failure (RunTool lib env opt d)"
proof (cases "new_client env")
  case (Some err)
  then show ?thesis by (simp add: RunTool_def fatal_on_failure_def events_of_def)
next
  case None
  show ?thesis
  proof (cases "Cmd opt = []")
    case False
    with None show ?thesis
      by (auto simp: RunTool_def Let_def failed_transition_def intro!: fof_deferred fof_create_container)
  next
    case True
    have "\<forall>e\<in>set (fst (ProbeGotap lib (docker env) (Image (opt_Tool opt)))). \<forall>m. \<not> failed_transition e m"
      using ProbeGotap_docker docker_not_failed by blast
    with None True show ?thesis
      by (auto simp: RunTool_def Let_def failed_transition_def case_prod_beta fof_errored_return
            fof_create_container intro!: fof_deferred fof_prepend split: option.splits)
  qed
qed

text \<open>
  C10. If a call of StartRun, FinishRun or RunErrored made by \<open>updateDB\<close> during
  \<open>RunTool\<close> returns an error, the outcome of \<open>RunTool\<close> is \<open>log.Fatal\<close> with
  that error: the process ends and no error is returned to the caller.
\<close>

theorem transition_failure_is_fatal:
  assumes "e \<in> set (events_of (RunTool lib env opt d))" and "failed_transition e m"
  shows "outcome_of (RunTool lib env opt d) = Fatal m"
  using assms fof_RunTool by (auto simp: fatal_on_failure_def)


lemma errored_return_events:
  "\<exists>r. events_of (errored_return env opt err d) = [DBRunErrored (ID (opt_Tool opt)) (errored_message (opt_Tool opt) (Some err)) r]"
  by (simp add: errored_return_def updateDB_def events_of_def case_prod_beta split: option.splits)

lemma late_errored_return: "e \<in> set (events_of (errored_return env opt err d)) \<Longrightarrow> late_event e"
  using errored_return_events [of env opt err d] by (auto simp: late_event_def)

lemma late_final_transition: "e \<in> set (events_of (final_transition env opt mode code d)) \<Longrightarrow> late_event e"
  by (cases "code = 0")
     (auto simp: final_transition_def updateDB_def events_of_def late_event_def case_prod_beta
           split: option.splits dest: late_errored_return [unfolded events_of_def late_event_def])

lemma late_read_metadata: "e \<in> set (snd (read_metadata lib env opt outDir d)) \<Longrightarrow> late_event e"
  by (auto simp: read_metadata_def Let_def late_event_def case_prod_beta
           split: if_splits file_read.splits option.splits)

lemma late_write_logs: "e \<in> set (snd (write_logs lib mounts out serr)) \<Longrightarrow> late_event e"
  by (auto simp: write_logs_def late_event_def split: option.splits)

lemma late_after_logs: "e \<in> set (events_of (after_logs lib env opt mounts mode code out serr d)) \<Longrightarrow> late_event e"
  by (auto simp: after_logs_def case_prod_beta dest: late_read_metadata late_write_logs late_final_transition)

lemma late_simps [simp]:
  "late_event (ContainerWait c)" "late_event (ContainerLogs c)" "late_event (StdCopy c)" "late_event (LogsClose c)"
  by (simp_all add: late_event_def)

lemma late_after_wait: "e \<in> set (events_of (after_wait lib env opt mounts mode cid code d)) \<Longrightarrow> late_event e"
  by (auto simp: after_wait_def case_prod_beta events_of_def [of "(a, b, c)" for a b c]
           split: option.splits outcome.splits dest: late_errored_return late_after_logs)

lemma late_after_start: "e \<in> set (events_of (after_start lib env opt mounts mode cid d)) \<Longrightarrow> late_event e"
  by (auto simp: after_start_def split: wait_result.splits option.splits
           dest: late_errored_return late_after_wait)

lemma late_not_start: "late_event e \<Longrightarrow> \<not> is_start_run e"
  by (cases e) (simp_all add: late_event_def is_start_run_def)

lemma docker_not_start: "docker_event e \<Longrightarrow> \<not> is_start_run e"
  by (cases e) (simp_all add: docker_event_def is_start_run_def)

lemma probe_events_docker: "e \<in> set (probe_events lib env opt) \<Longrightarrow> docker_event e"
  by (auto simp: probe_events_def dest: ProbeGotap_docker split: if_splits)

lemma filter_empty_iff: "(filter P xs = []) = (\<forall>x\<in>set xs. \<not> P x)"
  by (simp add: filter_empty_conv)

section \<open>Effects of the queries on the tables\<close>

lemma db_exec_ok:
  "db_exec env op q d = (None, d') \<Longrightarrow> \<exists>row. q d = Inr (d', row)"
  by (auto simp: db_exec_def split: option.splits sum.splits)

lemma db_exec_failed:
  "db_exec env op q d = (Some m, d') \<Longrightarrow> d' = d"
  by (auto simp: db_exec_def split: option.splits sum.splits)

lemma db_exec_cong: "q d = q' d \<Longrightarrow> db_exec env op q d = db_exec env op q' d"
  unfolding db_exec_def by (cases "db_fault env op") simp_all

lemma update_where_ok:
  assumes "update_where P f d = Inr (d', row)"
  shows "runs d' = map (\<lambda>r. if P r then f r else r) (runs d)" and "\<exists>r\<in>set (runs d). P r"
proof -
  from assms have ne: "filter P (runs d) \<noteq> []"
    by (auto simp: update_where_def one_def split: list.splits)
  from assms show "runs d' = map (\<lambda>r. if P r then f r else r) (runs d)"
    by (auto simp: update_where_def one_def split: list.splits)
  from ne show "\<exists>r\<in>set (runs d). P r"
    by (simp add: filter_empty_conv)
qed

lemma update_where_db:
  assumes "update_where P f d = Inr (d', row)"
  shows "d' = d\<lparr>runs := map (\<lambda>r. if P r then f r else r) (runs d)\<rparr>"
  using assms by (auto simp: update_where_def one_def split: list.splits)

lemma update_where_row:
  assumes "update_where P f d = Inr (d', row)"
  shows "\<exists>x\<in>set (runs d). P x \<and> row = f x"
proof -
  from assms obtain x rest where x: "filter P (runs d) = x # rest" and row: "row = f x"
    by (auto simp: update_where_def one_def split: list.splits)
  from x have "x \<in> set (filter P (runs d))" by (metis list.set_intros(1))
  with row show ?thesis by auto
qed

lemma updateDB_started_ok:
  "updateDB env opt ''started'' None d = (None, d', evs) \<Longrightarrow>
     \<exists>row. StartRun_call d (ID (opt_Tool opt)) (UserId opt) = Inr (d', row)"
  by (auto simp: updateDB_def split: prod.splits dest: db_exec_ok)

lemma updateDB_finished_ok:
  "updateDB env opt ''finished'' None d = (None, d', evs) \<Longrightarrow>
     \<exists>row. FinishRun d (ID (opt_Tool opt)) = Inr (d', row)"
  by (auto simp: updateDB_def split: prod.splits dest: db_exec_ok)

lemma updateDB_errored_ok:
  "updateDB env opt ''errored'' e d = (None, d', evs) \<Longrightarrow>
     \<exists>row. RunErrored d (ID (opt_Tool opt)) (Some (errored_message (opt_Tool opt) e)) = Inr (d', row)"
  by (auto simp: updateDB_def split: prod.splits dest: db_exec_ok)

lemma updateDB_started_failed:
  "updateDB env opt ''started'' None d = (Some m, d', evs) \<Longrightarrow> d' = d"
  by (auto simp: updateDB_def split: prod.splits dest: db_exec_failed)

lemma updateDB_finished_db:
  "fst (snd (updateDB env opt ''finished'' e d))
     = snd (db_exec env OpFinishRun
         (update_where (\<lambda>r. r_id r = ID (opt_Tool opt))
            (\<lambda>r. r\<lparr>status := ''finished'', finished_at := Some (clock d)\<rparr>)) d)"
proof -
  have "db_exec env OpFinishRun (\<lambda>d. FinishRun d (ID (opt_Tool opt))) d
          = db_exec env OpFinishRun (update_where (\<lambda>r. r_id r = ID (opt_Tool opt))
              (\<lambda>r. r\<lparr>status := ''finished'', finished_at := Some (clock d)\<rparr>)) d"
    by (rule db_exec_cong) (simp add: FinishRun_def)
  then show ?thesis by (simp add: updateDB_def case_prod_beta)
qed

lemma updateDB_errored_db:
  "fst (snd (updateDB env opt ''errored'' e d))
     = snd (db_exec env OpRunErrored
         (update_where (\<lambda>r. r_id r = ID (opt_Tool opt))
            (\<lambda>r. r\<lparr>status := ''errored'', error_message := Some (errored_message (opt_Tool opt) e),
                    finished_at := Some (clock d), has_errored := True\<rparr>)) d)"
proof -
  have "db_exec env OpRunErrored (\<lambda>d. RunErrored d (ID (opt_Tool opt)) (Some (errored_message (opt_Tool opt) e))) d
          = db_exec env OpRunErrored (update_where (\<lambda>r. r_id r = ID (opt_Tool opt))
              (\<lambda>r. r\<lparr>status := ''errored'', error_message := Some (errored_message (opt_Tool opt) e),
                      finished_at := Some (clock d), has_errored := True\<rparr>)) d"
    by (rule db_exec_cong) (simp add: RunErrored_def)
  then show ?thesis by (simp add: updateDB_def case_prod_beta)
qed

lemma set_metadata_db:
  "snd (db_exec env OpSetRunGotapMetadata (\<lambda>d. SetRunGotapMetadata d i md) d)
     = snd (db_exec env OpSetRunGotapMetadata
         (update_where (\<lambda>r. r_id r = i) (\<lambda>r. r\<lparr>gotap_metadata := md\<rparr>)) d)"
proof -
  have "db_exec env OpSetRunGotapMetadata (\<lambda>d. SetRunGotapMetadata d i md) d
          = db_exec env OpSetRunGotapMetadata
              (update_where (\<lambda>r. r_id r = i) (\<lambda>r. r\<lparr>gotap_metadata := md\<rparr>)) d"
    by (rule db_exec_cong) (simp add: SetRunGotapMetadata_def)
  then show ?thesis by simp
qed

lemma errored_return_db:
  "db_of (errored_return env opt err d) = fst (snd (updateDB env opt ''errored'' (Some err) d))"
  by (cases "fst (updateDB env opt ''errored'' (Some err) d)")
     (simp_all add: errored_return_def case_prod_beta db_of_def)

lemma final_transition_db:
  "db_of (final_transition env opt mode code d)
     = (if code \<noteq> 0 then fst (snd (updateDB env opt ''errored'' (Some (exit_message mode code)) d))
        else fst (snd (updateDB env opt ''finished'' None d)))"
proof (cases "code = 0")
  case True
  then show ?thesis
    by (cases "fst (updateDB env opt ''finished'' None d)")
       (simp_all add: final_transition_def case_prod_beta db_of_def)
next
  case False
  then show ?thesis by (simp add: final_transition_def errored_return_db)
qed

lemma read_metadata_db:
  "fst (read_metadata lib env opt outDir d) = d
   \<or> (\<exists>md. fst (read_metadata lib env opt outDir d)
              = snd (db_exec env OpSetRunGotapMetadata (\<lambda>d. SetRunGotapMetadata d (ID (opt_Tool opt)) md) d))"
  by (auto simp: read_metadata_def Let_def case_prod_beta split: file_read.splits)

lemma after_logs_parts:
  "outcome_of (after_logs lib env opt ms mode code out serr d)
     = outcome_of (final_transition env opt mode code (fst (read_metadata lib env opt (fst (write_logs lib ms out serr)) d)))"
  "db_of (after_logs lib env opt ms mode code out serr d)
     = db_of (final_transition env opt mode code (fst (read_metadata lib env opt (fst (write_logs lib ms out serr)) d)))"
  "events_of (after_logs lib env opt ms mode code out serr d)
     = snd (write_logs lib ms out serr) @ snd (read_metadata lib env opt (fst (write_logs lib ms out serr)) d)
         @ events_of (final_transition env opt mode code (fst (read_metadata lib env opt (fst (write_logs lib ms out serr)) d)))"
  by (simp_all add: after_logs_def case_prod_beta)

lemma kept_errored_return:
  assumes "kept env opt Q" and "Q d"
  shows "Q (db_of (errored_return env opt err d))"
  using assms by (simp add: errored_return_db kept_def)

lemma kept_final_transition:
  assumes "kept env opt Q" and "Q d"
  shows "Q (db_of (final_transition env opt mode code d))"
  using assms by (simp add: final_transition_db kept_def)

lemma kept_read_metadata:
  assumes "kept env opt Q" and "Q d"
  shows "Q (fst (read_metadata lib env opt outDir d))"
proof -
  from read_metadata_db [of lib env opt outDir d] show ?thesis
  proof
    assume "fst (read_metadata lib env opt outDir d) = d"
    with assms(2) show ?thesis by simp
  next
    assume "\<exists>md. fst (read_metadata lib env opt outDir d)
              = snd (db_exec env OpSetRunGotapMetadata (\<lambda>d. SetRunGotapMetadata d (ID (opt_Tool opt)) md) d)"
    then obtain md where "fst (read_metadata lib env opt outDir d)
              = snd (db_exec env OpSetRunGotapMetadata (\<lambda>d. SetRunGotapMetadata d (ID (opt_Tool opt)) md) d)"
      by blast
    with assms show ?thesis by (simp add: kept_def)
  qed
qed

lemma kept_after_logs:
  assumes "kept env opt Q" and "Q d"
  shows "Q (db_of (after_logs lib env opt ms mode code out serr d))"
  unfolding after_logs_parts
  by (rule kept_final_transition [OF assms(1)]) (rule kept_read_metadata [OF assms])

lemma kept_after_wait:
  assumes "kept env opt Q" and "Q d"
  shows "Q (db_of (after_wait lib env opt ms mode cid code d))"
proof (cases "logs_res (run_container env)")
  case (Some err)
  with assms(2) show ?thesis by (simp add: after_wait_def)
next
  case None
  obtain out serr cerr where sc: "stdcopy_res (run_container env) = (out, serr, cerr)"
    by (cases "stdcopy_res (run_container env)") blast
  show ?thesis
  proof (cases cerr)
    case None
    with \<open>logs_res (run_container env) = None\<close> sc show ?thesis
      by (simp add: after_wait_def kept_after_logs [OF assms])
  next
    case (Some err)
    with \<open>logs_res (run_container env) = None\<close> sc show ?thesis
      by (simp add: after_wait_def kept_errored_return [OF assms])
  qed
qed

lemma kept_after_start:
  assumes "kept env opt Q" and "Q d"
  shows "Q (db_of (after_start lib env opt ms mode cid d))"
proof (cases "wait_res (run_container env)")
  case (WaitErr e)
  then show ?thesis
    by (cases e) (simp_all add: after_start_def kept_after_wait [OF assms] kept_errored_return [OF assms])
next
  case (WaitStatus msg code)
  then show ?thesis
    by (cases msg) (simp_all add: after_start_def kept_after_wait [OF assms] kept_errored_return [OF assms])
qed

lemma started_rows_map:
  fixes f :: "run_row \<Rightarrow> run_row"
  assumes sr: "started_rows i adm u t d"
    and rows: "runs d' = map (\<lambda>r. if P r then f r else r) (runs d)"
    and id: "\<And>r. r_id (f r) = r_id r" and us: "\<And>r. user_id (f r) = user_id r"
    and sa: "\<And>r. started_at (f r) = started_at r"
    and st: "\<And>r. status (f r) = status r \<or> status (f r) = ''finished'' \<or> status (f r) = ''errored''"
  shows "started_rows i adm u t d'"
proof -
  let ?K = "\<lambda>x. r_id x = i \<and> (adm \<or> user_id x = u)"
  let ?G = "\<lambda>x. started_at x = Some t
            \<and> (status x = ''running'' \<or> status x = ''finished'' \<or> status x = ''errored'')"
  let ?g = "\<lambda>r. if P r then f r else r"
  have K: "\<And>r::run_row. ?K (?g r) = ?K r" using id us by simp
  have G: "\<And>r::run_row. ?G r \<Longrightarrow> ?G (?g r)"
  proof -
    fix r :: run_row assume g: "?G r"
    show "?G (?g r)"
    proof (cases "P r")
      case False
      with g show ?thesis by simp
    next
      case True
      from st [of r] g sa [of r] have "?G (f r)" by auto
      with True show ?thesis by simp
    qed
  qed
  from sr obtain x0 where x0: "x0 \<in> set (runs d)" "?K x0" by (auto simp: started_rows_def)
  then have "?g x0 \<in> set (runs d')" by (simp add: rows)
  moreover from x0(2) K [of x0] have "?K (?g x0)" by blast
  ultimately have ex: "\<exists>x\<in>set (runs d'). ?K x" by blast
  have all: "\<forall>x\<in>set (runs d'). ?K x \<longrightarrow> ?G x"
  proof (intro ballI impI)
    fix x assume "x \<in> set (runs d')" and kx: "?K x"
    with rows obtain r where r: "r \<in> set (runs d)" and x: "x = ?g r" by auto
    from kx x K [of r] have "?K r" by blast
    with sr r have "?G r" by (simp add: started_rows_def)
    then have "?G (?g r)" by (rule G)
    with x show "?G x" by blast
  qed
  from ex all show ?thesis unfolding started_rows_def by blast
qed

lemma started_rows_db_exec:
  fixes f :: "run_row \<Rightarrow> run_row"
  assumes sr: "started_rows i adm u t d"
    and id: "\<And>r. r_id (f r) = r_id r" and us: "\<And>r. user_id (f r) = user_id r"
    and sa: "\<And>r. started_at (f r) = started_at r"
    and st: "\<And>r. status (f r) = status r \<or> status (f r) = ''finished'' \<or> status (f r) = ''errored''"
  shows "started_rows i adm u t (snd (db_exec env op (update_where P f) d))"
proof -
  obtain e d' where ex: "db_exec env op (update_where P f) d = (e, d')"
    by (cases "db_exec env op (update_where P f) d") blast
  have "started_rows i adm u t d'"
  proof (cases e)
    case None
    with ex obtain row where "update_where P f d = Inr (d', row)" by (blast dest: db_exec_ok)
    then have "runs d' = map (\<lambda>r. if P r then f r else r) (runs d)" by (rule update_where_ok(1))
    with sr show ?thesis using id us sa st by (rule started_rows_map)
  next
    case (Some m)
    with ex have "d' = d" by (blast dest: db_exec_failed)
    with sr show ?thesis by simp
  qed
  with ex show ?thesis by simp
qed

lemma kept_started_rows: "kept env opt (started_rows i adm u t)"
  unfolding kept_def
proof (intro conjI allI impI)
  fix e d assume "started_rows i adm u t d"
  then show "started_rows i adm u t (fst (snd (updateDB env opt ''finished'' e d)))"
    unfolding updateDB_finished_db by (rule started_rows_db_exec) simp_all
next
  fix e d assume "started_rows i adm u t d"
  then show "started_rows i adm u t (fst (snd (updateDB env opt ''errored'' e d)))"
    unfolding updateDB_errored_db by (rule started_rows_db_exec) simp_all
next
  fix md d assume "started_rows i adm u t d"
  then show "started_rows i adm u t
       (snd (db_exec env OpSetRunGotapMetadata (\<lambda>d. SetRunGotapMetadata d (ID (opt_Tool opt)) md) d))"
    unfolding set_metadata_db by (rule started_rows_db_exec) simp_all
qed

lemma updateDB_started_result:
  "fst (updateDB env opt ''started'' None d) = start_result env opt d"
  "snd (snd (updateDB env opt ''started'' None d))
     = [DBStartRun (ID (opt_Tool opt)) (UserId opt) (start_result env opt d)]"
  by (simp_all add: updateDB_def start_result_def case_prod_beta)

lemma RunTool_started_fatal:
  assumes "started lib env opt cid" and "updateDB env opt ''started'' None d = (Some m, d', evs)"
  shows "outcome_of (RunTool lib env opt d) = Fatal m" and "db_of (RunTool lib env opt d) = d'"
  using assms by (simp_all add: started_def RunTool_reaches_create create_container_def after_create_def)

lemma RunTool_started_ok:
  assumes "started lib env opt cid" and "updateDB env opt ''started'' None d = (None, d', evs)"
  shows "outcome_of (RunTool lib env opt d)
           = outcome_of (after_start lib env opt (build_mounts (Mounts (opt_Tool opt))) (run_mode lib env opt) cid d')"
    and "db_of (RunTool lib env opt d)
           = db_of (after_start lib env opt (build_mounts (Mounts (opt_Tool opt))) (run_mode lib env opt) cid d')"
  using assms by (simp_all add: started_def RunTool_reaches_create create_container_def after_create_def)

lemma started_events_result:
  assumes "started lib env opt cid"
  shows "\<exists>post. events_of (RunTool lib env opt d) =
            probe_events lib env opt
              @ [ContainerCreate (Image (opt_Tool opt)) (run_entrypoint lib env opt) (run_cmd lib env opt)
                   (build_mounts (Mounts (opt_Tool opt))),
                 ContainerStart cid, DBStartRun (ID (opt_Tool opt)) (UserId opt) (start_result env opt d)] @ post
          \<and> (\<forall>e\<in>set post. late_event e \<or> e = ContainerRemove cid \<or> e = ClientClose)"
proof -
  let ?ms = "build_mounts (Mounts (opt_Tool opt))"
  let ?mode = "run_mode lib env opt"
  from assms have rc: "reaches_create lib env opt" and cr: "create_res (run_container env) = Inr cid"
    and st: "start_res (run_container env) = None"
    by (simp_all add: started_def)
  obtain m d' evs where u: "updateDB env opt ''started'' None d = (m, d', evs)"
    by (cases "updateDB env opt ''started'' None d") auto
  with updateDB_started_result [of env opt d] have m: "m = start_result env opt d"
    and evs: "evs = [DBStartRun (ID (opt_Tool opt)) (UserId opt) (start_result env opt d)]"
    by simp_all
  show ?thesis
  proof (cases m)
    case (Some msg)
    with u evs rc cr st have "events_of (RunTool lib env opt d) =
        probe_events lib env opt
          @ [ContainerCreate (Image (opt_Tool opt)) (run_entrypoint lib env opt) (run_cmd lib env opt) ?ms,
             ContainerStart cid, DBStartRun (ID (opt_Tool opt)) (UserId opt) (start_result env opt d)] @ []"
      by (simp add: RunTool_reaches_create create_container_def after_create_def)
    then show ?thesis by (metis empty_iff list.set(1))
  next
    case None
    let ?r = "after_start lib env opt ?ms ?mode cid d'"
    let ?tail = "(case outcome_of ?r of Returned x \<Rightarrow> [ContainerRemove cid, ClientClose] | Fatal m \<Rightarrow> [])"
    from None u evs rc cr st have "events_of (RunTool lib env opt d) =
        probe_events lib env opt
          @ [ContainerCreate (Image (opt_Tool opt)) (run_entrypoint lib env opt) (run_cmd lib env opt) ?ms,
             ContainerStart cid, DBStartRun (ID (opt_Tool opt)) (UserId opt) (start_result env opt d)]
          @ (events_of ?r @ ?tail)"
      by (simp add: RunTool_reaches_create create_container_def after_create_def split: outcome.splits)
    moreover have "\<forall>e\<in>set (events_of ?r @ ?tail). late_event e \<or> e = ContainerRemove cid \<or> e = ClientClose"
      by (auto dest: late_after_start split: outcome.splits)
    ultimately show ?thesis by blast
  qed
qed

lemma started_rows_StartRun:
  assumes "StartRun_call d i u = Inr (d1, row)"
  shows "runs d1 = map (\<lambda>r. if r_id r = i \<and> may_access d '''' u r
                             then r\<lparr>status := ''running'', started_at := Some (clock d)\<rparr> else r) (runs d)"
    and "r_id row = i \<and> status row = ''running'' \<and> started_at row = Some (clock d)"
    and "started_rows i (admin_subquery d '''' = Some True) u (clock d) d1"
proof -
  let ?P = "\<lambda>r. r_id r = i \<and> may_access d '''' u r"
  let ?f = "\<lambda>r::run_row. r\<lparr>status := ''running'', started_at := Some (clock d)\<rparr>"
  let ?g = "\<lambda>r. if ?P r then ?f r else r"
  let ?K = "\<lambda>x::run_row. r_id x = i \<and> (admin_subquery d '''' = Some True \<or> user_id x = u)"
  from assms have uw: "update_where ?P ?f d = Inr (d1, row)"
    by (simp add: StartRun_call_def StartRun_def unset_field_def)
  from uw show rows: "runs d1 = map ?g (runs d)"
    by (rule update_where_ok(1))
  from update_where_row [OF uw] obtain x where "?P x" and "row = ?f x" by blast
  then show "r_id row = i \<and> status row = ''running'' \<and> started_at row = Some (clock d)" by simp
  from update_where_ok(2) [OF uw] obtain x0 where x0: "x0 \<in> set (runs d)" "?P x0" by blast
  have PK: "?P r = ?K r" for r :: run_row by (simp add: may_access_def)
  from x0(1) have "?g x0 \<in> ?g ` set (runs d)" by (rule imageI)
  then have "?g x0 \<in> set (runs d1)" by (simp only: rows set_map)
  moreover from x0(2) have "?K (?g x0)" by (simp add: may_access_def)
  ultimately have ex: "\<exists>x\<in>set (runs d1). ?K x" by (rule rev_bexI)
  have all: "\<forall>x\<in>set (runs d1). ?K x \<longrightarrow>
       started_at x = Some (clock d)
       \<and> (status x = ''running'' \<or> status x = ''finished'' \<or> status x = ''errored'')"
  proof (intro ballI impI)
    fix x assume "x \<in> set (runs d1)" and kx: "?K x"
    then have "x \<in> ?g ` set (runs d)" by (simp only: rows set_map)
    then obtain r where x: "x = ?g r" by (rule imageE)
    show "started_at x = Some (clock d)
       \<and> (status x = ''running'' \<or> status x = ''finished'' \<or> status x = ''errored'')"
    proof (cases "?P r")
      case True
      with x have "x = ?f r" by simp
      then show ?thesis by simp
    next
      case False
      with x have "x = r" by simp
      with kx have "?K r" by simp
      with PK [of r] False show ?thesis by blast
    qed
  qed
  from ex all show "started_rows i (admin_subquery d '''' = Some True) u (clock d) d1"
    unfolding started_rows_def by (rule conjI)
qed

text \<open>
  C2, as amended. In an execution that reaches a successful container start the
  transition to running is persisted exactly once: StartRun is called right after
  ContainerStart, and neither before the container is created nor later. The event
  carries the error of that call. When the call fails the engine ends in log.Fatal
  with that error and the database is as it was on entry. When the call succeeds
  the rows it selects are set to running and stamped with the time of the call, and
  in the database that \<open>RunTool\<close> leaves these rows still carry that stamp and are
  running, finished or errored.
\<close>

theorem running_persisted_once:
  assumes "started lib env opt cid"
  shows "(\<exists>post. events_of (RunTool lib env opt d) =
            probe_events lib env opt
              @ [ContainerCreate (Image (opt_Tool opt)) (run_entrypoint lib env opt) (run_cmd lib env opt)
                   (build_mounts (Mounts (opt_Tool opt))),
                 ContainerStart cid, DBStartRun (ID (opt_Tool opt)) (UserId opt) (start_result env opt d)] @ post
          \<and> filter is_start_run (probe_events lib env opt) = [] \<and> filter is_start_run post = [])
       \<and> length (filter is_start_run (events_of (RunTool lib env opt d))) = 1
       \<and> (\<forall>m. start_result env opt d = Some m \<longrightarrow>
             outcome_of (RunTool lib env opt d) = Fatal m \<and> db_of (RunTool lib env opt d) = d)
       \<and> (start_result env opt d = None \<longrightarrow>
             (\<exists>d1 row. StartRun_call d (ID (opt_Tool opt)) (UserId opt) = Inr (d1, row)
                \<and> r_id row = ID (opt_Tool opt) \<and> status row = ''running'' \<and> started_at row = Some (clock d)
                \<and> runs d1 = map (\<lambda>r. if r_id r = ID (opt_Tool opt) \<and> may_access d '''' (UserId opt) r
                                        then r\<lparr>status := ''running'', started_at := Some (clock d)\<rparr> else r)
                                 (runs d))
             \<and> started_rows (ID (opt_Tool opt)) (admin_subquery d '''' = Some True) (UserId opt) (clock d)
                  (db_of (RunTool lib env opt d)))"
proof -
  from started_events_result [OF assms, of d] obtain post where
    ev: "events_of (RunTool lib env opt d) =
            probe_events lib env opt
              @ [ContainerCreate (Image (opt_Tool opt)) (run_entrypoint lib env opt) (run_cmd lib env opt)
                   (build_mounts (Mounts (opt_Tool opt))),
                 ContainerStart cid, DBStartRun (ID (opt_Tool opt)) (UserId opt) (start_result env opt d)] @ post"
    and post: "\<forall>e\<in>set post. late_event e \<or> e = ContainerRemove cid \<or> e = ClientClose"
    by blast
  have p: "filter is_start_run (probe_events lib env opt) = []"
    using probe_events_docker docker_not_start by (auto simp: filter_empty_iff)
  have q: "filter is_start_run post = []"
    using post late_not_start by (auto simp: filter_empty_iff is_start_run_def)
  have cnt: "length (filter is_start_run (events_of (RunTool lib env opt d))) = 1"
    by (simp add: ev p q) (simp add: is_start_run_def)
  from ev p q have part1: "\<exists>post. events_of (RunTool lib env opt d) =
            probe_events lib env opt
              @ [ContainerCreate (Image (opt_Tool opt)) (run_entrypoint lib env opt) (run_cmd lib env opt)
                   (build_mounts (Mounts (opt_Tool opt))),
                 ContainerStart cid, DBStartRun (ID (opt_Tool opt)) (UserId opt) (start_result env opt d)] @ post
          \<and> filter is_start_run (probe_events lib env opt) = [] \<and> filter is_start_run post = []"
    by blast
  obtain r d' evs where u: "updateDB env opt ''started'' None d = (r, d', evs)"
    by (cases "updateDB env opt ''started'' None d") auto
  with updateDB_started_result(1) [of env opt d] have r: "r = start_result env opt d" by simp
  have fail: "\<forall>m. start_result env opt d = Some m \<longrightarrow>
             outcome_of (RunTool lib env opt d) = Fatal m \<and> db_of (RunTool lib env opt d) = d"
  proof (intro allI impI)
    fix m assume "start_result env opt d = Some m"
    with u r have u': "updateDB env opt ''started'' None d = (Some m, d', evs)" by simp
    from updateDB_started_failed [OF u'] RunTool_started_fatal [OF assms u']
    show "outcome_of (RunTool lib env opt d) = Fatal m \<and> db_of (RunTool lib env opt d) = d" by simp
  qed
  have ok: "start_result env opt d = None \<longrightarrow>
             (\<exists>d1 row. StartRun_call d (ID (opt_Tool opt)) (UserId opt) = Inr (d1, row)
                \<and> r_id row = ID (opt_Tool opt) \<and> status row = ''running'' \<and> started_at row = Some (clock d)
                \<and> runs d1 = map (\<lambda>r. if r_id r = ID (opt_Tool opt) \<and> may_access d '''' (UserId opt) r
                                        then r\<lparr>status := ''running'', started_at := Some (clock d)\<rparr> else r)
                                 (runs d))
             \<and> started_rows (ID (opt_Tool opt)) (admin_subquery d '''' = Some True) (UserId opt) (clock d)
                  (db_of (RunTool lib env opt d))"
  proof
    assume "start_result env opt d = None"
    with u r have u': "updateDB env opt ''started'' None d = (None, d', evs)" by simp
    from updateDB_started_ok [OF u'] obtain row where
      sr: "StartRun_call d (ID (opt_Tool opt)) (UserId opt) = Inr (d', row)" by blast
    note s = started_rows_StartRun [OF sr]
    have "started_rows (ID (opt_Tool opt)) (admin_subquery d '''' = Some True) (UserId opt) (clock d)
            (db_of (after_start lib env opt (build_mounts (Mounts (opt_Tool opt))) (run_mode lib env opt) cid d'))"
      using kept_started_rows s(3) by (rule kept_after_start)
    then have fin: "started_rows (ID (opt_Tool opt)) (admin_subquery d '''' = Some True) (UserId opt) (clock d)
                  (db_of (RunTool lib env opt d))"
      by (simp add: RunTool_started_ok(2) [OF assms u'])
    from sr s(1) s(2) fin show "(\<exists>d1 row. StartRun_call d (ID (opt_Tool opt)) (UserId opt) = Inr (d1, row)
                \<and> r_id row = ID (opt_Tool opt) \<and> status row = ''running'' \<and> started_at row = Some (clock d)
                \<and> runs d1 = map (\<lambda>r. if r_id r = ID (opt_Tool opt) \<and> may_access d '''' (UserId opt) r
                                        then r\<lparr>status := ''running'', started_at := Some (clock d)\<rparr> else r)
                                 (runs d))
             \<and> started_rows (ID (opt_Tool opt)) (admin_subquery d '''' = Some True) (UserId opt) (clock d)
                  (db_of (RunTool lib env opt d))"
      by blast
  qed
  from part1 cnt fail ok show ?thesis by (intro conjI)
qed

text \<open>
  The claim C2 as written asks for two transitions to running, one of them before the
  container is created. In the run of \<open>env_ok\<close> the container starts and StartRun is
  called once, after ContainerStart; and when the container cannot be created no start
  is recorded at all.
\<close>

theorem running_persisted_twice_counterexample:
  "started ascii_lib env_ok opt1 ''c1''
   \<and> events_of (RunTool ascii_lib env_ok opt1 db1) =
       [ContainerCreate ''ubuntu'' [] [''echo'', ''Hello'']
          [\<lparr>Source = ''/data/1/in'', Target = ''/in''\<rparr>, \<lparr>Source = ''/data/1/out'', Target = ''/out''\<rparr>],
        ContainerStart ''c1'', DBStartRun 1 ''alice'' None, ContainerWait ''c1'', ContainerLogs ''c1'',
        StdCopy ''c1'', WriteFile ''/data/1/out/STDOUT.log'' ''Hello'', WriteFile ''/data/1/out/STDERR.log'' [],
        ReadFile ''/data/1/out/_metadata.json'', DBFinishRun 1 None, LogsClose ''c1'',
        ContainerRemove ''c1'', ClientClose]
   \<and> length (filter is_start_run (events_of (RunTool ascii_lib env_ok opt1 db1))) \<noteq> 2
   \<and> map started_at (runs db1) = [None]
   \<and> map started_at (runs (db_of (RunTool ascii_lib (env_ok\<lparr>run_container := script_ok\<lparr>create_res := Inl ''no such image''\<rparr>\<rparr>) opt1 db1))) = [None]"
  by code_simp

text \<open>
  The run of \<open>env_ok\<close> starts its container and stamps the run once, at time 7. In
  the run of \<open>env_start_fault\<close> StartRun fails: the process ends and the database is
  as before.
\<close>

theorem running_persisted_once_witness:
  "started ascii_lib env_ok opt1 ''c1''
   \<and> start_result env_ok opt1 db1 = None
   \<and> length (filter is_start_run (events_of (RunTool ascii_lib env_ok opt1 db1))) = 1
   \<and> map status (runs db1) = [''pending''] \<and> map started_at (runs db1) = [None]
   \<and> map started_at (runs (db_of (RunTool ascii_lib env_ok opt1 db1))) = [Some 7]
   \<and> started_rows 1 False ''alice'' 7 (db_of (RunTool ascii_lib env_ok opt1 db1))
   \<and> started ascii_lib env_start_fault opt1 ''c1''
   \<and> start_result env_start_fault opt1 db1 = Some ''database is locked''
   \<and> outcome_of (RunTool ascii_lib env_start_fault opt1 db1) = Fatal ''database is locked''
   \<and> db_of (RunTool ascii_lib env_start_fault opt1 db1) = db1"
proof -
  have h: "started ascii_lib env_ok opt1 ''c1''" by code_simp
  have r: "start_result env_ok opt1 db1 = None" by code_simp
  have a: "admin_subquery db1 '''' = Some True \<longleftrightarrow> False" by code_simp
  have c: "clock db1 = 7" "ID (opt_Tool opt1) = 1" "UserId opt1 = ''alice''" by code_simp+
  have e: "map status (runs db1) = [''pending''] \<and> map started_at (runs db1) = [None]
           \<and> map started_at (runs (db_of (RunTool ascii_lib env_ok opt1 db1))) = [Some 7]"
    by code_simp
  note t = running_persisted_once [OF h, of db1]
  from t have n: "length (filter is_start_run (events_of (RunTool ascii_lib env_ok opt1 db1))) = 1"
    by (elim conjE)
  from t r have "started_rows (ID (opt_Tool opt1)) (admin_subquery db1 '''' = Some True) (UserId opt1)
                   (clock db1) (db_of (RunTool ascii_lib env_ok opt1 db1))"
    by (elim conjE) (erule (1) impE, elim conjE)
  then have s: "started_rows 1 False ''alice'' 7 (db_of (RunTool ascii_lib env_ok opt1 db1))"
    by (simp only: a c)
  have h': "started ascii_lib env_start_fault opt1 ''c1''" by code_simp
  have r': "start_result env_start_fault opt1 db1 = Some ''database is locked''" by code_simp
  note t' = running_persisted_once [OF h', of db1]
  from t' have "\<forall>m. start_result env_start_fault opt1 db1 = Some m \<longrightarrow>
             outcome_of (RunTool ascii_lib env_start_fault opt1 db1) = Fatal m
             \<and> db_of (RunTool ascii_lib env_start_fault opt1 db1) = db1"
    by (elim conjE)
  with r' have f: "outcome_of (RunTool ascii_lib env_start_fault opt1 db1) = Fatal ''database is locked''
             \<and> db_of (RunTool ascii_lib env_start_fault opt1 db1) = db1"
    by blast
  from h r n e s h' r' f show ?thesis by (intro conjI) (elim conjE, assumption)+
qed

text \<open>A run in which StartRun fails: the witness of C10.\<close>

theorem transition_failure_is_fatal_witness:
  "DBStartRun 1 ''alice'' (Some ''database is locked'') \<in> set (events_of (RunTool ascii_lib env_start_fault opt1 db1))
   \<and> failed_transition (DBStartRun 1 ''alice'' (Some ''database is locked'')) ''database is locked''
   \<and> outcome_of (RunTool ascii_lib env_start_fault opt1 db1) = Fatal ''database is locked''"
proof -
  have ev: "events_of (RunTool ascii_lib env_start_fault opt1 db1) =
              [ContainerCreate ''ubuntu'' [] [''echo'', ''Hello'']
                 [\<lparr>Source = ''/data/1/in'', Target = ''/in''\<rparr>, \<lparr>Source = ''/data/1/out'', Target = ''/out''\<rparr>],
               ContainerStart ''c1'', DBStartRun 1 ''alice'' (Some ''database is locked'')]"
    by code_simp
  then have h1: "DBStartRun 1 ''alice'' (Some ''database is locked'')
                   \<in> set (events_of (RunTool ascii_lib env_start_fault opt1 db1))"
    by simp
  have h2: "failed_transition (DBStartRun 1 ''alice'' (Some ''database is locked'')) ''database is locked''"
    by (simp add: failed_transition_def)
  from transition_failure_is_fatal [OF h1 h2] h1 h2 show ?thesis by simp
qed

section \<open>A failure path that leaves the run in state running\<close>

text \<open>
  C1. Every failure path of \<open>RunTool\<close> should end with the run persisted as errored.
  When the log stream of the finished container cannot be opened, \<open>RunTool\<close> returns
  the error without calling \<open>updateDB\<close>: the run stays in state running with no error
  message. The other failure paths after the start (wait, \<open>StdCopy\<close>, exit code) do call
  \<open>updateDB("errored", err)\<close>.
\<close>

theorem logs_failure_leaves_running:
  "outcome_of (RunTool ascii_lib env_logs_fail opt1 db1) = Returned (Some ''stream error'')
   \<and> map status (runs (db_of (RunTool ascii_lib env_logs_fail opt1 db1))) = [''running'']
   \<and> map error_message (runs (db_of (RunTool ascii_lib env_logs_fail opt1 db1))) = [None]"
  by code_simp

section \<open>Cleanup of containers and log streams\<close>

lemma errored_return_no_logs: "ContainerLogs c \<notin> set (events_of (errored_return env opt err d))"
  using errored_return_events [of env opt err d] by auto

lemma after_wait_closes:
  assumes "logs_res (run_container env) = None"
    and "outcome_of (after_wait lib env opt ms mode cid code d) = Returned x"
  shows "\<exists>b. events_of (after_wait lib env opt ms mode cid code d)
               = [ContainerLogs cid, StdCopy cid] @ b @ [LogsClose cid]"
  using assms by (simp add: after_wait_def split: outcome.splits)

lemma after_start_closes:
  assumes "logs_res (run_container env) = None"
    and "outcome_of (after_start lib env opt ms mode cid d) = Returned x"
    and "ContainerLogs cid \<in> set (events_of (after_start lib env opt ms mode cid d))"
  shows "\<exists>a b. events_of (after_start lib env opt ms mode cid d)
               = a @ [ContainerLogs cid, StdCopy cid] @ b @ [LogsClose cid]"
proof -
  have app: "\<And>r code. r = after_wait lib env opt ms mode cid code d \<Longrightarrow> outcome_of r = Returned x \<Longrightarrow>
               \<exists>a b. ContainerWait cid # events_of r = a @ [ContainerLogs cid, StdCopy cid] @ b @ [LogsClose cid]"
  proof -
    fix r code
    assume "r = after_wait lib env opt ms mode cid code d" and "outcome_of r = Returned x"
    with assms(1) after_wait_closes obtain b where
      "events_of r = [ContainerLogs cid, StdCopy cid] @ b @ [LogsClose cid]"
      by blast
    then have "ContainerWait cid # events_of r = [ContainerWait cid] @ [ContainerLogs cid, StdCopy cid] @ b @ [LogsClose cid]"
      by simp
    then show "\<exists>a b. ContainerWait cid # events_of r = a @ [ContainerLogs cid, StdCopy cid] @ b @ [LogsClose cid]"
      by blast
  qed
  show ?thesis
  proof (cases "wait_res (run_container env)")
    case (WaitErr e)
    with assms(2,3) app show ?thesis
      by (cases e) (auto simp: after_start_def errored_return_no_logs)
  next
    case (WaitStatus msg code)
    with assms(2,3) app show ?thesis
      by (cases msg) (auto simp: after_start_def errored_return_no_logs)
  qed
qed

lemma after_create_closes:
  assumes "logs_res (run_container env) = None"
    and "outcome_of (after_create lib env opt ms mode cid d) = Returned x"
    and "ContainerLogs cid \<in> set (events_of (after_create lib env opt ms mode cid d))"
  shows "\<exists>a b. events_of (after_create lib env opt ms mode cid d)
               = a @ [ContainerLogs cid, StdCopy cid] @ b @ [LogsClose cid]"
proof (cases "start_res (run_container env)")
  case (Some err)
  with assms(3) show ?thesis
    by (simp add: after_create_def errored_return_no_logs)
next
  case None
  obtain m d' evs where u: "updateDB env opt ''started'' None d = (m, d', evs)"
    by (cases "updateDB env opt ''started'' None d") auto
  then have evs: "evs = [DBStartRun (ID (opt_Tool opt)) (UserId opt) m]"
    by (auto simp: updateDB_def case_prod_beta)
  from None u assms(2) have m: "m = None"
    by (cases m) (simp_all add: after_create_def)
  let ?r = "after_start lib env opt ms mode cid d'"
  from None u m evs have ev: "events_of (after_create lib env opt ms mode cid d)
      = [ContainerStart cid, DBStartRun (ID (opt_Tool opt)) (UserId opt) None] @ events_of ?r"
    and out: "outcome_of (after_create lib env opt ms mode cid d) = outcome_of ?r"
    by (simp_all add: after_create_def)
  from ev assms(3) have "ContainerLogs cid \<in> set (events_of ?r)" by simp
  with after_start_closes [OF assms(1)] out assms(2) obtain a b where
    "events_of ?r = a @ [ContainerLogs cid, StdCopy cid] @ b @ [LogsClose cid]"
    by metis
  with ev have "events_of (after_create lib env opt ms mode cid d)
      = ([ContainerStart cid, DBStartRun (ID (opt_Tool opt)) (UserId opt) None] @ a)
          @ [ContainerLogs cid, StdCopy cid] @ b @ [LogsClose cid]"
    by simp
  then show ?thesis by blast
qed

lemma RunTool_removes:
  assumes "reaches_create lib env opt" and "create_res (run_container env) = Inr cid"
    and "outcome_of (RunTool lib env opt d) = Returned x"
  shows "\<exists>mid. events_of (RunTool lib env opt d) =
            probe_events lib env opt
              @ [ContainerCreate (Image (opt_Tool opt)) (run_entrypoint lib env opt) (run_cmd lib env opt)
                   (build_mounts (Mounts (opt_Tool opt)))]
              @ mid @ [ContainerRemove cid, ClientClose]
          \<and> (ContainerLogs cid \<in> set mid \<and> logs_res (run_container env) = None \<longrightarrow>
               (\<exists>a b. mid = a @ [ContainerLogs cid, StdCopy cid] @ b @ [LogsClose cid]))"
proof -
  let ?r = "after_create lib env opt (build_mounts (Mounts (opt_Tool opt))) (run_mode lib env opt) cid d"
  from assms have out: "outcome_of ?r = Returned x"
    by (simp add: RunTool_reaches_create create_container_def)
  with assms have "events_of (RunTool lib env opt d) =
            probe_events lib env opt
              @ [ContainerCreate (Image (opt_Tool opt)) (run_entrypoint lib env opt) (run_cmd lib env opt)
                   (build_mounts (Mounts (opt_Tool opt)))]
              @ events_of ?r @ [ContainerRemove cid, ClientClose]"
    by (simp add: RunTool_reaches_create create_container_def)
  moreover have "ContainerLogs cid \<in> set (events_of ?r) \<and> logs_res (run_container env) = None \<longrightarrow>
               (\<exists>a b. events_of ?r = a @ [ContainerLogs cid, StdCopy cid] @ b @ [LogsClose cid])"
    using after_create_closes out by blast
  ultimately show ?thesis by blast
qed

lemma collect_logs_closes:
  "logs_res k = None \<Longrightarrow> fst (collect_logs k cid code) = [ContainerLogs cid, StdCopy cid, LogsClose cid]"
  by (simp add: collect_logs_def case_prod_beta)

lemma collect_logs_unopened:
  "logs_res k = Some e \<Longrightarrow> fst (collect_logs k cid code) = [ContainerLogs cid]"
  by (simp add: collect_logs_def)

lemma start_and_wait_closes:
  assumes "logs_res k = None" and "ContainerLogs cid \<in> set (fst (start_and_wait k cid))"
  shows "\<exists>a. fst (start_and_wait k cid) = a @ [ContainerLogs cid, StdCopy cid, LogsClose cid]"
proof -
  have "\<And>code. fst (start_and_wait k cid) = [ContainerStart cid, ContainerWait cid] @ fst (collect_logs k cid code)
          \<Longrightarrow> ?thesis"
    using assms(1) by (simp add: collect_logs_closes)
  with assms(2) show ?thesis
    by (auto simp: start_and_wait_def case_prod_beta split: option.splits wait_result.splits)
qed

lemma runContainerCommand_removes:
  assumes "create_res (dk img ep cmd) = Inr pid"
  shows "\<exists>mid. fst (runContainerCommand dk img ep cmd) = [ContainerCreate img ep cmd []] @ mid @ [ContainerRemove pid]
           \<and> (ContainerLogs pid \<in> set mid \<and> logs_res (dk img ep cmd) = None \<longrightarrow>
                (\<exists>a. mid = a @ [ContainerLogs pid, StdCopy pid, LogsClose pid]))"
proof -
  from assms have "fst (runContainerCommand dk img ep cmd)
      = [ContainerCreate img ep cmd []] @ fst (start_and_wait (dk img ep cmd) pid) @ [ContainerRemove pid]"
    by (simp add: runContainerCommand_def case_prod_beta)
  then show ?thesis using start_and_wait_closes by blast
qed

lemma readToolCitation_removes:
  assumes "create_res (dk img [''cat''] [''/src/CITATION.cff'']) = Inr qid"
  shows "\<exists>mid. fst (readToolCitation lib dk img)
           = [ContainerCreate img [''cat''] [''/src/CITATION.cff''] []] @ mid @ [ContainerRemove qid]
         \<and> (ContainerLogs qid \<in> set mid \<and> logs_res (dk img [''cat''] [''/src/CITATION.cff'']) = None \<longrightarrow>
              (\<exists>a. mid = a @ [ContainerLogs qid, StdCopy qid, LogsClose qid]))"
proof -
  let ?k = "dk img [''cat''] [''/src/CITATION.cff'']"
  let ?mid = "fst (citation_body lib ?k img qid)"
  from assms have "fst (readToolCitation lib dk img)
      = [ContainerCreate img [''cat''] [''/src/CITATION.cff''] []] @ ?mid @ [ContainerRemove qid]"
    by (simp add: readToolCitation_def case_prod_beta)
  moreover have "ContainerLogs qid \<in> set ?mid \<and> logs_res ?k = None \<longrightarrow>
              (\<exists>a. ?mid = a @ [ContainerLogs qid, StdCopy qid, LogsClose qid])"
    by (auto simp: citation_body_def case_prod_beta split: option.splits wait_result.splits)
  ultimately show ?thesis by blast
qed

text \<open>
  C9, as amended. On every execution path of \<open>RunTool\<close> that returns (the process is
  not ended by \<open>log.Fatal\<close>) and on which the container was created, the events after
  the create end with the removal of that container and the closing of the client;
  if the log stream was opened, it is closed after \<open>StdCopy\<close> and before the removal.
  Every container created by \<open>runContainerCommand\<close> or \<open>readToolCitation\<close> is
  removed as the last event of the call, whatever the outcome, and its log stream, if
  opened, is closed before.
\<close>

theorem containers_removed_on_return:
  "(reaches_create lib env opt \<and> create_res (run_container env) = Inr cid
      \<and> outcome_of (RunTool lib env opt d) = Returned x \<longrightarrow>
      (\<exists>mid. events_of (RunTool lib env opt d) =
            probe_events lib env opt
              @ [ContainerCreate (Image (opt_Tool opt)) (run_entrypoint lib env opt) (run_cmd lib env opt)
                   (build_mounts (Mounts (opt_Tool opt)))]
              @ mid @ [ContainerRemove cid, ClientClose]
          \<and> (ContainerLogs cid \<in> set mid \<and> logs_res (run_container env) = None \<longrightarrow>
               (\<exists>a b. mid = a @ [ContainerLogs cid, StdCopy cid] @ b @ [LogsClose cid]))))
   \<and> (create_res (dk img ep cmd) = Inr pid \<longrightarrow>
      (\<exists>mid. fst (runContainerCommand dk img ep cmd) = [ContainerCreate img ep cmd []] @ mid @ [ContainerRemove pid]
           \<and> (ContainerLogs pid \<in> set mid \<and> logs_res (dk img ep cmd) = None \<longrightarrow>
                (\<exists>a. mid = a @ [ContainerLogs pid, StdCopy pid, LogsClose pid]))))
   \<and> (create_res (dk img [''cat''] [''/src/CITATION.cff'']) = Inr qid \<longrightarrow>
      (\<exists>mid. fst (readToolCitation lib dk img)
           = [ContainerCreate img [''cat''] [''/src/CITATION.cff''] []] @ mid @ [ContainerRemove qid]
           \<and> (ContainerLogs qid \<in> set mid \<and> logs_res (dk img [''cat''] [''/src/CITATION.cff'']) = None \<longrightarrow>
                (\<exists>a. mid = a @ [ContainerLogs qid, StdCopy qid, LogsClose qid]))))"
  using RunTool_removes runContainerCommand_removes readToolCitation_removes by blast

text \<open>
  The claim C9 as written covers every path on which the container was created. When
  StartRun fails after the start, \<open>log.Fatal\<close> ends the process and the deferred
  removal never runs.
\<close>

theorem container_leak_counterexample:
  "reaches_create ascii_lib env_start_fault opt1
   \<and> create_res (run_container env_start_fault) = Inr ''c1''
   \<and> outcome_of (RunTool ascii_lib env_start_fault opt1 db1) = Fatal ''database is locked''
   \<and> events_of (RunTool ascii_lib env_start_fault opt1 db1) =
       [ContainerCreate ''ubuntu'' [] [''echo'', ''Hello'']
          [\<lparr>Source = ''/data/1/in'', Target = ''/in''\<rparr>, \<lparr>Source = ''/data/1/out'', Target = ''/out''\<rparr>],
        ContainerStart ''c1'', DBStartRun 1 ''alice'' (Some ''database is locked'')]
   \<and> ContainerRemove ''c1'' \<notin> set (events_of (RunTool ascii_lib env_start_fault opt1 db1))"
  by code_simp

theorem containers_removed_on_return_witness:
  "reaches_create ascii_lib env_ok opt1 \<and> create_res (run_container env_ok) = Inr ''c1''
   \<and> outcome_of (RunTool ascii_lib env_ok opt1 db1) = Returned None
   \<and> create_res (docker env_ok ''ubuntu'' [''cat''] [''/src/tool.yml'']) = Inr ''p1''
   \<and> (\<exists>mid. events_of (RunTool ascii_lib env_ok opt1 db1) =
          probe_events ascii_lib env_ok opt1
            @ [ContainerCreate (Image (opt_Tool opt1)) (run_entrypoint ascii_lib env_ok opt1)
                 (run_cmd ascii_lib env_ok opt1) (build_mounts (Mounts (opt_Tool opt1)))]
            @ mid @ [ContainerRemove ''c1'', ClientClose])
   \<and> (\<exists>mid. fst (runContainerCommand (docker env_ok) ''ubuntu'' [''cat''] [''/src/tool.yml''])
          = [ContainerCreate ''ubuntu'' [''cat''] [''/src/tool.yml''] []] @ mid @ [ContainerRemove ''p1''])
   \<and> create_res (docker env_ok ''ubuntu'' [''cat''] [''/src/CITATION.cff'']) = Inr ''p1''
   \<and> (\<exists>mid. fst (readToolCitation ascii_lib (docker env_ok) ''ubuntu'')
          = [ContainerCreate ''ubuntu'' [''cat''] [''/src/CITATION.cff''] []] @ mid @ [ContainerRemove ''p1''])"
proof -
  have h1: "reaches_create ascii_lib env_ok opt1" by code_simp
  have h2: "create_res (run_container env_ok) = Inr ''c1''" by code_simp
  have h3: "outcome_of (RunTool ascii_lib env_ok opt1 db1) = Returned None" by code_simp
  have h4: "create_res (docker env_ok ''ubuntu'' [''cat''] [''/src/tool.yml'']) = Inr ''p1''" by code_simp
  have h5: "create_res (docker env_ok ''ubuntu'' [''cat''] [''/src/CITATION.cff'']) = Inr ''p1''" by code_simp
  from containers_removed_on_return [of ascii_lib env_ok opt1 "''c1''" db1 None "docker env_ok" "''ubuntu''"
      "[''cat'']" "[''/src/tool.yml'']" "''p1''" "''p1''"] h1 h2 h3 h4 h5
  show ?thesis by blast
qed

section \<open>The exit code and the final state\<close>

lemma error_unset_started:
  assumes "updateDB env opt ''started'' None d = (None, d', evs)" and "error_unset i d"
  shows "error_unset i d'"
proof -
  from updateDB_started_ok [OF assms(1)] obtain row where
    "StartRun_call d (ID (opt_Tool opt)) (UserId opt) = Inr (d', row)" by blast
  then have "runs d' = map (\<lambda>r. if r_id r = ID (opt_Tool opt) \<and> may_access d '''' (UserId opt) r
                                  then r\<lparr>status := ''running'', started_at := Some (clock d)\<rparr> else r) (runs d)"
    by (rule started_rows_StartRun(1))
  with assms(2) show ?thesis by (auto simp: error_unset_def)
qed

lemma error_unset_set_metadata:
  assumes "error_unset i d"
  shows "error_unset i (snd (db_exec env OpSetRunGotapMetadata (\<lambda>d. SetRunGotapMetadata d j md) d))"
proof -
  obtain e d' where ex: "db_exec env OpSetRunGotapMetadata (\<lambda>d. SetRunGotapMetadata d j md) d = (e, d')"
    by (cases "db_exec env OpSetRunGotapMetadata (\<lambda>d. SetRunGotapMetadata d j md) d") auto
  show ?thesis
  proof (cases e)
    case None
    with ex obtain row where "SetRunGotapMetadata d j md = Inr (d', row)"
      by (auto dest: db_exec_ok)
    then have "runs d' = map (\<lambda>r. if r_id r = j then r\<lparr>gotap_metadata := md\<rparr> else r) (runs d)"
      unfolding SetRunGotapMetadata_def by (rule update_where_ok(1))
    with assms ex show ?thesis by (auto simp: error_unset_def)
  next
    case (Some m)
    with ex have "d' = d" by (auto dest: db_exec_failed)
    with assms ex show ?thesis by simp
  qed
qed

lemma error_unset_metadata:
  assumes "error_unset i d"
  shows "error_unset i (fst (read_metadata lib env opt outDir d))"
  using assms error_unset_set_metadata [OF assms]
  by (auto simp: read_metadata_def Let_def case_prod_beta split: file_read.splits)

lemma map_keeps_id:
  assumes "rows' = map (\<lambda>r. if P r then f r else r) rows" and "\<exists>r\<in>set rows. r_id r = i"
    and "\<And>r. r_id (f r) = r_id r"
  shows "\<exists>r\<in>set rows'. r_id r = i"
proof -
  from assms(2) obtain r0 where r0: "r0 \<in> set rows" "r_id r0 = i" by blast
  let ?x = "if P r0 then f r0 else r0"
  from r0(1) assms(1) have "?x \<in> set rows'" by simp
  moreover from r0(2) assms(3) have "r_id ?x = i" by simp
  ultimately show ?thesis by blast
qed

lemma final_transition_finished:
  assumes "outcome_of (final_transition env opt mode 0 d) = Returned x" and "error_unset (ID (opt_Tool opt)) d"
  shows "x = None" and "\<exists>r\<in>set (runs (db_of (final_transition env opt mode 0 d))). r_id r = ID (opt_Tool opt)"
    and "\<forall>r\<in>set (runs (db_of (final_transition env opt mode 0 d))). r_id r = ID (opt_Tool opt) \<longrightarrow>
           status r = ''finished'' \<and> finished_at r \<noteq> None \<and> error_message r = None"
proof -
  obtain m d' evs where u: "updateDB env opt ''finished'' None d = (m, d', evs)"
    by (cases "updateDB env opt ''finished'' None d") auto
  with assms(1) have m: "m = None" and x: "x = None"
    by (cases m; simp add: final_transition_def)+
  from u m have fin: "final_transition env opt mode 0 d = (Returned None, d', evs)"
    by (simp add: final_transition_def)
  from u m updateDB_finished_ok obtain row where "FinishRun d (ID (opt_Tool opt)) = Inr (d', row)"
    by blast
  then have rows: "runs d' = map (\<lambda>r. if r_id r = ID (opt_Tool opt)
                          then r\<lparr>status := ''finished'', finished_at := Some (clock d)\<rparr> else r) (runs d)"
    and ex: "\<exists>r\<in>set (runs d). r_id r = ID (opt_Tool opt)"
    unfolding FinishRun_def by (rule update_where_ok)+
  show "x = None" by (rule x)
  have "\<exists>r\<in>set (runs d'). r_id r = ID (opt_Tool opt)"
    using map_keeps_id [OF rows ex] by simp
  then show "\<exists>r\<in>set (runs (db_of (final_transition env opt mode 0 d))). r_id r = ID (opt_Tool opt)"
    by (simp add: fin)
  from assms(2) show "\<forall>r\<in>set (runs (db_of (final_transition env opt mode 0 d))). r_id r = ID (opt_Tool opt) \<longrightarrow>
           status r = ''finished'' \<and> finished_at r \<noteq> None \<and> error_message r = None"
    by (auto simp: fin rows error_unset_def)
qed

lemma final_transition_errored:
  assumes "outcome_of (final_transition env opt mode code d) = Returned x" and "code \<noteq> 0"
  shows "x = Some (exit_message mode code)"
    and "\<exists>r\<in>set (runs (db_of (final_transition env opt mode code d))). r_id r = ID (opt_Tool opt)"
    and "\<forall>r\<in>set (runs (db_of (final_transition env opt mode code d))). r_id r = ID (opt_Tool opt) \<longrightarrow>
           status r = ''errored'' \<and> error_message r = Some (errored_message (opt_Tool opt) (Some (exit_message mode code)))"
proof -
  let ?err = "exit_message mode code"
  obtain m d' evs where u: "updateDB env opt ''errored'' (Some ?err) d = (m, d', evs)"
    by (cases "updateDB env opt ''errored'' (Some ?err) d") auto
  with assms have m: "m = None" and x: "x = Some ?err"
    by (cases m; simp add: final_transition_def errored_return_def)+
  from u m assms(2) have fin: "final_transition env opt mode code d = (Returned (Some ?err), d', evs)"
    by (simp add: final_transition_def errored_return_def)
  from u m updateDB_errored_ok obtain row where
    "RunErrored d (ID (opt_Tool opt)) (Some (errored_message (opt_Tool opt) (Some ?err))) = Inr (d', row)"
    by blast
  then have rows: "runs d' = map (\<lambda>r. if r_id r = ID (opt_Tool opt)
        then r\<lparr>status := ''errored'', error_message := Some (errored_message (opt_Tool opt) (Some ?err)),
                finished_at := Some (clock d), has_errored := True\<rparr> else r) (runs d)"
    and ex: "\<exists>r\<in>set (runs d). r_id r = ID (opt_Tool opt)"
    unfolding RunErrored_def by (rule update_where_ok)+
  show "x = Some ?err" by (rule x)
  have "\<exists>r\<in>set (runs d'). r_id r = ID (opt_Tool opt)"
    using map_keeps_id [OF rows ex] by simp
  then show "\<exists>r\<in>set (runs (db_of (final_transition env opt mode code d))). r_id r = ID (opt_Tool opt)"
    by (simp add: fin)
  show "\<forall>r\<in>set (runs (db_of (final_transition env opt mode code d))). r_id r = ID (opt_Tool opt) \<longrightarrow>
           status r = ''errored'' \<and> error_message r = Some (errored_message (opt_Tool opt) (Some ?err))"
    by (auto simp: fin rows)
qed

lemma errored_message_mentions:
  "Contains (errored_message t (Some (exit_message mode code))) mode
   \<and> Contains (errored_message t (Some (exit_message mode code))) (show_int (sint code))"
proof -
  let ?pre = "''the execution of the tool ('' @ Name t @ '') container ('' @ Image t @ '') errored unexpectedly: ''"
  have "errored_message t (Some (exit_message mode code))
          = ?pre @ mode @ ('' execution exited with status '' @ show_int (sint code))"
    by (simp add: errored_message_def exit_message_def show_error_def)
  moreover have "errored_message t (Some (exit_message mode code))
          = (?pre @ mode @ '' execution exited with status '') @ show_int (sint code) @ []"
    by (simp add: errored_message_def exit_message_def show_error_def)
  ultimately show ?thesis unfolding Contains_iff by blast
qed

lemma RunTool_logs_collected:
  assumes "logs_collected lib env opt cid code out serr"
    and "updateDB env opt ''started'' None d = (None, d', evs)"
  shows "outcome_of (RunTool lib env opt d)
           = outcome_of (after_logs lib env opt (build_mounts (Mounts (opt_Tool opt))) (run_mode lib env opt) code out serr d')"
    and "db_of (RunTool lib env opt d)
           = db_of (after_logs lib env opt (build_mounts (Mounts (opt_Tool opt))) (run_mode lib env opt) code out serr d')"
    and "events_of (RunTool lib env opt d)
           = probe_events lib env opt
               @ [ContainerCreate (Image (opt_Tool opt)) (run_entrypoint lib env opt) (run_cmd lib env opt)
                    (build_mounts (Mounts (opt_Tool opt))),
                  ContainerStart cid, DBStartRun (ID (opt_Tool opt)) (UserId opt) None,
                  ContainerWait cid, ContainerLogs cid, StdCopy cid]
               @ events_of (after_logs lib env opt (build_mounts (Mounts (opt_Tool opt))) (run_mode lib env opt) code out serr d')
               @ (case outcome_of (after_logs lib env opt (build_mounts (Mounts (opt_Tool opt))) (run_mode lib env opt) code out serr d') of
                    Returned x \<Rightarrow> [LogsClose cid, ContainerRemove cid, ClientClose]
                  | Fatal m \<Rightarrow> [])"
proof -
  from assms(2) have evs: "evs = [DBStartRun (ID (opt_Tool opt)) (UserId opt) None]"
    by (auto simp: updateDB_def case_prod_beta)
  from assms(1) have rc: "reaches_create lib env opt" and cr: "create_res (run_container env) = Inr cid"
    and st: "start_res (run_container env) = None" and lg: "logs_res (run_container env) = None"
    and sc: "stdcopy_res (run_container env) = (out, serr, None)" and fw: "finished_with env code"
    by (simp_all add: logs_collected_def started_def)
  let ?al = "after_logs lib env opt (build_mounts (Mounts (opt_Tool opt))) (run_mode lib env opt) code out serr d'"
  from fw lg sc have aw: "after_start lib env opt (build_mounts (Mounts (opt_Tool opt))) (run_mode lib env opt) cid d'
      = prepend [ContainerWait cid] (deferred (LogsClose cid) (prepend [ContainerLogs cid, StdCopy cid] ?al))"
    by (auto simp: after_start_def after_wait_def finished_with_def)
  have run: "RunTool lib env opt d =
      deferred ClientClose
        (prepend (probe_events lib env opt)
          (prepend [ContainerCreate (Image (opt_Tool opt)) (run_entrypoint lib env opt) (run_cmd lib env opt)
                      (build_mounts (Mounts (opt_Tool opt)))]
            (deferred (ContainerRemove cid)
              (prepend [ContainerStart cid]
                (prepend evs
                  (prepend [ContainerWait cid]
                    (deferred (LogsClose cid) (prepend [ContainerLogs cid, StdCopy cid] ?al))))))))"
    using rc cr st assms(2) aw
    by (simp add: RunTool_reaches_create create_container_def after_create_def)
  show "outcome_of (RunTool lib env opt d) = outcome_of ?al" by (simp add: run)
  show "db_of (RunTool lib env opt d) = db_of ?al" by (simp add: run)
  show "events_of (RunTool lib env opt d)
           = probe_events lib env opt
               @ [ContainerCreate (Image (opt_Tool opt)) (run_entrypoint lib env opt) (run_cmd lib env opt)
                    (build_mounts (Mounts (opt_Tool opt))),
                  ContainerStart cid, DBStartRun (ID (opt_Tool opt)) (UserId opt) None,
                  ContainerWait cid, ContainerLogs cid, StdCopy cid]
               @ events_of ?al
               @ (case outcome_of ?al of
                    Returned x \<Rightarrow> [LogsClose cid, ContainerRemove cid, ClientClose]
                  | Fatal m \<Rightarrow> [])"
    by (simp add: run evs split: outcome.splits)
qed

text \<open>
  C4, as amended. Take a run whose container started and exited with status \<open>code\<close>,
  whose log stream was opened and demultiplexed, and an execution of \<open>RunTool\<close> that
  returns (no persistence call ended the process). Then the run has rows in the final
  database, and for each of them: if the code is 0, \<open>RunTool\<close> returns no error, the
  status is finished, finished_at is set, and error_message is unset provided it was
  unset on entry; if the code is not 0, \<open>RunTool\<close> returns the exit error, the status
  is errored and the error message contains the run mode and the exit code in decimal.
  The run mode is \<open>default\<close> or \<open>gotap\<close>.
\<close>

theorem exit_code_decides_final_state:
  assumes "logs_collected lib env opt cid code out serr"
    and "wait_res (run_container env) = WaitStatus None code"
    and "outcome_of (RunTool lib env opt d) = Returned x"
    and "\<forall>r\<in>set (runs d). r_id r = ID (opt_Tool opt) \<longrightarrow> error_message r = None"
  shows "(\<exists>r\<in>set (runs (db_of (RunTool lib env opt d))). r_id r = ID (opt_Tool opt))
       \<and> (\<forall>r\<in>set (runs (db_of (RunTool lib env opt d))). r_id r = ID (opt_Tool opt) \<longrightarrow>
            (if code = 0
             then x = None \<and> status r = ''finished'' \<and> finished_at r \<noteq> None \<and> error_message r = None
             else x = Some (exit_message (run_mode lib env opt) code) \<and> status r = ''errored''
                  \<and> (\<exists>msg. error_message r = Some msg \<and> Contains msg (run_mode lib env opt)
                        \<and> Contains msg (show_int (sint code)))))
       \<and> (run_mode lib env opt = ''default'' \<or> run_mode lib env opt = ''gotap'')"
proof -
  let ?ms = "build_mounts (Mounts (opt_Tool opt))"
  let ?mode = "run_mode lib env opt"
  from assms(1) have st: "started lib env opt cid" by (simp add: logs_collected_def)
  obtain m d' evs where u: "updateDB env opt ''started'' None d = (m, d', evs)"
    by (cases "updateDB env opt ''started'' None d") auto
  with assms(3) RunTool_started_fatal [OF st] have m: "m = None"
    by (cases m) auto
  note rl = RunTool_logs_collected [OF assms(1) u [unfolded m]]
  let ?d1 = "fst (read_metadata lib env opt (fst (write_logs lib ?ms out serr)) d')"
  let ?fin = "final_transition env opt ?mode code ?d1"
  have al_out: "outcome_of (after_logs lib env opt ?ms ?mode code out serr d') = outcome_of ?fin"
    and al_db: "db_of (after_logs lib env opt ?ms ?mode code out serr d') = db_of ?fin"
    by (simp_all add: after_logs_def case_prod_beta)
  from assms(3) have fin_out: "outcome_of ?fin = Returned x" by (simp add: rl(1) al_out)
  have db: "db_of (RunTool lib env opt d) = db_of ?fin" by (simp add: rl(2) al_db)
  from assms(4) have "error_unset (ID (opt_Tool opt)) d" by (simp add: error_unset_def)
  with u m have "error_unset (ID (opt_Tool opt)) d'" by (auto intro: error_unset_started)
  then have eu: "error_unset (ID (opt_Tool opt)) ?d1" by (rule error_unset_metadata)
  have mode: "?mode = ''default'' \<or> ?mode = ''gotap''" by (simp add: run_mode_def)
  show ?thesis
  proof (cases "code = 0")
    case True
    with fin_out eu final_transition_finished [of env opt ?mode ?d1 x] mode show ?thesis
      unfolding db by auto
  next
    case False
    with fin_out final_transition_errored [of env opt ?mode code ?d1 x] mode
      errored_message_mentions [of "opt_Tool opt" ?mode code]
    show ?thesis unfolding db by auto
  qed
qed

text \<open>
  The claim C4 as written covers every run whose container exits with code 0. When
  the container exits with code 0 and \<open>StdCopy\<close> fails on the log stream, the final
  state is errored; when the log stream cannot be opened, the final state is running
  and finished_at stays unset.
\<close>

theorem exit_code_zero_errored_counterexample:
  "wait_res (run_container env_demux_fail) = WaitStatus None 0
   \<and> map error_message (runs db1) = [None]
   \<and> outcome_of (RunTool ascii_lib env_demux_fail opt1 db1) = Returned (Some ''unexpected EOF'')
   \<and> map status (runs (db_of (RunTool ascii_lib env_demux_fail opt1 db1))) = [''errored'']
   \<and> wait_res (run_container env_logs_fail) = WaitStatus None 0
   \<and> outcome_of (RunTool ascii_lib env_logs_fail opt1 db1) = Returned (Some ''stream error'')
   \<and> map status (runs (db_of (RunTool ascii_lib env_logs_fail opt1 db1))) = [''running'']
   \<and> map finished_at (runs (db_of (RunTool ascii_lib env_logs_fail opt1 db1))) = [None]"
  by code_simp

text \<open>The run of \<open>env_ok\<close> exits with code 0 and the run of \<open>env_exit2\<close> with code 2.\<close>

theorem exit_code_decides_final_state_witness:
  "logs_collected ascii_lib env_ok opt1 ''c1'' 0 ''Hello'' ''''
   \<and> wait_res (run_container env_ok) = WaitStatus None 0
   \<and> outcome_of (RunTool ascii_lib env_ok opt1 db1) = Returned None
   \<and> map error_message (runs db1) = [None]
   \<and> map r_id (runs (db_of (RunTool ascii_lib env_ok opt1 db1))) = [1]
   \<and> status (hd (runs (db_of (RunTool ascii_lib env_ok opt1 db1)))) = ''finished''
   \<and> finished_at (hd (runs (db_of (RunTool ascii_lib env_ok opt1 db1)))) \<noteq> None
   \<and> error_message (hd (runs (db_of (RunTool ascii_lib env_ok opt1 db1)))) = None
   \<and> logs_collected ascii_lib env_exit2 opt1 ''c1'' 2 ''Hello'' ''''
   \<and> wait_res (run_container env_exit2) = WaitStatus None 2
   \<and> outcome_of (RunTool ascii_lib env_exit2 opt1 db1)
        = Returned (Some ''default execution exited with status 2'')
   \<and> map r_id (runs (db_of (RunTool ascii_lib env_exit2 opt1 db1))) = [1]
   \<and> status (hd (runs (db_of (RunTool ascii_lib env_exit2 opt1 db1)))) = ''errored''
   \<and> (\<exists>msg. error_message (hd (runs (db_of (RunTool ascii_lib env_exit2 opt1 db1)))) = Some msg
          \<and> Contains msg (run_mode ascii_lib env_exit2 opt1) \<and> Contains msg (show_int (sint (2 :: 64 word))))"
proof -
  have i: "ID (opt_Tool opt1) = 1" by code_simp
  have e: "\<forall>r\<in>set (runs db1). r_id r = ID (opt_Tool opt1) \<longrightarrow> error_message r = None" by code_simp
  have e': "map error_message (runs db1) = [None]" by code_simp
  have a1: "logs_collected ascii_lib env_ok opt1 ''c1'' 0 ''Hello'' ''''" by code_simp
  have a2: "wait_res (run_container env_ok) = WaitStatus None 0" by code_simp
  have a3: "outcome_of (RunTool ascii_lib env_ok opt1 db1) = Returned None" by code_simp
  have a4: "map r_id (runs (db_of (RunTool ascii_lib env_ok opt1 db1))) = [1]" by code_simp
  have b1: "logs_collected ascii_lib env_exit2 opt1 ''c1'' 2 ''Hello'' ''''" by code_simp
  have b2: "wait_res (run_container env_exit2) = WaitStatus None 2" by code_simp
  have b3: "outcome_of (RunTool ascii_lib env_exit2 opt1 db1)
              = Returned (Some ''default execution exited with status 2'')" by code_simp
  have b4: "map r_id (runs (db_of (RunTool ascii_lib env_exit2 opt1 db1))) = [1]" by code_simp
  have hd_in: "xs \<noteq> [] \<Longrightarrow> hd xs \<in> set xs" for xs :: "run_row list" by simp
  have hd_id: "map r_id xs = [j] \<Longrightarrow> hd xs \<in> set xs \<and> r_id (hd xs) = j" for xs :: "run_row list" and j
    by (cases xs) auto
  have two: "(2 :: 64 word) \<noteq> 0" by simp
  note A = exit_code_decides_final_state [OF a1 a2 a3 e]
  note B = exit_code_decides_final_state [OF b1 b2 b3 e]
  from A hd_id [OF a4] i have A': "status (hd (runs (db_of (RunTool ascii_lib env_ok opt1 db1)))) = ''finished''
     \<and> finished_at (hd (runs (db_of (RunTool ascii_lib env_ok opt1 db1)))) \<noteq> None
     \<and> error_message (hd (runs (db_of (RunTool ascii_lib env_ok opt1 db1)))) = None"
    by simp
  from B hd_id [OF b4] i two have B': "status (hd (runs (db_of (RunTool ascii_lib env_exit2 opt1 db1)))) = ''errored''
     \<and> (\<exists>msg. error_message (hd (runs (db_of (RunTool ascii_lib env_exit2 opt1 db1)))) = Some msg
          \<and> Contains msg (run_mode ascii_lib env_exit2 opt1) \<and> Contains msg (show_int (sint (2 :: 64 word))))"
    by simp
  from a1 a2 a3 e' a4 A' b1 b2 b3 b4 B' show ?thesis by (intro conjI) (elim conjE, assumption)+
qed

section \<open>The metadata file of the output directory\<close>

lemma forget_fields [simp]:
  "users (forget_metadata d) = users d" "clock (forget_metadata d) = clock d"
  "runs (forget_metadata d) = map (\<lambda>r. r\<lparr>gotap_metadata := None\<rparr>) (runs d)"
  by (simp_all add: forget_metadata_def)

lemma forget_eq_iff:
  "forget_metadata d1 = forget_metadata d2 \<longleftrightarrow>
     users d1 = users d2 \<and> clock d1 = clock d2
     \<and> map (\<lambda>r. r\<lparr>gotap_metadata := None\<rparr>) (runs d1) = map (\<lambda>r. r\<lparr>gotap_metadata := None\<rparr>) (runs d2)"
proof
  assume "forget_metadata d1 = forget_metadata d2"
  then have "users (forget_metadata d1) = users (forget_metadata d2)"
    and "clock (forget_metadata d1) = clock (forget_metadata d2)"
    and "runs (forget_metadata d1) = runs (forget_metadata d2)"
    by simp_all
  then show "users d1 = users d2 \<and> clock d1 = clock d2
     \<and> map (\<lambda>r. r\<lparr>gotap_metadata := None\<rparr>) (runs d1) = map (\<lambda>r. r\<lparr>gotap_metadata := None\<rparr>) (runs d2)"
    by simp
next
  assume "users d1 = users d2 \<and> clock d1 = clock d2
     \<and> map (\<lambda>r. r\<lparr>gotap_metadata := None\<rparr>) (runs d1) = map (\<lambda>r. r\<lparr>gotap_metadata := None\<rparr>) (runs d2)"
  then show "forget_metadata d1 = forget_metadata d2"
    by (cases d1, cases d2) (simp add: forget_metadata_def)
qed

lemma forget_set_metadata:
  "forget_metadata (snd (db_exec env OpSetRunGotapMetadata (\<lambda>d. SetRunGotapMetadata d j md) d)) = forget_metadata d"
proof -
  obtain e d' where ex: "db_exec env OpSetRunGotapMetadata (\<lambda>d. SetRunGotapMetadata d j md) d = (e, d')"
    by (cases "db_exec env OpSetRunGotapMetadata (\<lambda>d. SetRunGotapMetadata d j md) d") auto
  show ?thesis
  proof (cases e)
    case None
    with ex obtain row where "SetRunGotapMetadata d j md = Inr (d', row)"
      by (auto dest: db_exec_ok)
    then have "d' = d\<lparr>runs := map (\<lambda>r. if r_id r = j then r\<lparr>gotap_metadata := md\<rparr> else r) (runs d)\<rparr>"
      unfolding SetRunGotapMetadata_def by (rule update_where_db)
    then have "forget_metadata d' = forget_metadata d"
      by (simp add: forget_eq_iff)
    with ex show ?thesis by simp
  next
    case (Some m)
    with ex have "d' = d" by (auto dest: db_exec_failed)
    with ex show ?thesis by simp
  qed
qed

lemma forget_read_metadata:
  "forget_metadata (fst (read_metadata lib env opt outDir d)) = forget_metadata d"
  using forget_set_metadata
  by (auto simp: read_metadata_def Let_def case_prod_beta split: file_read.splits)

text \<open>An update by run id that leaves the metadata column alone acts alike on databases that agree up to that column.\<close>

lemma update_where_similar:
  fixes f :: "run_row \<Rightarrow> run_row"
  assumes sim: "forget_metadata d1 = forget_metadata d2"
    and f: "\<And>r. (f r)\<lparr>gotap_metadata := None\<rparr> = f (r\<lparr>gotap_metadata := None\<rparr>)"
  shows "(\<exists>e. update_where (\<lambda>r. r_id r = i) f d1 = Inl e \<and> update_where (\<lambda>r. r_id r = i) f d2 = Inl e)
       \<or> (\<exists>d1' row1 d2' row2. update_where (\<lambda>r. r_id r = i) f d1 = Inr (d1', row1)
            \<and> update_where (\<lambda>r. r_id r = i) f d2 = Inr (d2', row2)
            \<and> forget_metadata d1' = forget_metadata d2')"
proof -
  let ?F = "\<lambda>r::run_row. r\<lparr>gotap_metadata := None\<rparr>"
  let ?g = "\<lambda>r. if r_id r = i then f r else r"
  from sim have us: "users d1 = users d2" and cl: "clock d1 = clock d2"
    and rs: "map ?F (runs d1) = map ?F (runs d2)"
    by (simp_all add: forget_eq_iff)
  have ids: "map r_id (runs d1) = map r_id (runs d2)"
  proof -
    have "map r_id (runs d1) = map r_id (map ?F (runs d1))" by simp
    also have "\<dots> = map r_id (map ?F (runs d2))" by (simp only: rs)
    also have "\<dots> = map r_id (runs d2)" by simp
    finally show ?thesis .
  qed
  have comm: "\<And>r. ?F (?g r) = ?g (?F r)" using f by simp
  have upd: "map ?F (map ?g (runs d1)) = map ?F (map ?g (runs d2))"
  proof -
    have "map ?F (map ?g (runs d1)) = map ?g (map ?F (runs d1))" using comm by simp
    also have "\<dots> = map ?g (map ?F (runs d2))" by (simp only: rs)
    also have "\<dots> = map ?F (map ?g (runs d2))" using comm by simp
    finally show ?thesis .
  qed
  have emp: "filter (\<lambda>r. r_id r = i) (runs d1) = [] \<longleftrightarrow> filter (\<lambda>r. r_id r = i) (runs d2) = []"
  proof -
    have e1: "(filter (\<lambda>r. r_id r = i) (runs d1) = []) = (i \<notin> set (map r_id (runs d1)))"
      by (auto simp: filter_empty_conv)
    have e2: "(filter (\<lambda>r. r_id r = i) (runs d2) = []) = (i \<notin> set (map r_id (runs d2)))"
      by (auto simp: filter_empty_conv)
    show ?thesis by (simp only: e1 e2 ids)
  qed
  show ?thesis
  proof (cases "filter (\<lambda>r. r_id r = i) (runs d1) = []")
    case True
    with emp have "filter (\<lambda>r. r_id r = i) (runs d2) = []" by simp
    with True show ?thesis by (simp add: update_where_def one_def)
  next
    case False
    with emp have ne2: "filter (\<lambda>r. r_id r = i) (runs d2) \<noteq> []" by simp
    from False obtain x xs where x: "filter (\<lambda>r. r_id r = i) (runs d1) = x # xs"
      by (cases "filter (\<lambda>r. r_id r = i) (runs d1)") auto
    from ne2 obtain y ys where y: "filter (\<lambda>r. r_id r = i) (runs d2) = y # ys"
      by (cases "filter (\<lambda>r. r_id r = i) (runs d2)") auto
    have u1: "update_where (\<lambda>r. r_id r = i) f d1 = Inr (d1\<lparr>runs := map ?g (runs d1)\<rparr>, f x)"
      by (simp add: update_where_def one_def x)
    have u2: "update_where (\<lambda>r. r_id r = i) f d2 = Inr (d2\<lparr>runs := map ?g (runs d2)\<rparr>, f y)"
      by (simp add: update_where_def one_def y)
    have "forget_metadata (d1\<lparr>runs := map ?g (runs d1)\<rparr>) = forget_metadata (d2\<lparr>runs := map ?g (runs d2)\<rparr>)"
      using us cl upd by (simp add: forget_eq_iff)
    with u1 u2 show ?thesis by blast
  qed
qed

lemma db_exec_similar:
  fixes f :: "run_row \<Rightarrow> run_row"
  assumes sim: "forget_metadata d1 = forget_metadata d2"
    and f: "\<And>r. (f r)\<lparr>gotap_metadata := None\<rparr> = f (r\<lparr>gotap_metadata := None\<rparr>)"
  shows "fst (db_exec env op (update_where (\<lambda>r. r_id r = i) f) d1)
           = fst (db_exec env op (update_where (\<lambda>r. r_id r = i) f) d2)
       \<and> forget_metadata (snd (db_exec env op (update_where (\<lambda>r. r_id r = i) f) d1))
           = forget_metadata (snd (db_exec env op (update_where (\<lambda>r. r_id r = i) f) d2))"
proof -
  have "(\<exists>e. update_where (\<lambda>r. r_id r = i) f d1 = Inl e \<and> update_where (\<lambda>r. r_id r = i) f d2 = Inl e)
       \<or> (\<exists>d1' row1 d2' row2. update_where (\<lambda>r. r_id r = i) f d1 = Inr (d1', row1)
            \<and> update_where (\<lambda>r. r_id r = i) f d2 = Inr (d2', row2)
            \<and> forget_metadata d1' = forget_metadata d2')"
    by (rule update_where_similar [OF sim]) (rule f)
  with sim show ?thesis
    by (auto simp: db_exec_def split: option.splits)
qed

lemma updateDB_similar:
  assumes sim: "forget_metadata d1 = forget_metadata d2" and st: "st = ''finished'' \<or> st = ''errored''"
  shows "fst (updateDB env opt st e d1) = fst (updateDB env opt st e d2)
       \<and> forget_metadata (fst (snd (updateDB env opt st e d1))) = forget_metadata (fst (snd (updateDB env opt st e d2)))"
proof -
  from sim have cl: "clock d2 = clock d1" by (simp add: forget_eq_iff)
  let ?i = "ID (opt_Tool opt)"
  from st show ?thesis
  proof
    assume fin: "st = ''finished''"
    let ?f = "\<lambda>r. r\<lparr>status := ''finished'', finished_at := Some (clock d1)\<rparr>"
    have q1: "db_exec env OpFinishRun (\<lambda>d. FinishRun d ?i) d1
                = db_exec env OpFinishRun (update_where (\<lambda>r. r_id r = ?i) ?f) d1"
      by (rule db_exec_cong) (simp add: FinishRun_def)
    have q2: "db_exec env OpFinishRun (\<lambda>d. FinishRun d ?i) d2
                = db_exec env OpFinishRun (update_where (\<lambda>r. r_id r = ?i) ?f) d2"
      by (rule db_exec_cong) (simp add: FinishRun_def cl)
    have "fst (db_exec env OpFinishRun (update_where (\<lambda>r. r_id r = ?i) ?f) d1)
           = fst (db_exec env OpFinishRun (update_where (\<lambda>r. r_id r = ?i) ?f) d2)
       \<and> forget_metadata (snd (db_exec env OpFinishRun (update_where (\<lambda>r. r_id r = ?i) ?f) d1))
           = forget_metadata (snd (db_exec env OpFinishRun (update_where (\<lambda>r. r_id r = ?i) ?f) d2))"
      by (rule db_exec_similar [OF sim]) simp
    with fin show ?thesis
      by (simp add: updateDB_def case_prod_beta q1 q2)
  next
    assume er: "st = ''errored''"
    let ?f = "\<lambda>r. r\<lparr>status := ''errored'', error_message := Some (errored_message (opt_Tool opt) e),
                finished_at := Some (clock d1), has_errored := True\<rparr>"
    have q1: "db_exec env OpRunErrored (\<lambda>d. RunErrored d ?i (Some (errored_message (opt_Tool opt) e))) d1
                = db_exec env OpRunErrored (update_where (\<lambda>r. r_id r = ?i) ?f) d1"
      by (rule db_exec_cong) (simp add: RunErrored_def)
    have q2: "db_exec env OpRunErrored (\<lambda>d. RunErrored d ?i (Some (errored_message (opt_Tool opt) e))) d2
                = db_exec env OpRunErrored (update_where (\<lambda>r. r_id r = ?i) ?f) d2"
      by (rule db_exec_cong) (simp add: RunErrored_def cl)
    have "fst (db_exec env OpRunErrored (update_where (\<lambda>r. r_id r = ?i) ?f) d1)
           = fst (db_exec env OpRunErrored (update_where (\<lambda>r. r_id r = ?i) ?f) d2)
       \<and> forget_metadata (snd (db_exec env OpRunErrored (update_where (\<lambda>r. r_id r = ?i) ?f) d1))
           = forget_metadata (snd (db_exec env OpRunErrored (update_where (\<lambda>r. r_id r = ?i) ?f) d2))"
      by (rule db_exec_similar [OF sim]) simp
    with er show ?thesis
      by (simp add: updateDB_def case_prod_beta q1 q2)
  qed
qed

lemma final_transition_similar:
  assumes "forget_metadata d1 = forget_metadata d2"
  shows "outcome_of (final_transition env opt mode code d1) = outcome_of (final_transition env opt mode code d2)
       \<and> forget_metadata (db_of (final_transition env opt mode code d1))
           = forget_metadata (db_of (final_transition env opt mode code d2))"
proof (cases "code = 0")
  case True
  with updateDB_similar [OF assms, of "''finished''" env opt None] show ?thesis
    by (auto simp: final_transition_def case_prod_beta outcome_of_def db_of_def split: option.splits)
next
  case False
  with updateDB_similar [OF assms, of "''errored''" env opt "Some (exit_message mode code)"] show ?thesis
    by (auto simp: final_transition_def errored_return_def case_prod_beta outcome_of_def db_of_def
          split: option.splits)
qed

lemma metadata_is_kept:
  fixes f :: "run_row \<Rightarrow> run_row"
  assumes "metadata_is i v d" and "runs d' = map (\<lambda>r. if P r then f r else r) (runs d)"
    and "\<And>r. gotap_metadata (f r) = gotap_metadata r" and "\<And>r. r_id (f r) = r_id r"
  shows "metadata_is i v d'"
  unfolding metadata_is_def
proof (intro ballI impI)
  fix x
  assume "x \<in> set (runs d')" and xi: "r_id x = i"
  with assms(2) obtain r where r: "r \<in> set (runs d)" and x: "x = (if P r then f r else r)"
    by auto
  from x xi assms(4) have ri: "r_id r = i" by (cases "P r") simp_all
  with r assms(1) have "gotap_metadata r = v" by (simp add: metadata_is_def)
  with x assms(3) show "gotap_metadata x = v" by (cases "P r") simp_all
qed

lemma metadata_is_set:
  assumes "db_exec env OpSetRunGotapMetadata (\<lambda>d. SetRunGotapMetadata d i md) d = (None, d')"
  shows "metadata_is i md d'"
  unfolding metadata_is_def
proof (intro ballI impI)
  fix x
  assume xin: "x \<in> set (runs d')" and xi: "r_id x = i"
  from assms obtain row where "SetRunGotapMetadata d i md = Inr (d', row)"
    by (blast dest: db_exec_ok)
  then have "runs d' = map (\<lambda>r. if r_id r = i then r\<lparr>gotap_metadata := md\<rparr> else r) (runs d)"
    unfolding SetRunGotapMetadata_def by (rule update_where_ok(1))
  with xin obtain r where "r \<in> set (runs d)"
    and x: "x = (if r_id r = i then r\<lparr>gotap_metadata := md\<rparr> else r)"
    by auto
  with xi show "gotap_metadata x = md" by (cases "r_id r = i") simp_all
qed

lemma metadata_is_update:
  fixes f :: "run_row \<Rightarrow> run_row"
  assumes "metadata_is i v d" and "\<And>r. gotap_metadata (f r) = gotap_metadata r" and "\<And>r. r_id (f r) = r_id r"
  shows "metadata_is i v (snd (db_exec env op (update_where P f) d))"
proof -
  obtain e d' where ex: "db_exec env op (update_where P f) d = (e, d')"
    by (cases "db_exec env op (update_where P f) d") blast
  have "metadata_is i v d'"
  proof (cases e)
    case None
    with ex obtain row where "update_where P f d = Inr (d', row)" by (blast dest: db_exec_ok)
    then have "runs d' = map (\<lambda>r. if P r then f r else r) (runs d)" by (rule update_where_ok(1))
    with assms(1) show ?thesis using assms(2,3) by (rule metadata_is_kept)
  next
    case (Some m)
    with ex have "d' = d" by (blast dest: db_exec_failed)
    with assms(1) show ?thesis by simp
  qed
  with ex show ?thesis by simp
qed

lemma metadata_is_finished:
  assumes "metadata_is (ID (opt_Tool opt)) v d"
  shows "metadata_is (ID (opt_Tool opt)) v (fst (snd (updateDB env opt ''finished'' e d)))"
proof -
  let ?i = "ID (opt_Tool opt)"
  have "db_exec env OpFinishRun (\<lambda>d. FinishRun d ?i) d
          = db_exec env OpFinishRun (update_where (\<lambda>r. r_id r = ?i)
              (\<lambda>r. r\<lparr>status := ''finished'', finished_at := Some (clock d)\<rparr>)) d"
    by (rule db_exec_cong) (simp add: FinishRun_def)
  moreover have "metadata_is ?i v (snd (db_exec env OpFinishRun (update_where (\<lambda>r. r_id r = ?i)
              (\<lambda>r. r\<lparr>status := ''finished'', finished_at := Some (clock d)\<rparr>)) d))"
    using assms by (rule metadata_is_update) simp_all
  ultimately show ?thesis by (simp add: updateDB_def case_prod_beta)
qed

lemma metadata_is_errored:
  assumes "metadata_is (ID (opt_Tool opt)) v d"
  shows "metadata_is (ID (opt_Tool opt)) v (fst (snd (updateDB env opt ''errored'' e d)))"
proof -
  let ?i = "ID (opt_Tool opt)"
  let ?msg = "Some (errored_message (opt_Tool opt) e)"
  have "db_exec env OpRunErrored (\<lambda>d. RunErrored d ?i ?msg) d
          = db_exec env OpRunErrored (update_where (\<lambda>r. r_id r = ?i)
              (\<lambda>r. r\<lparr>status := ''errored'', error_message := ?msg, finished_at := Some (clock d),
                      has_errored := True\<rparr>)) d"
    by (rule db_exec_cong) (simp add: RunErrored_def)
  moreover have "metadata_is ?i v (snd (db_exec env OpRunErrored (update_where (\<lambda>r. r_id r = ?i)
              (\<lambda>r. r\<lparr>status := ''errored'', error_message := ?msg, finished_at := Some (clock d),
                      has_errored := True\<rparr>)) d))"
    using assms by (rule metadata_is_update) simp_all
  ultimately show ?thesis by (simp add: updateDB_def case_prod_beta)
qed

lemma metadata_is_final:
  assumes "metadata_is (ID (opt_Tool opt)) v d"
  shows "metadata_is (ID (opt_Tool opt)) v (db_of (final_transition env opt mode code d))"
  unfolding final_transition_db using metadata_is_finished [OF assms] metadata_is_errored [OF assms]
  by simp

lemma final_transition_quiet:
  "e \<in> set (events_of (final_transition env opt mode code d)) \<Longrightarrow> \<not> is_set_metadata e \<and> \<not> is_log e"
  by (cases "code = 0")
     (auto simp: final_transition_def errored_return_def updateDB_def events_of_def is_set_metadata_def
           is_log_def case_prod_beta split: option.splits)

lemma docker_quiet: "docker_event e \<Longrightarrow> \<not> is_set_metadata e \<and> \<not> is_log e"
  by (cases e) (simp_all add: docker_event_def is_set_metadata_def is_log_def)

lemma rm_absent:
  "outDir \<noteq> '''' \<Longrightarrow> read_file env (path_Join lib outDir ''_metadata.json'') = NotExist \<Longrightarrow>
   read_metadata lib env opt outDir d = (d, [ReadFile (path_Join lib outDir ''_metadata.json'')])"
  by (simp add: read_metadata_def Let_def)

lemma rm_unreadable:
  "outDir \<noteq> '''' \<Longrightarrow> read_file env (path_Join lib outDir ''_metadata.json'') = ReadError m \<Longrightarrow>
   read_metadata lib env opt outDir d =
     (d, [ReadFile (path_Join lib outDir ''_metadata.json''),
          LogPrintf (''failed reading gotap metadata at '' @ path_Join lib outDir ''_metadata.json'' @ '': '' @ m)])"
  by (simp add: read_metadata_def Let_def)

lemma rm_invalid:
  "outDir \<noteq> '''' \<Longrightarrow> read_file env (path_Join lib outDir ''_metadata.json'') = FileContent bytes \<Longrightarrow>
   \<not> json_Valid lib bytes \<Longrightarrow>
   read_metadata lib env opt outDir d =
     (d, [ReadFile (path_Join lib outDir ''_metadata.json''),
          LogPrintf (''invalid gotap metadata JSON at '' @ path_Join lib outDir ''_metadata.json'')])"
  by (simp add: read_metadata_def Let_def)

lemma rm_valid:
  "outDir \<noteq> '''' \<Longrightarrow> read_file env (path_Join lib outDir ''_metadata.json'') = FileContent bytes \<Longrightarrow>
   json_Valid lib bytes \<Longrightarrow>
   db_exec env OpSetRunGotapMetadata
        (\<lambda>d. SetRunGotapMetadata d (ID (opt_Tool opt)) (Some (TrimSpace lib bytes))) d = (r, d') \<Longrightarrow>
   read_metadata lib env opt outDir d =
     (d', [ReadFile (path_Join lib outDir ''_metadata.json''),
           DBSetRunGotapMetadata (ID (opt_Tool opt)) (TrimSpace lib bytes) r]
            @ (case r of
                 None \<Rightarrow> []
               | Some m \<Rightarrow> [LogPrintf (''failed to persist gotap metadata for run ''
                              @ show_int (ID (opt_Tool opt)) @ '': '' @ m)]))"
  by (simp add: read_metadata_def Let_def)

lemma db_exec_read_file: "db_exec (env\<lparr>read_file := f\<rparr>) = db_exec env"
  by (simp add: fun_eq_iff db_exec_def)

lemma updateDB_read_file: "updateDB (env\<lparr>read_file := f\<rparr>) = updateDB env"
  by (simp add: fun_eq_iff updateDB_def db_exec_read_file)

lemma final_transition_read_file: "final_transition (env\<lparr>read_file := f\<rparr>) = final_transition env"
  by (simp add: fun_eq_iff final_transition_def errored_return_def updateDB_read_file)

lemma logs_collected_read_file: "logs_collected lib (env\<lparr>read_file := f\<rparr>) = logs_collected lib env"
  by (simp add: fun_eq_iff logs_collected_def started_def reaches_create_def probe_error_def finished_with_def)

lemma run_mode_read_file: "run_mode lib (env\<lparr>read_file := f\<rparr>) = run_mode lib env"
  by (simp add: fun_eq_iff run_mode_def probe_found_def)

lemma write_logs_mount:
  "find (\<lambda>m. Target m = ''/out'') ms = Some mnt \<Longrightarrow>
     write_logs lib ms out serr =
       (Source mnt, [WriteFile (path_Join lib (Source mnt) ''STDOUT.log'') out,
                     WriteFile (path_Join lib (Source mnt) ''STDERR.log'') serr])"
  by (simp add: write_logs_def)

lemma read_metadata_reads:
  assumes "outDir \<noteq> ''''"
  shows "\<exists>md. snd (read_metadata lib env opt outDir d) = ReadFile (path_Join lib outDir ''_metadata.json'') # md"
proof (cases "read_file env (path_Join lib outDir ''_metadata.json'')")
  case NotExist
  with assms show ?thesis by (simp add: rm_absent)
next
  case (ReadError m)
  with assms show ?thesis by (simp add: rm_unreadable)
next
  case (FileContent bytes)
  show ?thesis
  proof (cases "json_Valid lib bytes")
    case False
    with FileContent assms show ?thesis by (simp add: rm_invalid)
  next
    case True
    obtain r d' where "db_exec env OpSetRunGotapMetadata
        (\<lambda>d. SetRunGotapMetadata d (ID (opt_Tool opt)) (Some (TrimSpace lib bytes))) d = (r, d')"
      by (cases "db_exec env OpSetRunGotapMetadata
        (\<lambda>d. SetRunGotapMetadata d (ID (opt_Tool opt)) (Some (TrimSpace lib bytes))) d") blast
    from rm_valid [OF assms FileContent True this] show ?thesis by simp
  qed
qed

lemma metadata_outcome_independent:
  assumes lc: "logs_collected lib env opt cid code out serr"
    and sr: "fst (updateDB env opt ''started'' None d) = None"
  shows "outcome_of (RunTool lib env opt d) = outcome_of (RunTool lib (env\<lparr>read_file := f\<rparr>) opt d)
       \<and> forget_metadata (db_of (RunTool lib env opt d))
           = forget_metadata (db_of (RunTool lib (env\<lparr>read_file := f\<rparr>) opt d))"
proof -
  let ?env' = "env\<lparr>read_file := f\<rparr>"
  let ?ms = "build_mounts (Mounts (opt_Tool opt))"
  let ?mode = "run_mode lib env opt"
  let ?od = "fst (write_logs lib ?ms out serr)"
  obtain d' evs where u: "updateDB env opt ''started'' None d = (None, d', evs)"
    using sr by (cases "updateDB env opt ''started'' None d") auto
  then have u': "updateDB ?env' opt ''started'' None d = (None, d', evs)"
    by (simp add: updateDB_read_file)
  from lc have lc': "logs_collected lib ?env' opt cid code out serr"
    by (simp add: logs_collected_read_file)
  let ?d1 = "fst (read_metadata lib env opt ?od d')"
  let ?d2 = "fst (read_metadata lib ?env' opt ?od d')"
  have "forget_metadata ?d1 = forget_metadata d'" by (rule forget_read_metadata)
  moreover have "forget_metadata ?d2 = forget_metadata d'" by (rule forget_read_metadata)
  ultimately have sim: "forget_metadata ?d1 = forget_metadata ?d2" by simp
  note fs = final_transition_similar [OF sim, of env opt ?mode code]
  have o1: "outcome_of (RunTool lib env opt d) = outcome_of (final_transition env opt ?mode code ?d1)"
    and b1: "db_of (RunTool lib env opt d) = db_of (final_transition env opt ?mode code ?d1)"
    using RunTool_logs_collected(1,2) [OF lc u] by (simp_all add: after_logs_parts)
  have o2: "outcome_of (RunTool lib ?env' opt d) = outcome_of (final_transition env opt ?mode code ?d2)"
    and b2: "db_of (RunTool lib ?env' opt d) = db_of (final_transition env opt ?mode code ?d2)"
    using RunTool_logs_collected(1,2) [OF lc' u']
    by (simp_all add: after_logs_parts final_transition_read_file run_mode_read_file)
  from fs show ?thesis by (simp add: o1 b1 o2 b2)
qed

lemma metadata_events:
  assumes lc: "logs_collected lib env opt cid code out serr"
    and sr: "fst (updateDB env opt ''started'' None d) = None"
    and mt: "find (\<lambda>m. Target m = ''/out'') (build_mounts (Mounts (opt_Tool opt))) = Some mnt"
    and src: "Source mnt \<noteq> ''''"
  shows "\<exists>a md b d1.
           events_of (RunTool lib env opt d) =
             a @ [ContainerWait cid, ContainerLogs cid, StdCopy cid,
                  WriteFile (path_Join lib (Source mnt) ''STDOUT.log'') out,
                  WriteFile (path_Join lib (Source mnt) ''STDERR.log'') serr,
                  ReadFile (path_Join lib (Source mnt) ''_metadata.json'')] @ md @ b
         \<and> (\<forall>e\<in>set (a @ b). \<not> is_set_metadata e \<and> \<not> is_log e)
         \<and> read_metadata lib env opt (Source mnt) d1 = (fst (read_metadata lib env opt (Source mnt) d1),
               ReadFile (path_Join lib (Source mnt) ''_metadata.json'') # md)
         \<and> db_of (RunTool lib env opt d)
              = db_of (final_transition env opt (run_mode lib env opt) code (fst (read_metadata lib env opt (Source mnt) d1)))"
proof -
  let ?ms = "build_mounts (Mounts (opt_Tool opt))"
  let ?mode = "run_mode lib env opt"
  obtain d' evs where u: "updateDB env opt ''started'' None d = (None, d', evs)"
    using sr by (cases "updateDB env opt ''started'' None d") auto
  note wl = write_logs_mount [OF mt, of lib out serr]
  from read_metadata_reads [OF src] obtain md where
    md: "snd (read_metadata lib env opt (Source mnt) d') = ReadFile (path_Join lib (Source mnt) ''_metadata.json'') # md"
    by blast
  let ?d1 = "fst (read_metadata lib env opt (Source mnt) d')"
  let ?fin = "final_transition env opt ?mode code ?d1"
  let ?a = "probe_events lib env opt
               @ [ContainerCreate (Image (opt_Tool opt)) (run_entrypoint lib env opt) (run_cmd lib env opt) ?ms,
                  ContainerStart cid, DBStartRun (ID (opt_Tool opt)) (UserId opt) None]"
  let ?b = "events_of ?fin
              @ (case outcome_of ?fin of
                   Returned x \<Rightarrow> [LogsClose cid, ContainerRemove cid, ClientClose]
                 | Fatal m \<Rightarrow> [])"
  have ev: "events_of (RunTool lib env opt d) =
             ?a @ [ContainerWait cid, ContainerLogs cid, StdCopy cid,
                  WriteFile (path_Join lib (Source mnt) ''STDOUT.log'') out,
                  WriteFile (path_Join lib (Source mnt) ''STDERR.log'') serr,
                  ReadFile (path_Join lib (Source mnt) ''_metadata.json'')] @ md @ ?b"
    using RunTool_logs_collected(3) [OF lc u] by (simp add: after_logs_parts wl md)
  have qa: "\<forall>e\<in>set ?a. \<not> is_set_metadata e \<and> \<not> is_log e"
    using probe_events_docker docker_quiet by (auto simp: is_set_metadata_def is_log_def)
  have qb: "\<forall>e\<in>set ?b. \<not> is_set_metadata e \<and> \<not> is_log e"
    using final_transition_quiet by (auto simp: is_set_metadata_def is_log_def split: outcome.splits)
  from qa qb have q: "\<forall>e\<in>set (?a @ ?b). \<not> is_set_metadata e \<and> \<not> is_log e"
    by (simp only: set_append ball_Un)
  have rm: "read_metadata lib env opt (Source mnt) d' = (?d1, ReadFile (path_Join lib (Source mnt) ''_metadata.json'') # md)"
    by (simp add: prod_eq_iff md)
  have db: "db_of (RunTool lib env opt d) = db_of ?fin"
    using RunTool_logs_collected(2) [OF lc u] by (simp add: after_logs_parts wl)
  from ev q rm db show ?thesis by blast
qed

text \<open>
  C7, as amended. Take an execution of \<open>RunTool\<close> whose container started and
  finished, whose log stream was opened and demultiplexed, whose StartRun succeeded,
  and whose mounts have a target \<open>/out\<close> with a non-empty source. Then the engine
  reads \<open>_metadata.json\<close> in that directory right after writing the two log files, and
  \<open>md\<close>, the events of the metadata step, are the only calls of SetRunGotapMetadata
  and the only log lines of the execution: none if the file is absent; one log line
  if it cannot be read or is not valid JSON; if it is valid JSON, one call of
  SetRunGotapMetadata with the trimmed content, followed by one log line exactly when
  that call fails, and when it succeeds the rows of the run carry that content in the
  final database. The outcome of the execution, and its final database apart from the
  column gotap_metadata, are the same as when the file is absent.
\<close>

theorem metadata_step:
  assumes lc: "logs_collected lib env opt cid code out serr"
    and sr: "start_result env opt d = None"
    and mt: "find (\<lambda>m. Target m = ''/out'') (build_mounts (Mounts (opt_Tool opt))) = Some mnt"
    and src: "Source mnt \<noteq> ''''"
  shows "(\<exists>a md b.
           events_of (RunTool lib env opt d) =
             a @ [ContainerWait cid, ContainerLogs cid, StdCopy cid,
                  WriteFile (path_Join lib (Source mnt) ''STDOUT.log'') out,
                  WriteFile (path_Join lib (Source mnt) ''STDERR.log'') serr,
                  ReadFile (path_Join lib (Source mnt) ''_metadata.json'')] @ md @ b
         \<and> (\<forall>e\<in>set (a @ b). \<not> is_set_metadata e \<and> \<not> is_log e)
         \<and> (read_file env (path_Join lib (Source mnt) ''_metadata.json'') = NotExist \<longrightarrow> md = [])
         \<and> (\<forall>m. read_file env (path_Join lib (Source mnt) ''_metadata.json'') = ReadError m \<longrightarrow>
                md = [LogPrintf (''failed reading gotap metadata at ''
                                   @ path_Join lib (Source mnt) ''_metadata.json'' @ '': '' @ m)])
         \<and> (\<forall>bytes. read_file env (path_Join lib (Source mnt) ''_metadata.json'') = FileContent bytes
                \<and> \<not> json_Valid lib bytes \<longrightarrow>
                md = [LogPrintf (''invalid gotap metadata JSON at '' @ path_Join lib (Source mnt) ''_metadata.json'')])
         \<and> (\<forall>bytes. read_file env (path_Join lib (Source mnt) ''_metadata.json'') = FileContent bytes
                \<and> json_Valid lib bytes \<longrightarrow>
                (\<exists>r. md = DBSetRunGotapMetadata (ID (opt_Tool opt)) (TrimSpace lib bytes) r
                            # (case r of
                                 None \<Rightarrow> []
                               | Some m \<Rightarrow> [LogPrintf (''failed to persist gotap metadata for run ''
                                              @ show_int (ID (opt_Tool opt)) @ '': '' @ m)])
                   \<and> (r = None \<longrightarrow>
                        (\<forall>x\<in>set (runs (db_of (RunTool lib env opt d))).
                            r_id x = ID (opt_Tool opt) \<longrightarrow> gotap_metadata x = Some (TrimSpace lib bytes))))))
       \<and> outcome_of (RunTool lib env opt d) = outcome_of (RunTool lib (env\<lparr>read_file := (\<lambda>p. NotExist)\<rparr>) opt d)
       \<and> forget_metadata (db_of (RunTool lib env opt d))
           = forget_metadata (db_of (RunTool lib (env\<lparr>read_file := (\<lambda>p. NotExist)\<rparr>) opt d))"
proof -
  define p where "p = path_Join lib (Source mnt) ''_metadata.json''"
  from sr have sr': "fst (updateDB env opt ''started'' None d) = None"
    by (simp only: updateDB_started_result(1))
  from metadata_events [OF lc sr' mt src] obtain a md b d1 where
    ev: "events_of (RunTool lib env opt d) =
             a @ [ContainerWait cid, ContainerLogs cid, StdCopy cid,
                  WriteFile (path_Join lib (Source mnt) ''STDOUT.log'') out,
                  WriteFile (path_Join lib (Source mnt) ''STDERR.log'') serr,
                  ReadFile p] @ md @ b"
    and q: "\<forall>e\<in>set (a @ b). \<not> is_set_metadata e \<and> \<not> is_log e"
    and rm: "read_metadata lib env opt (Source mnt) d1 = (fst (read_metadata lib env opt (Source mnt) d1), ReadFile p # md)"
    and db: "db_of (RunTool lib env opt d)
              = db_of (final_transition env opt (run_mode lib env opt) code (fst (read_metadata lib env opt (Source mnt) d1)))"
    unfolding p_def by blast
  have absent: "read_file env p = NotExist \<longrightarrow> md = []"
  proof
    assume "read_file env p = NotExist"
    then have "read_file env (path_Join lib (Source mnt) ''_metadata.json'') = NotExist" by (simp add: p_def)
    from rm_absent [OF src this] rm show "md = []" by (simp add: p_def)
  qed
  have unreadable: "\<forall>m. read_file env p = ReadError m \<longrightarrow>
                md = [LogPrintf (''failed reading gotap metadata at '' @ p @ '': '' @ m)]"
  proof (intro allI impI)
    fix m
    assume "read_file env p = ReadError m"
    then have "read_file env (path_Join lib (Source mnt) ''_metadata.json'') = ReadError m" by (simp add: p_def)
    from rm_unreadable [OF src this] rm
    show "md = [LogPrintf (''failed reading gotap metadata at '' @ p @ '': '' @ m)]" by (simp add: p_def)
  qed
  have invalid: "\<forall>bytes. read_file env p = FileContent bytes \<and> \<not> json_Valid lib bytes \<longrightarrow>
                md = [LogPrintf (''invalid gotap metadata JSON at '' @ p)]"
  proof (intro allI impI)
    fix bytes
    assume "read_file env p = FileContent bytes \<and> \<not> json_Valid lib bytes"
    then have "read_file env (path_Join lib (Source mnt) ''_metadata.json'') = FileContent bytes"
      and "\<not> json_Valid lib bytes" by (simp_all add: p_def)
    from rm_invalid [OF src this] rm
    show "md = [LogPrintf (''invalid gotap metadata JSON at '' @ p)]" by (simp add: p_def)
  qed
  have valid: "\<forall>bytes. read_file env p = FileContent bytes \<and> json_Valid lib bytes \<longrightarrow>
                (\<exists>r. md = DBSetRunGotapMetadata (ID (opt_Tool opt)) (TrimSpace lib bytes) r
                            # (case r of
                                 None \<Rightarrow> []
                               | Some m \<Rightarrow> [LogPrintf (''failed to persist gotap metadata for run ''
                                              @ show_int (ID (opt_Tool opt)) @ '': '' @ m)])
                   \<and> (r = None \<longrightarrow>
                        (\<forall>x\<in>set (runs (db_of (RunTool lib env opt d))).
                            r_id x = ID (opt_Tool opt) \<longrightarrow> gotap_metadata x = Some (TrimSpace lib bytes))))"
  proof (intro allI impI)
    fix bytes
    assume a: "read_file env p = FileContent bytes \<and> json_Valid lib bytes"
    obtain r d' where ex: "db_exec env OpSetRunGotapMetadata
        (\<lambda>d. SetRunGotapMetadata d (ID (opt_Tool opt)) (Some (TrimSpace lib bytes))) d1 = (r, d')"
      by (cases "db_exec env OpSetRunGotapMetadata
        (\<lambda>d. SetRunGotapMetadata d (ID (opt_Tool opt)) (Some (TrimSpace lib bytes))) d1") blast
    from a have fc: "read_file env (path_Join lib (Source mnt) ''_metadata.json'') = FileContent bytes"
      and jv: "json_Valid lib bytes" by (simp_all add: p_def)
    note rv = rm_valid [OF src fc jv ex]
    from rv rm have d': "fst (read_metadata lib env opt (Source mnt) d1) = d'"
      and md: "md = DBSetRunGotapMetadata (ID (opt_Tool opt)) (TrimSpace lib bytes) r
                            # (case r of
                                 None \<Rightarrow> []
                               | Some m \<Rightarrow> [LogPrintf (''failed to persist gotap metadata for run ''
                                              @ show_int (ID (opt_Tool opt)) @ '': '' @ m)])"
      by simp_all
    have "r = None \<longrightarrow> (\<forall>x\<in>set (runs (db_of (RunTool lib env opt d))).
                            r_id x = ID (opt_Tool opt) \<longrightarrow> gotap_metadata x = Some (TrimSpace lib bytes))"
    proof
      assume "r = None"
      with ex have "metadata_is (ID (opt_Tool opt)) (Some (TrimSpace lib bytes)) d'"
        by (simp add: metadata_is_set)
      then have "metadata_is (ID (opt_Tool opt)) (Some (TrimSpace lib bytes)) (db_of (RunTool lib env opt d))"
        unfolding db d' by (rule metadata_is_final)
      then show "\<forall>x\<in>set (runs (db_of (RunTool lib env opt d))).
                            r_id x = ID (opt_Tool opt) \<longrightarrow> gotap_metadata x = Some (TrimSpace lib bytes)"
        by (simp add: metadata_is_def)
    qed
    with md show "\<exists>r. md = DBSetRunGotapMetadata (ID (opt_Tool opt)) (TrimSpace lib bytes) r
                            # (case r of
                                 None \<Rightarrow> []
                               | Some m \<Rightarrow> [LogPrintf (''failed to persist gotap metadata for run ''
                                              @ show_int (ID (opt_Tool opt)) @ '': '' @ m)])
                   \<and> (r = None \<longrightarrow>
                        (\<forall>x\<in>set (runs (db_of (RunTool lib env opt d))).
                            r_id x = ID (opt_Tool opt) \<longrightarrow> gotap_metadata x = Some (TrimSpace lib bytes)))"
      by blast
  qed
  note ind = metadata_outcome_independent [OF lc sr', where f = "\<lambda>p. NotExist"]
  from ev q absent unreadable invalid valid have
    "\<exists>a md b.
           events_of (RunTool lib env opt d) =
             a @ [ContainerWait cid, ContainerLogs cid, StdCopy cid,
                  WriteFile (path_Join lib (Source mnt) ''STDOUT.log'') out,
                  WriteFile (path_Join lib (Source mnt) ''STDERR.log'') serr,
                  ReadFile p] @ md @ b
         \<and> (\<forall>e\<in>set (a @ b). \<not> is_set_metadata e \<and> \<not> is_log e)
         \<and> (read_file env p = NotExist \<longrightarrow> md = [])
         \<and> (\<forall>m. read_file env p = ReadError m \<longrightarrow>
                md = [LogPrintf (''failed reading gotap metadata at '' @ p @ '': '' @ m)])
         \<and> (\<forall>bytes. read_file env p = FileContent bytes \<and> \<not> json_Valid lib bytes \<longrightarrow>
                md = [LogPrintf (''invalid gotap metadata JSON at '' @ p)])
         \<and> (\<forall>bytes. read_file env p = FileContent bytes \<and> json_Valid lib bytes \<longrightarrow>
                (\<exists>r. md = DBSetRunGotapMetadata (ID (opt_Tool opt)) (TrimSpace lib bytes) r
                            # (case r of
                                 None \<Rightarrow> []
                               | Some m \<Rightarrow> [LogPrintf (''failed to persist gotap metadata for run ''
                                              @ show_int (ID (opt_Tool opt)) @ '': '' @ m)])
                   \<and> (r = None \<longrightarrow>
                        (\<forall>x\<in>set (runs (db_of (RunTool lib env opt d))).
                            r_id x = ID (opt_Tool opt) \<longrightarrow> gotap_metadata x = Some (TrimSpace lib bytes)))))"
    by (intro exI [of _ a] exI [of _ md] exI [of _ b] conjI)
  with ind show ?thesis unfolding p_def by (intro conjI) (elim conjE, assumption)+
qed

text \<open>
  The claim C7 as written covers every execution with an output mount. In the run of
  \<open>env_meta_demux\<close> the output mount is present, the container exits with code 0 and
  has written a valid metadata file, but \<open>StdCopy\<close> fails: \<open>RunTool\<close> returns before
  the metadata step, the file is not read and nothing is persisted.
\<close>

theorem metadata_not_read_counterexample:
  "find (\<lambda>m. Target m = ''/out'') (build_mounts (Mounts (opt_Tool opt1)))
     = Some \<lparr>Source = ''/data/1/out'', Target = ''/out''\<rparr>
   \<and> wait_res (run_container env_meta_demux) = WaitStatus None 0
   \<and> read_file env_meta_demux ''/data/1/out/_metadata.json'' = FileContent ('' {}'' @ [CHR 0x0A])
   \<and> json_Valid ascii_lib ('' {}'' @ [CHR 0x0A])
   \<and> events_of (RunTool ascii_lib env_meta_demux opt1 db1) =
       [ContainerCreate ''ubuntu'' [] [''echo'', ''Hello'']
          [\<lparr>Source = ''/data/1/in'', Target = ''/in''\<rparr>, \<lparr>Source = ''/data/1/out'', Target = ''/out''\<rparr>],
        ContainerStart ''c1'', DBStartRun 1 ''alice'' None, ContainerWait ''c1'', ContainerLogs ''c1'',
        StdCopy ''c1'',
        DBRunErrored 1 ''the execution of the tool (echo-tool) container (ubuntu) errored unexpectedly: unexpected EOF'' None,
        LogsClose ''c1'', ContainerRemove ''c1'', ClientClose]
   \<and> map gotap_metadata (runs (db_of (RunTool ascii_lib env_meta_demux opt1 db1))) = [None]"
  by code_simp

text \<open>The run of \<open>env_meta\<close>: the file holds \<open>{}\<close> between blanks, and \<open>{}\<close> is persisted.\<close>

theorem metadata_step_witness:
  "logs_collected ascii_lib env_meta opt1 ''c1'' 0 ''Hello'' ''''
   \<and> start_result env_meta opt1 db1 = None
   \<and> find (\<lambda>m. Target m = ''/out'') (build_mounts (Mounts (opt_Tool opt1)))
        = Some \<lparr>Source = ''/data/1/out'', Target = ''/out''\<rparr>
   \<and> events_of (RunTool ascii_lib env_meta opt1 db1) =
       [ContainerCreate ''ubuntu'' [] [''echo'', ''Hello'']
          [\<lparr>Source = ''/data/1/in'', Target = ''/in''\<rparr>, \<lparr>Source = ''/data/1/out'', Target = ''/out''\<rparr>],
        ContainerStart ''c1'', DBStartRun 1 ''alice'' None, ContainerWait ''c1'', ContainerLogs ''c1'',
        StdCopy ''c1'', WriteFile ''/data/1/out/STDOUT.log'' ''Hello'', WriteFile ''/data/1/out/STDERR.log'' [],
        ReadFile ''/data/1/out/_metadata.json'', DBSetRunGotapMetadata 1 ''{}'' None, DBFinishRun 1 None,
        LogsClose ''c1'', ContainerRemove ''c1'', ClientClose]
   \<and> map gotap_metadata (runs (db_of (RunTool ascii_lib env_meta opt1 db1))) = [Some ''{}'']
   \<and> outcome_of (RunTool ascii_lib env_meta opt1 db1)
        = outcome_of (RunTool ascii_lib (env_meta\<lparr>read_file := (\<lambda>p. NotExist)\<rparr>) opt1 db1)
   \<and> forget_metadata (db_of (RunTool ascii_lib env_meta opt1 db1))
        = forget_metadata (db_of (RunTool ascii_lib (env_meta\<lparr>read_file := (\<lambda>p. NotExist)\<rparr>) opt1 db1))"
proof -
  have h1: "logs_collected ascii_lib env_meta opt1 ''c1'' 0 ''Hello'' ''''" by code_simp
  have h2: "start_result env_meta opt1 db1 = None" by code_simp
  have h3: "find (\<lambda>m. Target m = ''/out'') (build_mounts (Mounts (opt_Tool opt1)))
        = Some \<lparr>Source = ''/data/1/out'', Target = ''/out''\<rparr>" by code_simp
  have h4: "Source \<lparr>Source = ''/data/1/out'', Target = ''/out''\<rparr> \<noteq> ''''" by simp
  have e: "events_of (RunTool ascii_lib env_meta opt1 db1) =
       [ContainerCreate ''ubuntu'' [] [''echo'', ''Hello'']
          [\<lparr>Source = ''/data/1/in'', Target = ''/in''\<rparr>, \<lparr>Source = ''/data/1/out'', Target = ''/out''\<rparr>],
        ContainerStart ''c1'', DBStartRun 1 ''alice'' None, ContainerWait ''c1'', ContainerLogs ''c1'',
        StdCopy ''c1'', WriteFile ''/data/1/out/STDOUT.log'' ''Hello'', WriteFile ''/data/1/out/STDERR.log'' [],
        ReadFile ''/data/1/out/_metadata.json'', DBSetRunGotapMetadata 1 ''{}'' None, DBFinishRun 1 None,
        LogsClose ''c1'', ContainerRemove ''c1'', ClientClose]" by code_simp
  have g: "map gotap_metadata (runs (db_of (RunTool ascii_lib env_meta opt1 db1))) = [Some ''{}'']"
    by code_simp
  note t = metadata_step [OF h1 h2 h3 h4]
  from t have o: "outcome_of (RunTool ascii_lib env_meta opt1 db1)
        = outcome_of (RunTool ascii_lib (env_meta\<lparr>read_file := (\<lambda>p. NotExist)\<rparr>) opt1 db1)"
    by (elim conjE)
  from t have f: "forget_metadata (db_of (RunTool ascii_lib env_meta opt1 db1))
        = forget_metadata (db_of (RunTool ascii_lib (env_meta\<lparr>read_file := (\<lambda>p. NotExist)\<rparr>) opt1 db1))"
    by (elim conjE)
  from h1 h2 h3 e g o f show ?thesis by (intro conjI)
qed

section \<open>The order of the specification probe\<close>

lemma try_command_step:
  assumes "runContainerCommand dk img [c0] args = (evs, r)"
  shows "try_commands lib dk img ((c0, args) # cmds) =
           (case accepted lib r of
              Some s \<Rightarrow> (evs, Some s)
            | None \<Rightarrow> (evs @ fst (try_commands lib dk img cmds), snd (try_commands lib dk img cmds)))"
  using assms
  by (cases r) (auto simp: accepted_def case_prod_beta split: sum.splits option.splits)

lemma cat_spec_events:
  "runContainerCommand dk img [''cat''] [''/src/tool.yml''] = (evs, r) \<Longrightarrow> fst (cat_spec lib dk img) = evs"
  by (cases r) (simp add: cat_spec_def)

lemma cat_spec_no_specification:
  assumes "runContainerCommand dk img [''cat''] [''/src/tool.yml''] = (evs, out, serr, code, err)"
    and "err \<noteq> None \<or> code \<noteq> 0 \<or> TrimSpace lib out = '''' \<or> (\<exists>perr. LoadToolSpec lib out = Inl perr)"
  shows "\<exists>e. snd (cat_spec lib dk img) = Inl e"
  using assms by (auto simp: cat_spec_def split: option.splits sum.splits)

lemma cat_spec_found:
  assumes "runContainerCommand dk img [''cat''] [''/src/tool.yml''] = (evs, out, serr, code, None)"
    and "code = 0" and "TrimSpace lib out \<noteq> ''''" and "LoadToolSpec lib out = Inr s"
  shows "snd (cat_spec lib dk img) = Inr s"
  using assms by (simp add: cat_spec_def)

lemma runContainerCommand_first:
  "\<exists>rest. fst (runContainerCommand dk img ep cmd) = ContainerCreate img ep cmd [] # rest"
  by (simp add: runContainerCommand_def case_prod_beta split: sum.splits)

lemma runContainerCommand_last:
  assumes "create_res (dk img ep cmd) = Inr cid"
  shows "last (fst (runContainerCommand dk img ep cmd)) = ContainerRemove cid"
  using assms by (simp add: runContainerCommand_def case_prod_beta)

text \<open>
  C6, as amended. \<open>readToolSpec\<close> first runs \<open>sh -lc 'command -v gotap || which gotap'\<close>
  in a container of the image, which is removed at the end of the command if it was
  created. If this detection command itself fails, \<open>readToolSpec\<close> returns its error
  and runs nothing else. If it exits with code 0 and prints a non-blank path, the shim
  at that path is run with \<open>metadata --spec-file /src/tool.yml\<close>, then
  \<open>parse --spec-file /src/tool.yml\<close>, then \<open>parse /src/tool.yml\<close>, and the spec of the
  first invocation that exits zero with non-blank, parseable output is returned; the
  later invocations are not run. If no shim is found, or none of the three invocations
  is accepted, \<open>cat /src/tool.yml\<close> is run: an error, a non-zero exit, blank output or
  unparseable output makes the result an error, and parseable output is returned as
  the spec.
\<close>

theorem spec_read_procedure:
  assumes det: "runContainerCommand dk img [''sh'', ''-lc''] [''command -v gotap || which gotap'']
                  = (e0, out0, serr0, code0, err0)"
    and c1: "runContainerCommand dk img [TrimSpace lib out0] [''metadata'', ''--spec-file'', ''/src/tool.yml'']
               = (e1, r1)"
    and c2: "runContainerCommand dk img [TrimSpace lib out0] [''parse'', ''--spec-file'', ''/src/tool.yml'']
               = (e2, r2)"
    and c3: "runContainerCommand dk img [TrimSpace lib out0] [''parse'', ''/src/tool.yml''] = (e3, r3)"
    and cat: "runContainerCommand dk img [''cat''] [''/src/tool.yml''] = (e4, out4, serr4, code4, err4)"
  shows "readToolSpec lib dk img =
           (case err0 of
              Some e \<Rightarrow> (e0, Inl e)
            | None \<Rightarrow>
                if code0 = 0 \<and> TrimSpace lib out0 \<noteq> '''' then
                  (case accepted lib r1 of
                     Some s \<Rightarrow> (e0 @ e1, Inr s)
                   | None \<Rightarrow>
                       (case accepted lib r2 of
                          Some s \<Rightarrow> (e0 @ e1 @ e2, Inr s)
                        | None \<Rightarrow>
                            (case accepted lib r3 of
                               Some s \<Rightarrow> (e0 @ e1 @ e2 @ e3, Inr s)
                             | None \<Rightarrow> (e0 @ e1 @ e2 @ e3 @ e4, snd (cat_spec lib dk img)))))
                else (e0 @ e4, snd (cat_spec lib dk img)))
       \<and> (err4 \<noteq> None \<or> code4 \<noteq> 0 \<or> TrimSpace lib out4 = '''' \<or> (\<exists>perr. LoadToolSpec lib out4 = Inl perr)
            \<longrightarrow> (\<exists>e. snd (cat_spec lib dk img) = Inl e))
       \<and> (\<forall>s. err4 = None \<and> code4 = 0 \<and> TrimSpace lib out4 \<noteq> '''' \<and> LoadToolSpec lib out4 = Inr s
            \<longrightarrow> snd (cat_spec lib dk img) = Inr s)
       \<and> (\<exists>rest. e0 = ContainerCreate img [''sh'', ''-lc''] [''command -v gotap || which gotap''] [] # rest)
       \<and> (\<forall>cid. create_res (dk img [''sh'', ''-lc''] [''command -v gotap || which gotap'']) = Inr cid
            \<longrightarrow> last e0 = ContainerRemove cid)"
proof -
  let ?p = "TrimSpace lib out0"
  have t3: "try_commands lib dk img [(?p, [''parse'', ''/src/tool.yml''])] =
              (case accepted lib r3 of Some s \<Rightarrow> (e3, Some s) | None \<Rightarrow> (e3, None))"
    by (simp add: try_command_step [OF c3] del: try_commands.simps(2) split: option.splits)
  have t2: "try_commands lib dk img [(?p, [''parse'', ''--spec-file'', ''/src/tool.yml'']),
                                     (?p, [''parse'', ''/src/tool.yml''])] =
              (case accepted lib r2 of
                 Some s \<Rightarrow> (e2, Some s)
               | None \<Rightarrow> (case accepted lib r3 of Some s \<Rightarrow> (e2 @ e3, Some s) | None \<Rightarrow> (e2 @ e3, None)))"
    by (simp add: try_command_step [OF c2] t3 del: try_commands.simps(2) split: option.splits)
  have t1: "try_commands lib dk img (shim_commands ?p) =
              (case accepted lib r1 of
                 Some s \<Rightarrow> (e1, Some s)
               | None \<Rightarrow>
                   (case accepted lib r2 of
                      Some s \<Rightarrow> (e1 @ e2, Some s)
                    | None \<Rightarrow> (case accepted lib r3 of Some s \<Rightarrow> (e1 @ e2 @ e3, Some s)
                               | None \<Rightarrow> (e1 @ e2 @ e3, None))))"
    unfolding shim_commands_def by (simp add: try_command_step [OF c1] t2 del: try_commands.simps(2) split: option.splits)
  from cat have ce: "fst (cat_spec lib dk img) = e4" by (rule cat_spec_events)
  have pg: "ProbeGotap lib dk img =
              (case err0 of
                 Some e \<Rightarrow> (e0, ('''', False, Some e))
               | None \<Rightarrow> if code0 = 0 \<and> ?p \<noteq> '''' then (e0, (?p, True, None)) else (e0, ('''', False, None)))"
    using det by (simp add: ProbeGotap_def detect_cmd_def Let_def split: option.splits)
  have main: "readToolSpec lib dk img =
           (case err0 of
              Some e \<Rightarrow> (e0, Inl e)
            | None \<Rightarrow>
                if code0 = 0 \<and> TrimSpace lib out0 \<noteq> '''' then
                  (case accepted lib r1 of
                     Some s \<Rightarrow> (e0 @ e1, Inr s)
                   | None \<Rightarrow>
                       (case accepted lib r2 of
                          Some s \<Rightarrow> (e0 @ e1 @ e2, Inr s)
                        | None \<Rightarrow>
                            (case accepted lib r3 of
                               Some s \<Rightarrow> (e0 @ e1 @ e2 @ e3, Inr s)
                             | None \<Rightarrow> (e0 @ e1 @ e2 @ e3 @ e4, snd (cat_spec lib dk img)))))
                else (e0 @ e4, snd (cat_spec lib dk img)))"
  proof (cases err0)
    case (Some e)
    then show ?thesis by (simp add: readToolSpec_def pg)
  next
    case None
    show ?thesis
    proof (cases "code0 = 0 \<and> ?p \<noteq> ''''")
      case True
      with None have "ProbeGotap lib dk img = (e0, (?p, True, None))" by (simp add: pg)
      then show ?thesis using None True
        by (simp add: readToolSpec_def t1 case_prod_beta ce split: option.splits)
    next
      case False
      with None have "ProbeGotap lib dk img = (e0, ('''', False, None))" by (simp add: pg)
      then show ?thesis using None False
        by (auto simp: readToolSpec_def case_prod_beta ce)
    qed
  qed
  have nospec: "err4 \<noteq> None \<or> code4 \<noteq> 0 \<or> TrimSpace lib out4 = '''' \<or> (\<exists>perr. LoadToolSpec lib out4 = Inl perr)
            \<longrightarrow> (\<exists>e. snd (cat_spec lib dk img) = Inl e)"
    using cat_spec_no_specification [OF cat] by blast
  have found: "\<forall>s. err4 = None \<and> code4 = 0 \<and> TrimSpace lib out4 \<noteq> '''' \<and> LoadToolSpec lib out4 = Inr s
            \<longrightarrow> snd (cat_spec lib dk img) = Inr s"
    using cat cat_spec_found by blast
  from runContainerCommand_first [of dk img "[''sh'', ''-lc'']" "[''command -v gotap || which gotap'']"] det
  have first: "\<exists>rest. e0 = ContainerCreate img [''sh'', ''-lc''] [''command -v gotap || which gotap''] [] # rest"
    by simp
  have lst: "\<forall>cid. create_res (dk img [''sh'', ''-lc''] [''command -v gotap || which gotap'']) = Inr cid
            \<longrightarrow> last e0 = ContainerRemove cid"
    using runContainerCommand_last [of dk img "[''sh'', ''-lc'']" "[''command -v gotap || which gotap'']"] det
    by simp
  from main nospec found first lst show ?thesis by (intro conjI)
qed

text \<open>
  The claim C6 as written lets every probe in which no shim is found fall back to
  \<open>cat\<close>. The image \<open>img_no_shell\<close> has no shell, so the detection command cannot be
  started: no shim is found, and \<open>readToolSpec\<close> returns the start error without
  running \<open>cat\<close>, which would have printed a valid spec.
\<close>

theorem detection_failure_counterexample:
  "ProbeGotap ascii_lib img_no_shell ''img'' =
     ([ContainerCreate ''img'' [''sh'', ''-lc''] [''command -v gotap || which gotap''] [],
       ContainerStart ''p0'', ContainerRemove ''p0''],
      ('''', False, Some ''exec: sh: executable file not found''))
   \<and> readToolSpec ascii_lib img_no_shell ''img'' =
     ([ContainerCreate ''img'' [''sh'', ''-lc''] [''command -v gotap || which gotap''] [],
       ContainerStart ''p0'', ContainerRemove ''p0''],
      Inl ''exec: sh: executable file not found'')
   \<and> cat_spec ascii_lib img_no_shell ''img'' =
     ([ContainerCreate ''img'' [''cat''] [''/src/tool.yml''] [], ContainerStart ''p4'', ContainerWait ''p4'',
       ContainerLogs ''p4'', StdCopy ''p4'', LogsClose ''p4'', ContainerRemove ''p4''],
      Inr \<lparr>Tools = []\<rparr>)"
  by code_simp

text \<open>
  The image \<open>img_shim\<close>: the shim is found, \<open>metadata\<close> exits with code 2, and the spec
  comes from \<open>parse --spec-file\<close>; the third invocation and \<open>cat\<close> are not run.
\<close>

theorem spec_read_procedure_witness:
  "runContainerCommand img_shim ''img'' [''sh'', ''-lc''] [''command -v gotap || which gotap''] =
     ([ContainerCreate ''img'' [''sh'', ''-lc''] [''command -v gotap || which gotap''] [],
       ContainerStart ''p0'', ContainerWait ''p0'', ContainerLogs ''p0'', StdCopy ''p0'', LogsClose ''p0'',
       ContainerRemove ''p0''],
      ''/usr/bin/gotap'' @ [CHR 0x0A], '''', 0, None)
   \<and> readToolSpec ascii_lib img_shim ''img'' =
     ([ContainerCreate ''img'' [''sh'', ''-lc''] [''command -v gotap || which gotap''] [],
       ContainerStart ''p0'', ContainerWait ''p0'', ContainerLogs ''p0'', StdCopy ''p0'', LogsClose ''p0'',
       ContainerRemove ''p0'',
       ContainerCreate ''img'' [''/usr/bin/gotap''] [''metadata'', ''--spec-file'', ''/src/tool.yml''] [],
       ContainerStart ''p1'', ContainerWait ''p1'', ContainerLogs ''p1'', StdCopy ''p1'', LogsClose ''p1'',
       ContainerRemove ''p1'',
       ContainerCreate ''img'' [''/usr/bin/gotap''] [''parse'', ''--spec-file'', ''/src/tool.yml''] [],
       ContainerStart ''p2'', ContainerWait ''p2'', ContainerLogs ''p2'', StdCopy ''p2'', LogsClose ''p2'',
       ContainerRemove ''p2''],
      Inr \<lparr>Tools = []\<rparr>)"
proof -
  let ?e0 = "[ContainerCreate ''img'' [''sh'', ''-lc''] [''command -v gotap || which gotap''] [],
       ContainerStart ''p0'', ContainerWait ''p0'', ContainerLogs ''p0'', StdCopy ''p0'', LogsClose ''p0'',
       ContainerRemove ''p0'']"
  let ?e1 = "[ContainerCreate ''img'' [''/usr/bin/gotap''] [''metadata'', ''--spec-file'', ''/src/tool.yml''] [],
       ContainerStart ''p1'', ContainerWait ''p1'', ContainerLogs ''p1'', StdCopy ''p1'', LogsClose ''p1'',
       ContainerRemove ''p1'']"
  let ?e2 = "[ContainerCreate ''img'' [''/usr/bin/gotap''] [''parse'', ''--spec-file'', ''/src/tool.yml''] [],
       ContainerStart ''p2'', ContainerWait ''p2'', ContainerLogs ''p2'', StdCopy ''p2'', LogsClose ''p2'',
       ContainerRemove ''p2'']"
  let ?e3 = "[ContainerCreate ''img'' [''/usr/bin/gotap''] [''parse'', ''/src/tool.yml''] [],
       ContainerStart ''p2'', ContainerWait ''p2'', ContainerLogs ''p2'', StdCopy ''p2'', LogsClose ''p2'',
       ContainerRemove ''p2'']"
  let ?e4 = "[ContainerCreate ''img'' [''cat''] [''/src/tool.yml''] [],
       ContainerStart ''p2'', ContainerWait ''p2'', ContainerLogs ''p2'', StdCopy ''p2'', LogsClose ''p2'',
       ContainerRemove ''p2'']"
  let ?out0 = "''/usr/bin/gotap'' @ [CHR 0x0A]"
  have det: "runContainerCommand img_shim ''img'' [''sh'', ''-lc''] [''command -v gotap || which gotap'']
               = (?e0, ?out0, '''', 0, None)" by code_simp
  have c1: "runContainerCommand img_shim ''img'' [TrimSpace ascii_lib ?out0]
              [''metadata'', ''--spec-file'', ''/src/tool.yml''] = (?e1, '''', ''unknown command'', 2, None)"
    by code_simp
  have c2: "runContainerCommand img_shim ''img'' [TrimSpace ascii_lib ?out0]
              [''parse'', ''--spec-file'', ''/src/tool.yml''] = (?e2, ''tools'', '''', 0, None)"
    by code_simp
  have c3: "runContainerCommand img_shim ''img'' [TrimSpace ascii_lib ?out0]
              [''parse'', ''/src/tool.yml''] = (?e3, ''tools'', '''', 0, None)"
    by code_simp
  have cat: "runContainerCommand img_shim ''img'' [''cat''] [''/src/tool.yml''] = (?e4, ''tools'', '''', 0, None)"
    by code_simp
  have t: "TrimSpace ascii_lib ?out0 \<noteq> ''''" by code_simp
  have a1: "accepted ascii_lib ('''', ''unknown command'', 2, None) = None" by code_simp
  have a2: "accepted ascii_lib (''tools'', '''', 0, None) = Some \<lparr>Tools = []\<rparr>" by code_simp
  from spec_read_procedure [OF det c1 c2 c3 cat] have "readToolSpec ascii_lib img_shim ''img'' =
      (case accepted ascii_lib ('''', ''unknown command'', 2, None) of
         None \<Rightarrow> (case accepted ascii_lib (''tools'', '''', 0, None) of
                    None \<Rightarrow> (case accepted ascii_lib (''tools'', '''', 0, None) of
                               None \<Rightarrow> (?e0 @ ?e1 @ ?e2 @ ?e3 @ ?e4, snd (cat_spec ascii_lib img_shim ''img''))
                             | Some s \<Rightarrow> (?e0 @ ?e1 @ ?e2 @ ?e3, Inr s))
                  | Some s \<Rightarrow> (?e0 @ ?e1 @ ?e2, Inr s))
       | Some s \<Rightarrow> (?e0 @ ?e1, Inr s))"
    using t by simp
  then have "readToolSpec ascii_lib img_shim ''img'' = (?e0 @ ?e1 @ ?e2, Inr \<lparr>Tools = []\<rparr>)"
    by (simp only: a1 a2 option.case)
  with det show ?thesis by simp
qed

section \<open>Failures during discovery\<close>

lemma probe_image_skip:
  assumes "GetImageSpec c tag = None" and "worker_client env tag = None"
    and "readToolSpec lib (disc_docker env) tag = (evs, Inl e)"
  shows "probe_image lib env verbose tag c =
           (c, evs @ (if verbose then [LogPrintf (''image '' @ tag @ '' does not contain a tool-spec'')] else [])
                 @ [ClientClose],
            \<lparr>res_tools = [], res_err = None\<rparr>)"
  using assms by (simp add: probe_image_def)

lemma probe_image_err:
  "res_err (snd (snd (probe_image lib env verbose tag c)))
     = (if GetImageSpec c tag = None then worker_client env tag else None)"
  by (simp add: probe_image_def case_prod_beta split: option.splits sum.splits)

lemma insert_tools_image_specs:
  "image_specs (fst (insert_tools tag cit ts c tools)) = image_specs c"
  by (induction tag cit ts c tools rule: insert_tools.induct) (simp_all add: Let_def SetToolSpec_def)

lemma probe_image_image_specs:
  assumes "t \<noteq> tag"
  shows "image_specs (fst (probe_image lib env verbose tag c)) t = image_specs c t"
  using assms
  by (simp add: probe_image_def case_prod_beta insert_tools_image_specs SetImageSpec_def
        split: option.splits sum.splits)

lemma run_workers_errors:
  "r \<in> set (snd (snd (run_workers lib env verbose tags c))) \<Longrightarrow> res_err r = Some e \<Longrightarrow>
     \<exists>tag\<in>set tags. worker_client env tag = Some e"
proof (induction tags arbitrary: c)
  case Nil
  then show ?case by simp
next
  case (Cons tag tags)
  let ?p = "probe_image lib env verbose tag c"
  from Cons.prems(1) have "r = snd (snd ?p) \<or> r \<in> set (snd (snd (run_workers lib env verbose tags (fst ?p))))"
    by (simp add: case_prod_beta)
  then show ?case
  proof
    assume "r = snd (snd ?p)"
    with Cons.prems(2) probe_image_err [of lib env verbose tag c] have "worker_client env tag = Some e"
      by (simp split: if_splits)
    then show ?thesis by simp
  next
    assume "r \<in> set (snd (snd (run_workers lib env verbose tags (fst ?p))))"
    from Cons.IH [OF this Cons.prems(2)] show ?thesis by simp
  qed
qed

lemma run_workers_fails:
  "t \<in> set tags \<Longrightarrow> image_specs c t = None \<Longrightarrow> worker_client env t = Some e \<Longrightarrow>
     \<exists>r\<in>set (snd (snd (run_workers lib env verbose tags c))). res_err r \<noteq> None"
proof (induction tags arbitrary: c)
  case Nil
  then show ?case by simp
next
  case (Cons tag tags)
  let ?p = "probe_image lib env verbose tag c"
  have rs: "snd (snd (run_workers lib env verbose (tag # tags) c))
              = snd (snd ?p) # snd (snd (run_workers lib env verbose tags (fst ?p)))"
    by (simp add: case_prod_beta)
  show ?case
  proof (cases "t = tag")
    case True
    with Cons.prems probe_image_err [of lib env verbose tag c] have "res_err (snd (snd ?p)) = Some e"
      by (simp add: GetImageSpec_def)
    then show ?thesis unfolding rs by simp
  next
    case False
    with Cons.prems(1) have "t \<in> set tags" by simp
    moreover from False Cons.prems(2) have "image_specs (fst ?p) t = None"
      by (simp add: probe_image_image_specs)
    ultimately have "\<exists>r\<in>set (snd (snd (run_workers lib env verbose tags (fst ?p)))). res_err r \<noteq> None"
      using Cons.prems(3) by (rule Cons.IH)
    then show ?thesis unfolding rs by simp
  qed
qed

lemma run_workers_length:
  "length (snd (snd (run_workers lib env verbose tags c))) = length tags"
  by (induction tags arbitrary: c) (simp_all add: case_prod_beta)

lemma collect_Inl:
  "collect env i rs acc = Inl e \<Longrightarrow> e = ctx_err env \<or> (\<exists>r\<in>set rs. res_err r = Some e)"
  by (induction env i rs acc rule: collect.induct) (auto split: if_splits option.splits)

lemma collect_ok:
  "\<forall>j<length rs. \<not> ctx_done env (i + j) \<Longrightarrow> \<forall>r\<in>set rs. res_err r = None \<Longrightarrow>
     collect env i rs acc = Inr (acc @ concat (map res_tools rs))"
proof (induction env i rs acc rule: collect.induct)
  case (1 env i allTools)
  then show ?case by simp
next
  case (2 env i res rest allTools)
  from "2.prems"(1) have nd: "\<not> ctx_done env i" by auto
  from "2.prems"(2) have ne: "res_err res = None" by simp
  have "\<forall>j<length rest. \<not> ctx_done env (Suc i + j)"
  proof (intro allI impI)
    fix j assume "j < length rest"
    then have "Suc j < length (res # rest)" by simp
    with "2.prems"(1) have "\<not> ctx_done env (i + Suc j)" by blast
    then show "\<not> ctx_done env (Suc i + j)" by simp
  qed
  moreover from "2.prems"(2) have "\<forall>r\<in>set rest. res_err r = None" by simp
  ultimately have "collect env (Suc i) rest (allTools @ res_tools res)
      = Inr ((allTools @ res_tools res) @ concat (map res_tools rest))"
    using nd ne by (intro "2.IH") simp_all
  with nd ne show ?case by simp
qed

lemma collect_fail:
  "\<exists>r\<in>set rs. res_err r \<noteq> None \<Longrightarrow> \<exists>e. collect env i rs acc = Inl e"
  by (induction env i rs acc rule: collect.induct) (auto split: option.splits)

lemma ReadAllTools_result:
  assumes "list_client env = None" and "image_list env = Inr summary"
  shows "snd (snd (ReadAllTools lib env c verbose))
           = collect env 0 (snd (snd (run_workers lib env verbose (completion env (imagesWithTags summary)) c))) []"
  using assms by (simp add: ReadAllTools_def case_prod_beta split: sum.splits)

text \<open>
  C3, as amended. In a discovery pass that has opened its client and listed the
  images, every failure of \<open>readToolSpec\<close> on an image, whatever its reason, is
  skipped: the goroutine logs one line when verbose, leaves the cache as it is and
  sends an empty result without error. The call fails only with the error of
  \<open>ctx.Err()\<close> or with the error of opening the client in the goroutine of some
  image: if every goroutine can open its client and the context is not done, the call
  succeeds; if the goroutine of an image that is not cached cannot open its client,
  the call fails.
\<close>

theorem only_client_failures_fail_discovery:
  assumes lc: "list_client env = None" and il: "image_list env = Inr summary"
  shows "(\<forall>e. snd (snd (ReadAllTools lib env c verbose)) = Inl e \<longrightarrow>
            e = ctx_err env
            \<or> (\<exists>tag\<in>set (completion env (imagesWithTags summary)). worker_client env tag = Some e))
       \<and> ((\<forall>i<length (completion env (imagesWithTags summary)). \<not> ctx_done env i)
            \<and> (\<forall>tag\<in>set (completion env (imagesWithTags summary)). worker_client env tag = None)
            \<longrightarrow> (\<exists>tools. snd (snd (ReadAllTools lib env c verbose)) = Inr tools))
       \<and> ((\<exists>tag\<in>set (completion env (imagesWithTags summary)).
               image_specs c tag = None \<and> worker_client env tag \<noteq> None)
            \<longrightarrow> (\<exists>e. snd (snd (ReadAllTools lib env c verbose)) = Inl e))
       \<and> (\<forall>tag c' evs e. GetImageSpec c' tag = None \<and> worker_client env tag = None
              \<and> readToolSpec lib (disc_docker env) tag = (evs, Inl e) \<longrightarrow>
            probe_image lib env verbose tag c' =
              (c', evs @ (if verbose then [LogPrintf (''image '' @ tag @ '' does not contain a tool-spec'')]
                          else []) @ [ClientClose],
               \<lparr>res_tools = [], res_err = None\<rparr>))"
proof -
  let ?tags = "completion env (imagesWithTags summary)"
  let ?rs = "snd (snd (run_workers lib env verbose ?tags c))"
  note res = ReadAllTools_result [OF lc il, of lib c verbose]
  have p1: "\<forall>e. snd (snd (ReadAllTools lib env c verbose)) = Inl e \<longrightarrow>
            e = ctx_err env \<or> (\<exists>tag\<in>set ?tags. worker_client env tag = Some e)"
  proof (intro allI impI)
    fix e assume "snd (snd (ReadAllTools lib env c verbose)) = Inl e"
    then have "collect env 0 ?rs [] = Inl e" by (simp only: res)
    from collect_Inl [OF this] show "e = ctx_err env \<or> (\<exists>tag\<in>set ?tags. worker_client env tag = Some e)"
    proof
      assume "e = ctx_err env" then show ?thesis by simp
    next
      assume "\<exists>r\<in>set ?rs. res_err r = Some e"
      then obtain r where "r \<in> set ?rs" and "res_err r = Some e" by blast
      then have "\<exists>tag\<in>set ?tags. worker_client env tag = Some e" by (rule run_workers_errors)
      then show ?thesis by simp
    qed
  qed
  have p2: "(\<forall>i<length ?tags. \<not> ctx_done env i) \<and> (\<forall>tag\<in>set ?tags. worker_client env tag = None)
            \<longrightarrow> (\<exists>tools. snd (snd (ReadAllTools lib env c verbose)) = Inr tools)"
  proof
    assume a: "(\<forall>i<length ?tags. \<not> ctx_done env i) \<and> (\<forall>tag\<in>set ?tags. worker_client env tag = None)"
    then have nd: "\<forall>j<length ?rs. \<not> ctx_done env (0 + j)" by (simp add: run_workers_length)
    have ne: "\<forall>r\<in>set ?rs. res_err r = None"
    proof
      fix r assume r: "r \<in> set ?rs"
      show "res_err r = None"
      proof (cases "res_err r")
        case None then show ?thesis .
      next
        case (Some e)
        from run_workers_errors [OF r Some] a show ?thesis by auto
      qed
    qed
    from collect_ok [OF nd ne] show "\<exists>tools. snd (snd (ReadAllTools lib env c verbose)) = Inr tools"
      by (simp only: res) blast
  qed
  have p3: "(\<exists>tag\<in>set ?tags. image_specs c tag = None \<and> worker_client env tag \<noteq> None)
            \<longrightarrow> (\<exists>e. snd (snd (ReadAllTools lib env c verbose)) = Inl e)"
  proof
    assume "\<exists>tag\<in>set ?tags. image_specs c tag = None \<and> worker_client env tag \<noteq> None"
    then obtain tag e where "tag \<in> set ?tags" "image_specs c tag = None" "worker_client env tag = Some e"
      by auto
    then have "\<exists>r\<in>set ?rs. res_err r \<noteq> None" by (rule run_workers_fails)
    then have "\<exists>e. collect env 0 ?rs [] = Inl e" by (rule collect_fail)
    then show "\<exists>e. snd (snd (ReadAllTools lib env c verbose)) = Inl e" by (simp only: res)
  qed
  have p4: "\<forall>tag c' evs e. GetImageSpec c' tag = None \<and> worker_client env tag = None
              \<and> readToolSpec lib (disc_docker env) tag = (evs, Inl e) \<longrightarrow>
            probe_image lib env verbose tag c' =
              (c', evs @ (if verbose then [LogPrintf (''image '' @ tag @ '' does not contain a tool-spec'')]
                          else []) @ [ClientClose],
               \<lparr>res_tools = [], res_err = None\<rparr>)"
    using probe_image_skip by blast
  from p1 p2 p3 p4 show ?thesis by (intro conjI)
qed

text \<open>
  The claim C3 as written makes the call fail when the probe of an image fails for
  another reason than a missing specification. In \<open>denv_ghost\<close> no container can be
  created from the listed image: \<open>readToolSpec\<close> fails with the error of the daemon, the
  image is logged as one without a tool-spec, and the call succeeds with no tools.
\<close>

theorem unreachable_image_skipped_counterexample:
  "imagesWithTags [[''ghost:latest''], []] = [''ghost:latest'']
   \<and> readToolSpec ascii_lib (disc_docker denv_ghost) ''ghost:latest'' =
       ([ContainerCreate ''ghost:latest'' [''sh'', ''-lc''] [''command -v gotap || which gotap''] []],
        Inl ''No such image: ghost:latest'')
   \<and> fst (snd (ReadAllTools ascii_lib denv_ghost cache0 True)) =
       [ContainerCreate ''ghost:latest'' [''sh'', ''-lc''] [''command -v gotap || which gotap''] [],
        LogPrintf ''image ghost:latest does not contain a tool-spec'', ClientClose, ClientClose]
   \<and> snd (snd (ReadAllTools ascii_lib denv_ghost cache0 True)) = Inr []
   \<and> Initialised (fst (ReadAllTools ascii_lib denv_ghost cache0 True))"
  by code_simp

text \<open>
  The pass of \<open>denv_ghost\<close> succeeds although its only probe fails; the pass of
  \<open>denv_no_client\<close> fails with the error of opening the client.
\<close>

theorem only_client_failures_fail_discovery_witness:
  "list_client denv_ghost = None \<and> image_list denv_ghost = Inr [[''ghost:latest''], []]
   \<and> completion denv_ghost (imagesWithTags [[''ghost:latest''], []]) = [''ghost:latest'']
   \<and> worker_client denv_ghost ''ghost:latest'' = None
   \<and> (\<exists>tools. snd (snd (ReadAllTools ascii_lib denv_ghost cache0 True)) = Inr tools)
   \<and> list_client denv_no_client = None \<and> image_list denv_no_client = Inr [[''ghost:latest''], []]
   \<and> completion denv_no_client (imagesWithTags [[''ghost:latest''], []]) = [''ghost:latest'']
   \<and> image_specs cache0 ''ghost:latest'' = None
   \<and> worker_client denv_no_client ''ghost:latest'' = Some ''unable to parse docker host''
   \<and> (\<exists>e. snd (snd (ReadAllTools ascii_lib denv_no_client cache0 True)) = Inl e)
   \<and> snd (snd (ReadAllTools ascii_lib denv_no_client cache0 True)) = Inl ''unable to parse docker host''"
proof -
  have a1: "list_client denv_ghost = None" by code_simp
  have a2: "image_list denv_ghost = Inr [[''ghost:latest''], []]" by code_simp
  have a3: "completion denv_ghost (imagesWithTags [[''ghost:latest''], []]) = [''ghost:latest'']" by code_simp
  have a4: "worker_client denv_ghost ''ghost:latest'' = None" by code_simp
  have a5: "\<not> ctx_done denv_ghost 0" by code_simp
  have b1: "list_client denv_no_client = None" by code_simp
  have b2: "image_list denv_no_client = Inr [[''ghost:latest''], []]" by code_simp
  have b3: "completion denv_no_client (imagesWithTags [[''ghost:latest''], []]) = [''ghost:latest'']" by code_simp
  have b4: "image_specs cache0 ''ghost:latest'' = None" by code_simp
  have b5: "worker_client denv_no_client ''ghost:latest'' = Some ''unable to parse docker host''" by code_simp
  have b6: "snd (snd (ReadAllTools ascii_lib denv_no_client cache0 True)) = Inl ''unable to parse docker host''"
    by code_simp
  note A = only_client_failures_fail_discovery [OF a1 a2, of ascii_lib cache0 True]
  note B = only_client_failures_fail_discovery [OF b1 b2, of ascii_lib cache0 True]
  from A have "(\<forall>i<length (completion denv_ghost (imagesWithTags [[''ghost:latest''], []])). \<not> ctx_done denv_ghost i)
            \<and> (\<forall>tag\<in>set (completion denv_ghost (imagesWithTags [[''ghost:latest''], []])). worker_client denv_ghost tag = None)
            \<longrightarrow> (\<exists>tools. snd (snd (ReadAllTools ascii_lib denv_ghost cache0 True)) = Inr tools)"
    by (elim conjE)
  with a4 a5 have ok: "\<exists>tools. snd (snd (ReadAllTools ascii_lib denv_ghost cache0 True)) = Inr tools"
    by (simp add: a3)
  from B have "(\<exists>tag\<in>set (completion denv_no_client (imagesWithTags [[''ghost:latest''], []])).
               image_specs cache0 tag = None \<and> worker_client denv_no_client tag \<noteq> None)
            \<longrightarrow> (\<exists>e. snd (snd (ReadAllTools ascii_lib denv_no_client cache0 True)) = Inl e)"
    by (elim conjE)
  with b4 b5 have fail: "\<exists>e. snd (snd (ReadAllTools ascii_lib denv_no_client cache0 True)) = Inl e"
    by (simp add: b3)
  from a1 a2 a3 a4 ok b1 b2 b3 b4 b5 fail b6 show ?thesis by (intro conjI)
qed

end
